theory Spec2Isabelle
  imports Main "HOL-Library.Finite_Map" "HOL-Library.Multiset"
begin

section \<open>Kubernetes documents\<close>

text \<open>
  The controller of \<^verbatim>\<open>internal/controller/kubenova_controller.go\<close> reads and writes
  Kubernetes API objects. Each Go struct is a record that keeps the fields the controller,
  the validator and the small builders touch, plus a few representative fields they never
  touch. Go field names are kept; where two structs share a field name the record field
  carries a short prefix of its struct (\<open>env_Name\<close>, \<open>vm_Name\<close>, \<open>vol_Name\<close>).

  \<^item> Go's \<^verbatim>\<open>int32\<close>/\<^verbatim>\<open>int64\<close> fields are \<open>int\<close>: the controller only compares them.
  \<^item> A Go \<^verbatim>\<open>map[string]string\<close> is a finite map; \<open>None\<close> is the nil map.
    \<^verbatim>\<open>reflect.DeepEqual\<close> on such maps is equality of these values.
  \<^item> A \<^verbatim>\<open>resource.Quantity\<close> is an opaque string, compared by equality.
  \<^item> A pointer field is an \<open>option\<close>; \<open>None\<close> is nil.
  \<^item> A Go string is its UTF-8 byte sequence, so a \<open>string\<close> here is a list of bytes.
\<close>

type_synonym Time = int
type_synonym StringMap = "(string, string) fmap option"

record OwnerReference =
  or_Kind :: string
  or_Name :: string
  or_Controller :: bool

record ObjectMeta =
  Name :: string
  Namespace :: string
  Labels :: StringMap
  Annotations :: StringMap
  OwnerReferences :: "OwnerReference list"
  Finalizers :: "string list"
  ResourceVersion :: string
  Generation :: int
  DeletionTimestamp :: "Time option"

record NamespacedName =
  nn_Namespace :: string
  nn_Name :: string

subsection \<open>Workload documents (apps/v1 Deployment)\<close>

record EnvVar =
  env_Name :: string
  env_Value :: string
  env_ValueFrom :: "string option"

record VolumeMount =
  vm_Name :: string
  vm_MountPath :: string
  vm_SubPath :: string
  vm_ReadOnly :: bool

datatype VolumeSource =
    ConfigMapVolumeSource string
  | SecretVolumeSource string
  | EmptyDirVolumeSource string

record Volume =
  vol_Name :: string
  vol_VolumeSource :: VolumeSource

record ResourceRequirements =
  Requests :: StringMap
  Limits :: StringMap

record Container =
  c_Name :: string
  Image :: string
  ImagePullPolicy :: string
  c_Ports :: "int list"
  Env :: "EnvVar list"
  Resources :: ResourceRequirements
  VolumeMounts :: "VolumeMount list"

record PodSpec =
  Containers :: "Container list"
  Volumes :: "Volume list"
  ServiceAccountName :: string
  ImagePullSecrets :: "string list"
  NodeName :: string
  DNSPolicy :: string
  RestartPolicy :: string
  SchedulerName :: string

record PodTemplateSpec =
  tpl_ObjectMeta :: ObjectMeta
  tpl_Spec :: PodSpec

record DeploymentSpec =
  Replicas :: "int option"
  Selector :: StringMap
  Template :: PodTemplateSpec
  Strategy :: string

record DeploymentStatus =
  ReadyReplicas :: int
  AvailableReplicas :: int

record Deployment =
  dp_ObjectMeta :: ObjectMeta
  dp_Spec :: DeploymentSpec
  dp_Status :: DeploymentStatus

subsection \<open>Network-expose, configuration, credential and RBAC documents\<close>

record ServicePort =
  sp_Name :: string
  sp_Port :: int
  sp_NodePort :: int

record ServiceSpec =
  svc_Type :: string
  svc_Ports :: "ServicePort list"
  svc_ClusterIP :: string

record Service =
  svc_ObjectMeta :: ObjectMeta
  svc_Spec :: ServiceSpec

record ConfigMap =
  cm_ObjectMeta :: ObjectMeta
  cm_Data :: StringMap

record Secret =
  sec_ObjectMeta :: ObjectMeta
  sec_Data :: StringMap

record ServiceAccount =
  sa_ObjectMeta :: ObjectMeta

record Subject =
  sub_Kind :: string
  sub_Name :: string
  sub_Namespace :: string

record RoleRef =
  rr_APIGroup :: string
  rr_Kind :: string
  rr_Name :: string

record ClusterRoleBinding =
  crb_ObjectMeta :: ObjectMeta
  Subjects :: "Subject list"
  RoleRef :: RoleRef

record Ingress =
  ing_ObjectMeta :: ObjectMeta
  ing_Rules :: "string list"

record Namespace_doc =
  ns_ObjectMeta :: ObjectMeta

subsection \<open>Nodes\<close>

record NodeCondition =
  nc_Type :: string
  nc_Status :: string

record NodeAddress =
  na_Type :: string
  na_Address :: string

record NodeStatus =
  node_Conditions :: "NodeCondition list"
  node_Addresses :: "NodeAddress list"

record Node =
  node_ObjectMeta :: ObjectMeta
  node_Status :: NodeStatus

definition NodeReady :: string where "NodeReady = ''Ready''"
definition ConditionTrue_str :: string where "ConditionTrue_str = ''True''"
definition NodeExternalIP :: string where "NodeExternalIP = ''ExternalIP''"
definition NodeInternalIP :: string where "NodeInternalIP = ''InternalIP''"

section \<open>Errors\<close>

text \<open>
  A Go \<^verbatim>\<open>error\<close> is its API status reason (what \<^verbatim>\<open>errors.IsNotFound\<close> and
  \<^verbatim>\<open>errors.IsConflict\<close> test) and its message. \<^verbatim>\<open>fmt.Errorf\<close> with \<^verbatim>\<open>%w\<close> keeps the
  reason of the wrapped error and puts its text in front of the wrapped message.
\<close>

datatype StatusReason = StatusReasonNotFound | StatusReasonConflict | StatusReasonUnknown

datatype error = Error (err_Reason: StatusReason) (err_Message: string)

definition IsNotFound :: "error \<Rightarrow> bool" where
  "IsNotFound err = (err_Reason err = StatusReasonNotFound)"

definition IsConflict :: "error \<Rightarrow> bool" where
  "IsConflict err = (err_Reason err = StatusReasonConflict)"

definition Errorf :: "string \<Rightarrow> error" where
  "Errorf msg = Error StatusReasonUnknown msg"

definition Errorf_w :: "string \<Rightarrow> error \<Rightarrow> error" where
  "Errorf_w prefix err = Error (err_Reason err) (prefix @ err_Message err)"

text \<open>\<^verbatim>\<open>%d\<close> of \<^verbatim>\<open>fmt.Sprintf\<close>: the decimal digits of an integer.\<close>

definition digit_char :: "nat \<Rightarrow> char" where
  "digit_char d = ''0123456789'' ! d"

function digits :: "nat \<Rightarrow> string" where
  "digits n = (if n < 10 then [digit_char n] else digits (n div 10) @ [digit_char (n mod 10)])"
  by pat_completeness auto
termination
  by (relation "measure id") auto

declare digits.simps [simp del]

definition itoa :: "int \<Rightarrow> string" where
  "itoa n = (if n < 0 then CHR ''-'' # digits (nat (- n)) else digits (nat n))"

section \<open>The root entity (api/v1 KubeNova)\<close>

text \<open>
  The desired-state document keeps the fields that the controller, the validator and the
  helper methods of the API package read.
\<close>

record ImageRegistryConfig =
  Registry :: string
  Organization :: string
  Tag :: string
  PullPolicy :: string
  PullSecrets :: "string list"

record DatabaseConfig =
  db_Host :: string
  db_Port :: int
  db_Database :: string
  db_User :: string
  db_Password :: string

record CacheConfig =
  cache_Host :: string
  cache_Port :: int
  cache_Type :: string

record MinIOTLSConfig =
  mtls_Enabled :: bool
  mtls_SecretName :: string

record StorageConfig =
  st_Endpoint :: string
  st_AccessKey :: string
  st_SecretKey :: string
  st_Bucket :: string
  st_TLS :: "MinIOTLSConfig option"

record TelemetryConfig =
  tel_Enabled :: bool
  tel_JaegerEndpoint :: string

record JWTConfig =
  AccessSecret :: string
  RefreshSecret :: string

record ServicesConfig =
  JWT :: JWTConfig

record IngressTLSConfig =
  itls_Enabled :: bool
  itls_SecretName :: string

record IngressConfig =
  ic_Host :: string
  ic_TLS :: "IngressTLSConfig option"

record NodePortHTTPSConfig =
  nph_Enabled :: bool
  nph_SecretName :: string

record NodePortConfig =
  HTTPPort :: int
  HTTPS :: "NodePortHTTPSConfig option"

record WebConfig =
  web_Replicas :: int
  web_Image :: string
  web_Resources :: "ResourceRequirements option"
  ExposeType :: string
  web_Ingress :: "IngressConfig option"
  web_NodePort :: "NodePortConfig option"
  CustomNginxConfigMap :: string

record KubeNovaSpec =
  ImageRegistry :: "ImageRegistryConfig option"
  Database :: DatabaseConfig
  Cache :: CacheConfig
  Storage :: StorageConfig
  Telemetry :: "TelemetryConfig option"
  Services_cfg :: ServicesConfig
  Web_cfg :: WebConfig

datatype DeploymentPhase =
    PhaseEmpty
  | PhaseValidating
  | PhasePending
  | PhaseCreating
  | PhaseReady
  | PhaseUpdating
  | PhaseFailed
  | PhaseDeleting

datatype ComponentState =
    ComponentStateEmpty
  | ComponentStatePending
  | ComponentStateCreating
  | ComponentStateRunning
  | ComponentStateReady
  | ComponentStateFailed
  | ComponentStateUpdating

datatype ConditionStatus = ConditionTrue | ConditionFalse | ConditionUnknown

record Condition =
  cond_Type :: string
  cond_Status :: ConditionStatus
  cond_ObservedGeneration :: int
  cond_LastTransitionTime :: Time
  cond_Reason :: string
  cond_Message :: string

definition ConditionTypeReady :: string where "ConditionTypeReady = ''Ready''"
definition ConditionTypeValidated :: string where "ConditionTypeValidated = ''Validated''"

record ComponentStatus =
  State :: ComponentState
  cs_ReadyReplicas :: int
  DesiredReplicas :: int
  cs_Message :: string
  LastTransitionTime :: Time

record ComponentStatusMap =
  Services :: "(string, ComponentStatus) fmap option"
  Web :: "ComponentStatus option"

record AccessInfo =
  WebURL :: string
  DatabaseEndpoint :: string
  CacheEndpoint :: string
  StorageEndpoint :: string
  StorageConsoleURL :: string
  JaegerUIURL :: string
  ServiceEndpoints :: StringMap

record KubeNovaStatus =
  Phase :: DeploymentPhase
  Conditions :: "Condition list"
  ComponentStatus :: ComponentStatusMap
  AccessInfo :: "AccessInfo option"
  Message :: string
  LastUpdateTime :: Time
  ObservedGeneration :: int

record KubeNova =
  ObjectMeta :: ObjectMeta
  Spec :: KubeNovaSpec
  Status :: KubeNovaStatus

text \<open>Helper methods of the API package.\<close>

definition IsTelemetryEnabled :: "KubeNova \<Rightarrow> bool" where
  "IsTelemetryEnabled k =
     (case Telemetry (Spec k) of None \<Rightarrow> False | Some t \<Rightarrow> tel_Enabled t)"

definition GetImageRegistry :: "KubeNova \<Rightarrow> ImageRegistryConfig" where
  "GetImageRegistry k =
     (case ImageRegistry (Spec k) of
        Some registry \<Rightarrow> registry
      | None \<Rightarrow>
          \<lparr>Registry = ''registry.cn-hangzhou.aliyuncs.com'', Organization = ''kube-nova'',
           Tag = ''latest'', PullPolicy = ''Always'', PullSecrets = []\<rparr>)"

definition GetWebReplicas :: "WebConfig \<Rightarrow> int" where
  "GetWebReplicas w = (if web_Replicas w \<le> 0 then 3 else web_Replicas w)"

definition GetStorageEndpoint :: "StorageConfig \<Rightarrow> string" where
  "GetStorageEndpoint s =
     (if (case st_TLS s of None \<Rightarrow> False | Some tls \<Rightarrow> mtls_Enabled tls)
      then ''https://'' @ st_Endpoint s
      else ''http://'' @ st_Endpoint s)"

definition GetCacheEndpoint :: "CacheConfig \<Rightarrow> string" where
  "GetCacheEndpoint c = cache_Host c @ '':'' @ itoa (cache_Port c)"

definition GetDatabaseEndpoint :: "DatabaseConfig \<Rightarrow> string" where
  "GetDatabaseEndpoint d = db_Host d @ '':'' @ itoa (db_Port d)"

section \<open>Message texts\<close>

text \<open>
  The controller's messages are Chinese text; a Go string holds their UTF-8 bytes. Each
  constant below is such a byte string, named after its meaning.
\<close>

definition zh_deleting_resources :: string where \<comment> \<open>deleting resources\<close>
  "zh_deleting_resources =
     [CHR 0xE6, CHR 0xAD, CHR 0xA3, CHR 0xE5, CHR 0x9C, CHR 0xA8, CHR 0xE5, CHR 0x88, CHR 0xA0,
     CHR 0xE9, CHR 0x99, CHR 0xA4, CHR 0xE8, CHR 0xB5, CHR 0x84, CHR 0xE6, CHR 0xBA, CHR 0x90]"

definition zh_validating_config :: string where \<comment> \<open>validating the configuration\<close>
  "zh_validating_config =
     [CHR 0xE6, CHR 0xAD, CHR 0xA3, CHR 0xE5, CHR 0x9C, CHR 0xA8, CHR 0xE9, CHR 0xAA, CHR 0x8C,
     CHR 0xE8, CHR 0xAF, CHR 0x81, CHR 0xE9, CHR 0x85, CHR 0x8D, CHR 0xE7, CHR 0xBD, CHR 0xAE]"

definition zh_validation_succeeded :: string where \<comment> \<open>configuration validated\<close>
  "zh_validation_succeeded =
     [CHR 0xE9, CHR 0x85, CHR 0x8D, CHR 0xE7, CHR 0xBD, CHR 0xAE, CHR 0xE9, CHR 0xAA, CHR 0x8C,
     CHR 0xE8, CHR 0xAF, CHR 0x81, CHR 0xE6, CHR 0x88, CHR 0x90, CHR 0xE5, CHR 0x8A, CHR 0x9F]"

definition zh_deploying_backend :: string where \<comment> \<open>deploying the backend services\<close>
  "zh_deploying_backend =
     [CHR 0xE6, CHR 0xAD, CHR 0xA3, CHR 0xE5, CHR 0x9C, CHR 0xA8, CHR 0xE9, CHR 0x83, CHR 0xA8,
     CHR 0xE7, CHR 0xBD, CHR 0xB2, CHR 0xE5, CHR 0x90, CHR 0x8E, CHR 0xE7, CHR 0xAB, CHR 0xAF,
     CHR 0xE6, CHR 0x9C, CHR 0x8D, CHR 0xE5, CHR 0x8A, CHR 0xA1]"

definition zh_service_ok :: string where \<comment> \<open>service runs normally\<close>
  "zh_service_ok =
     [CHR 0xE6, CHR 0x9C, CHR 0x8D, CHR 0xE5, CHR 0x8A, CHR 0xA1, CHR 0xE8, CHR 0xBF, CHR 0x90,
     CHR 0xE8, CHR 0xA1, CHR 0x8C, CHR 0xE6, CHR 0xAD, CHR 0xA3, CHR 0xE5, CHR 0xB8, CHR 0xB8]"

definition zh_service_partly_ready :: string where \<comment> \<open>service partly ready\<close>
  "zh_service_partly_ready =
     [CHR 0xE6, CHR 0x9C, CHR 0x8D, CHR 0xE5, CHR 0x8A, CHR 0xA1, CHR 0xE9, CHR 0x83, CHR 0xA8,
     CHR 0xE5, CHR 0x88, CHR 0x86, CHR 0xE5, CHR 0xB0, CHR 0xB1, CHR 0xE7, CHR 0xBB, CHR 0xAA]"

definition zh_waiting_for_pods :: string where \<comment> \<open>waiting for pods to start\<close>
  "zh_waiting_for_pods =
     [CHR 0xE7, CHR 0xAD, CHR 0x89, CHR 0xE5, CHR 0xBE, CHR 0x85] @ '' Pod '' @ [CHR 0xE5,
     CHR 0x90, CHR 0xAF, CHR 0xE5, CHR 0x8A, CHR 0xA8]"

definition zh_web_ok :: string where \<comment> \<open>web front end runs normally\<close>
  "zh_web_ok =
     ''Web '' @ [CHR 0xE5, CHR 0x89, CHR 0x8D, CHR 0xE7, CHR 0xAB, CHR 0xAF, CHR 0xE8, CHR 0xBF,
     CHR 0x90, CHR 0xE8, CHR 0xA1, CHR 0x8C, CHR 0xE6, CHR 0xAD, CHR 0xA3, CHR 0xE5, CHR 0xB8,
     CHR 0xB8]"

definition zh_web_partly_ready :: string where \<comment> \<open>web front end partly ready\<close>
  "zh_web_partly_ready =
     ''Web '' @ [CHR 0xE5, CHR 0x89, CHR 0x8D, CHR 0xE7, CHR 0xAB, CHR 0xAF, CHR 0xE9, CHR 0x83,
     CHR 0xA8, CHR 0xE5, CHR 0x88, CHR 0x86, CHR 0xE5, CHR 0xB0, CHR 0xB1, CHR 0xE7, CHR 0xBB,
     CHR 0xAA]"

definition zh_all_components_ok :: string where \<comment> \<open>all components run normally\<close>
  "zh_all_components_ok =
     [CHR 0xE6, CHR 0x89, CHR 0x80, CHR 0xE6, CHR 0x9C, CHR 0x89, CHR 0xE7, CHR 0xBB, CHR 0x84,
     CHR 0xE4, CHR 0xBB, CHR 0xB6, CHR 0xE8, CHR 0xBF, CHR 0x90, CHR 0xE8, CHR 0xA1, CHR 0x8C,
     CHR 0xE6, CHR 0xAD, CHR 0xA3, CHR 0xE5, CHR 0xB8, CHR 0xB8]"

definition zh_components_not_ready :: string where \<comment> \<open>some components are not ready yet\<close>
  "zh_components_not_ready =
     [CHR 0xE9, CHR 0x83, CHR 0xA8, CHR 0xE5, CHR 0x88, CHR 0x86, CHR 0xE7, CHR 0xBB, CHR 0x84,
     CHR 0xE4, CHR 0xBB, CHR 0xB6, CHR 0xE5, CHR 0xB0, CHR 0x9A, CHR 0xE6, CHR 0x9C, CHR 0xAA,
     CHR 0xE5, CHR 0xB0, CHR 0xB1, CHR 0xE7, CHR 0xBB, CHR 0xAA]"

definition zh_nodeport_pending :: string where \<comment> \<open>NodePort (port being allocated...)\<close>
  "zh_nodeport_pending =
     ''NodePort ('' @ [CHR 0xE7, CHR 0xAB, CHR 0xAF, CHR 0xE5, CHR 0x8F, CHR 0xA3, CHR 0xE5,
     CHR 0x88, CHR 0x86, CHR 0xE9, CHR 0x85, CHR 0x8D, CHR 0xE4, CHR 0xB8, CHR 0xAD] @ ''...)''"

definition zh_service_creating :: string where \<comment> \<open>Service being created...\<close>
  "zh_service_creating =
     ''Service '' @ [CHR 0xE5, CHR 0x88, CHR 0x9B, CHR 0xE5, CHR 0xBB, CHR 0xBA, CHR 0xE4,
     CHR 0xB8, CHR 0xAD] @ ''...''"

definition zh_validation_failed :: string where \<comment> \<open>configuration validation failed: \<close>
  "zh_validation_failed =
     [CHR 0xE9, CHR 0x85, CHR 0x8D, CHR 0xE7, CHR 0xBD, CHR 0xAE, CHR 0xE9, CHR 0xAA, CHR 0x8C,
     CHR 0xE8, CHR 0xAF, CHR 0x81, CHR 0xE5, CHR 0xA4, CHR 0xB1, CHR 0xE8, CHR 0xB4, CHR 0xA5] @
     '': ''"

definition zh_namespace_error :: string where \<comment> \<open>Namespace error: \<close>
  "zh_namespace_error =
     ''Namespace '' @ [CHR 0xE9, CHR 0x94, CHR 0x99, CHR 0xE8, CHR 0xAF, CHR 0xAF] @ '': ''"

definition zh_rbac_failed :: string where \<comment> \<open>creating the RBAC resources failed: \<close>
  "zh_rbac_failed =
     [CHR 0xE5, CHR 0x88, CHR 0x9B, CHR 0xE5, CHR 0xBB, CHR 0xBA] @ '' RBAC '' @ [CHR 0xE8,
     CHR 0xB5, CHR 0x84, CHR 0xE6, CHR 0xBA, CHR 0x90, CHR 0xE5, CHR 0xA4, CHR 0xB1, CHR 0xE8,
     CHR 0xB4, CHR 0xA5] @ '': ''"

definition zh_secret_failed :: string where \<comment> \<open>creating the Secret failed: \<close>
  "zh_secret_failed =
     [CHR 0xE5, CHR 0x88, CHR 0x9B, CHR 0xE5, CHR 0xBB, CHR 0xBA] @ '' Secret '' @ [CHR 0xE5,
     CHR 0xA4, CHR 0xB1, CHR 0xE8, CHR 0xB4, CHR 0xA5] @ '': ''"

definition zh_configmap_failed :: string where \<comment> \<open>creating the ConfigMap failed: \<close>
  "zh_configmap_failed =
     [CHR 0xE5, CHR 0x88, CHR 0x9B, CHR 0xE5, CHR 0xBB, CHR 0xBA] @ '' ConfigMap '' @ [CHR 0xE5,
     CHR 0xA4, CHR 0xB1, CHR 0xE8, CHR 0xB4, CHR 0xA5] @ '': ''"

definition zh_backend_failed :: string where \<comment> \<open>deploying the backend services failed: \<close>
  "zh_backend_failed =
     [CHR 0xE9, CHR 0x83, CHR 0xA8, CHR 0xE7, CHR 0xBD, CHR 0xB2, CHR 0xE5, CHR 0x90, CHR 0x8E,
     CHR 0xE7, CHR 0xAB, CHR 0xAF, CHR 0xE6, CHR 0x9C, CHR 0x8D, CHR 0xE5, CHR 0x8A, CHR 0xA1,
     CHR 0xE5, CHR 0xA4, CHR 0xB1, CHR 0xE8, CHR 0xB4, CHR 0xA5] @ '': ''"

definition zh_web_failed :: string where \<comment> \<open>deploying the web front end failed: \<close>
  "zh_web_failed =
     [CHR 0xE9, CHR 0x83, CHR 0xA8, CHR 0xE7, CHR 0xBD, CHR 0xB2] @ '' Web '' @ [CHR 0xE5,
     CHR 0x89, CHR 0x8D, CHR 0xE7, CHR 0xAB, CHR 0xAF, CHR 0xE5, CHR 0xA4, CHR 0xB1, CHR 0xE8,
     CHR 0xB4, CHR 0xA5] @ '': ''"

definition zh_status_update_exhausted :: string where \<comment> \<open>status update failed after 3 attempts\<close>
  "zh_status_update_exhausted =
     [CHR 0xE7, CHR 0x8A, CHR 0xB6, CHR 0xE6, CHR 0x80, CHR 0x81, CHR 0xE6, CHR 0x9B, CHR 0xB4,
     CHR 0xE6, CHR 0x96, CHR 0xB0, CHR 0xE5, CHR 0xA4, CHR 0xB1, CHR 0xE8, CHR 0xB4, CHR 0xA5,
     CHR 0xEF, CHR 0xBC, CHR 0x8C, CHR 0xE5, CHR 0xB7, CHR 0xB2, CHR 0xE9, CHR 0x87, CHR 0x8D,
     CHR 0xE8, CHR 0xAF, CHR 0x95] @ '' 3 '' @ [CHR 0xE6, CHR 0xAC, CHR 0xA1]"

definition zh_create :: string where \<comment> \<open>create\<close>
  "zh_create =
     [CHR 0xE5, CHR 0x88, CHR 0x9B, CHR 0xE5, CHR 0xBB, CHR 0xBA]"

definition zh_get :: string where \<comment> \<open>get\<close>
  "zh_get =
     [CHR 0xE8, CHR 0x8E, CHR 0xB7, CHR 0xE5, CHR 0x8F, CHR 0x96]"

definition zh_reget :: string where \<comment> \<open>get again\<close>
  "zh_reget =
     [CHR 0xE9, CHR 0x87, CHR 0x8D, CHR 0xE6, CHR 0x96, CHR 0xB0, CHR 0xE8, CHR 0x8E, CHR 0xB7,
     CHR 0xE5, CHR 0x8F, CHR 0x96]"

definition zh_update :: string where \<comment> \<open>update\<close>
  "zh_update =
     [CHR 0xE6, CHR 0x9B, CHR 0xB4, CHR 0xE6, CHR 0x96, CHR 0xB0]"

definition zh_set :: string where \<comment> \<open>set\<close>
  "zh_set =
     [CHR 0xE8, CHR 0xAE, CHR 0xBE, CHR 0xE7, CHR 0xBD, CHR 0xAE]"

definition zh_failed :: string where \<comment> \<open>failed\<close>
  "zh_failed =
     [CHR 0xE5, CHR 0xA4, CHR 0xB1, CHR 0xE8, CHR 0xB4, CHR 0xA5]"

definition zh_namespace :: string where \<comment> \<open>namespace\<close>
  "zh_namespace =
     [CHR 0xE5, CHR 0x91, CHR 0xBD, CHR 0xE5, CHR 0x90, CHR 0x8D, CHR 0xE7, CHR 0xA9, CHR 0xBA,
     CHR 0xE9, CHR 0x97, CHR 0xB4]"

definition zh_namespace_missing :: string where \<comment> \<open>does not exist, create the namespace first\<close>
  "zh_namespace_missing =
     [CHR 0xE4, CHR 0xB8, CHR 0x8D, CHR 0xE5, CHR 0xAD, CHR 0x98, CHR 0xE5, CHR 0x9C, CHR 0xA8,
     CHR 0xEF, CHR 0xBC, CHR 0x8C, CHR 0xE8, CHR 0xAF, CHR 0xB7, CHR 0xE5, CHR 0x85, CHR 0x88,
     CHR 0xE5, CHR 0x88, CHR 0x9B, CHR 0xE5, CHR 0xBB, CHR 0xBA, CHR 0xE5, CHR 0x91, CHR 0xBD,
     CHR 0xE5, CHR 0x90, CHR 0x8D, CHR 0xE7, CHR 0xA9, CHR 0xBA, CHR 0xE9, CHR 0x97, CHR 0xB4]"


section \<open>The resource store, as the reconciler sees it\<close>

text \<open>
  \<^verbatim>\<open>KubeNovaReconciler\<close> embeds a \<^verbatim>\<open>client.Client\<close>. The store behind it is an external
  collaborator, so every call is a function of an abstract world \<open>'w\<close> that returns the
  reply and the next world: other writers, network failures and conflicts are whatever
  these functions answer. \<^verbatim>\<open>Get\<close> decodes into a typed object, hence one field per kind.
  The store's reply to \<^verbatim>\<open>Status().Update\<close> overwrites the object that was sent, and the
  controller reads it, so that call returns the object; the objects that \<^verbatim>\<open>Create\<close>,
  \<^verbatim>\<open>Update\<close> and \<^verbatim>\<open>Delete\<close> fill in are never read again. The clock (\<^verbatim>\<open>metav1.Now\<close>,
  \<^verbatim>\<open>time.Sleep\<close>) and \<^verbatim>\<open>controllerutil.SetControllerReference\<close>, which depends on the
  reconciler's scheme, are part of the same interface. Durations are milliseconds.
\<close>

datatype kind =
    KindKubeNova
  | KindNamespace
  | KindServiceAccount
  | KindClusterRoleBinding
  | KindSecret
  | KindConfigMap
  | KindDeployment
  | KindService
  | KindIngress

datatype obj =
    ObjKubeNova KubeNova
  | ObjNamespace Namespace_doc
  | ObjServiceAccount ServiceAccount
  | ObjClusterRoleBinding ClusterRoleBinding
  | ObjSecret Secret
  | ObjConfigMap ConfigMap
  | ObjDeployment Deployment
  | ObjService Service
  | ObjIngress Ingress

type_synonym Duration = nat

record 'w KubeNovaReconciler =
  Get_KubeNova :: "NamespacedName \<Rightarrow> 'w \<Rightarrow> (error + KubeNova) \<times> 'w"
  Get_Namespace :: "NamespacedName \<Rightarrow> 'w \<Rightarrow> (error + Namespace_doc) \<times> 'w"
  Get_ServiceAccount :: "NamespacedName \<Rightarrow> 'w \<Rightarrow> (error + ServiceAccount) \<times> 'w"
  Get_ClusterRoleBinding :: "NamespacedName \<Rightarrow> 'w \<Rightarrow> (error + ClusterRoleBinding) \<times> 'w"
  Get_Secret :: "NamespacedName \<Rightarrow> 'w \<Rightarrow> (error + Secret) \<times> 'w"
  Get_ConfigMap :: "NamespacedName \<Rightarrow> 'w \<Rightarrow> (error + ConfigMap) \<times> 'w"
  Get_Deployment :: "NamespacedName \<Rightarrow> 'w \<Rightarrow> (error + Deployment) \<times> 'w"
  Get_Service :: "NamespacedName \<Rightarrow> 'w \<Rightarrow> (error + Service) \<times> 'w"
  Get_Ingress :: "NamespacedName \<Rightarrow> 'w \<Rightarrow> (error + Ingress) \<times> 'w"
  List_Nodes :: "'w \<Rightarrow> (error + Node list) \<times> 'w"
  Create :: "obj \<Rightarrow> 'w \<Rightarrow> error option \<times> 'w"
  Update :: "obj \<Rightarrow> 'w \<Rightarrow> error option \<times> 'w"
  Delete :: "obj \<Rightarrow> 'w \<Rightarrow> error option \<times> 'w"
  Status_Update :: "KubeNova \<Rightarrow> 'w \<Rightarrow> (error + KubeNova) \<times> 'w"
  Now :: "'w \<Rightarrow> Time"
  Sleep :: "Duration \<Rightarrow> 'w \<Rightarrow> 'w"
  SetControllerReference :: "KubeNova \<Rightarrow> ObjectMeta \<Rightarrow> error + ObjectMeta"

text \<open>
  The state a pass threads through its calls is the world together with the trace of the
  calls made so far, each with its reply, in program order.
\<close>

datatype event =
    EvGet kind NamespacedName "error + obj"
  | EvListNodes "error + Node list"
  | EvCreate obj "error option"
  | EvUpdate obj "error option"
  | EvDelete obj "error option"
  | EvStatusUpdate KubeNova "error + KubeNova"
  | EvSleep Duration

type_synonym 'w state = "'w \<times> event list"

definition do_get ::
    "('w \<Rightarrow> (error + 'a) \<times> 'w) \<Rightarrow> ('a \<Rightarrow> obj) \<Rightarrow> kind \<Rightarrow> NamespacedName \<Rightarrow> 'w state
       \<Rightarrow> (error + 'a) \<times> 'w state" where
  "do_get f box k key s =
     (case f (fst s) of (res, w') \<Rightarrow> (res, (w', snd s @ [EvGet k key (map_sum id box res)])))"

definition r_Get_KubeNova ::
    "'w KubeNovaReconciler \<Rightarrow> NamespacedName \<Rightarrow> 'w state \<Rightarrow> (error + KubeNova) \<times> 'w state" where
  "r_Get_KubeNova r key = do_get (Get_KubeNova r key) ObjKubeNova KindKubeNova key"

definition r_Get_Namespace ::
    "'w KubeNovaReconciler \<Rightarrow> NamespacedName \<Rightarrow> 'w state \<Rightarrow> (error + Namespace_doc) \<times> 'w state" where
  "r_Get_Namespace r key = do_get (Get_Namespace r key) ObjNamespace KindNamespace key"

definition r_Get_ServiceAccount ::
    "'w KubeNovaReconciler \<Rightarrow> NamespacedName \<Rightarrow> 'w state \<Rightarrow> (error + ServiceAccount) \<times> 'w state" where
  "r_Get_ServiceAccount r key =
     do_get (Get_ServiceAccount r key) ObjServiceAccount KindServiceAccount key"

definition r_Get_ClusterRoleBinding ::
    "'w KubeNovaReconciler \<Rightarrow> NamespacedName \<Rightarrow> 'w state
       \<Rightarrow> (error + ClusterRoleBinding) \<times> 'w state" where
  "r_Get_ClusterRoleBinding r key =
     do_get (Get_ClusterRoleBinding r key) ObjClusterRoleBinding KindClusterRoleBinding key"

definition r_Get_Secret ::
    "'w KubeNovaReconciler \<Rightarrow> NamespacedName \<Rightarrow> 'w state \<Rightarrow> (error + Secret) \<times> 'w state" where
  "r_Get_Secret r key = do_get (Get_Secret r key) ObjSecret KindSecret key"

definition r_Get_ConfigMap ::
    "'w KubeNovaReconciler \<Rightarrow> NamespacedName \<Rightarrow> 'w state \<Rightarrow> (error + ConfigMap) \<times> 'w state" where
  "r_Get_ConfigMap r key = do_get (Get_ConfigMap r key) ObjConfigMap KindConfigMap key"

definition r_Get_Deployment ::
    "'w KubeNovaReconciler \<Rightarrow> NamespacedName \<Rightarrow> 'w state \<Rightarrow> (error + Deployment) \<times> 'w state" where
  "r_Get_Deployment r key = do_get (Get_Deployment r key) ObjDeployment KindDeployment key"

definition r_Get_Service ::
    "'w KubeNovaReconciler \<Rightarrow> NamespacedName \<Rightarrow> 'w state \<Rightarrow> (error + Service) \<times> 'w state" where
  "r_Get_Service r key = do_get (Get_Service r key) ObjService KindService key"

definition r_Get_Ingress ::
    "'w KubeNovaReconciler \<Rightarrow> NamespacedName \<Rightarrow> 'w state \<Rightarrow> (error + Ingress) \<times> 'w state" where
  "r_Get_Ingress r key = do_get (Get_Ingress r key) ObjIngress KindIngress key"

definition r_List_Nodes ::
    "'w KubeNovaReconciler \<Rightarrow> 'w state \<Rightarrow> (error + Node list) \<times> 'w state" where
  "r_List_Nodes r s =
     (case List_Nodes r (fst s) of (res, w') \<Rightarrow> (res, (w', snd s @ [EvListNodes res])))"

definition r_Create :: "'w KubeNovaReconciler \<Rightarrow> obj \<Rightarrow> 'w state \<Rightarrow> error option \<times> 'w state" where
  "r_Create r x s =
     (case Create r x (fst s) of (res, w') \<Rightarrow> (res, (w', snd s @ [EvCreate x res])))"

definition r_Update :: "'w KubeNovaReconciler \<Rightarrow> obj \<Rightarrow> 'w state \<Rightarrow> error option \<times> 'w state" where
  "r_Update r x s =
     (case Update r x (fst s) of (res, w') \<Rightarrow> (res, (w', snd s @ [EvUpdate x res])))"

definition r_Delete :: "'w KubeNovaReconciler \<Rightarrow> obj \<Rightarrow> 'w state \<Rightarrow> error option \<times> 'w state" where
  "r_Delete r x s =
     (case Delete r x (fst s) of (res, w') \<Rightarrow> (res, (w', snd s @ [EvDelete x res])))"

definition r_Status_Update ::
    "'w KubeNovaReconciler \<Rightarrow> KubeNova \<Rightarrow> 'w state \<Rightarrow> (error + KubeNova) \<times> 'w state" where
  "r_Status_Update r x s =
     (case Status_Update r x (fst s) of
        (res, w') \<Rightarrow> (res, (w', snd s @ [EvStatusUpdate x res])))"

definition r_Sleep :: "'w KubeNovaReconciler \<Rightarrow> Duration \<Rightarrow> 'w state \<Rightarrow> 'w state" where
  "r_Sleep r d s = (Sleep r d (fst s), snd s @ [EvSleep d])"

definition r_Now :: "'w KubeNovaReconciler \<Rightarrow> 'w state \<Rightarrow> Time" where
  "r_Now r s = Now r (fst s)"

text \<open>\<^verbatim>\<open>ctrl.Result\<close>.\<close>

record Result =
  Requeue :: bool
  RequeueAfter :: Duration

definition Result_zero :: Result where
  "Result_zero = \<lparr>Requeue = False, RequeueAfter = 0\<rparr>"

definition Minute :: Duration where "Minute = 60000"
definition Second :: Duration where "Second = 1000"

section \<open>The diff engine\<close>

text \<open>\<^verbatim>\<open>compareInt32Ptr\<close> (controller, lines 728-736).\<close>

definition compareInt32Ptr :: "int option \<Rightarrow> int option \<Rightarrow> bool" where
  "compareInt32Ptr a b =
     (if a = None \<and> b = None then True
      else if a = None \<or> b = None then False
      else the a = the b)"

text \<open>
  \<^verbatim>\<open>compareEnvVars\<close> (lines 738-755). \<open>envMap\<close> is the loop that fills \<^verbatim>\<open>aMap\<close>
  (and \<^verbatim>\<open>bMap\<close>): a later entry of the same name overwrites an earlier one, and an entry
  whose \<^verbatim>\<open>Value\<close> is empty is not stored. Both maps come from \<^verbatim>\<open>make\<close>, so they are
  never nil and \<^verbatim>\<open>reflect.DeepEqual\<close> is equality of the finite maps.
\<close>

definition envMap :: "EnvVar list \<Rightarrow> (string, string) fmap" where
  "envMap xs =
     fold (\<lambda>env m. if env_Value env \<noteq> [] then fmupd (env_Name env) (env_Value env) m else m)
       xs fmempty"

definition compareEnvVars :: "EnvVar list \<Rightarrow> EnvVar list \<Rightarrow> bool" where
  "compareEnvVars a b =
     (if length a \<noteq> length b then False
      else envMap a = envMap b)"

text \<open>\<^verbatim>\<open>compareResourceRequirements\<close> (lines 757-759).\<close>

definition compareResourceRequirements ::
    "ResourceRequirements \<Rightarrow> ResourceRequirements \<Rightarrow> bool" where
  "compareResourceRequirements a b = (Requests a = Requests b \<and> Limits a = Limits b)"

text \<open>
  \<^verbatim>\<open>compareVolumeMounts\<close> (lines 761-775): \<^verbatim>\<open>aMap\<close> is keyed by the mount's name, the
  second loop returns false at the first mount of \<^verbatim>\<open>b\<close> that is missing from \<^verbatim>\<open>aMap\<close> or
  stored there with another mount path.
\<close>

definition mountMap :: "VolumeMount list \<Rightarrow> (string, VolumeMount) fmap" where
  "mountMap xs = fold (\<lambda>vm m. fmupd (vm_Name vm) vm m) xs fmempty"

fun compareVolumeMounts_loop :: "(string, VolumeMount) fmap \<Rightarrow> VolumeMount list \<Rightarrow> bool" where
  "compareVolumeMounts_loop aMap [] = True"
| "compareVolumeMounts_loop aMap (vm # rest) =
     (case fmlookup aMap (vm_Name vm) of
        None \<Rightarrow> False
      | Some existingVM \<Rightarrow>
          if vm_MountPath existingVM \<noteq> vm_MountPath vm then False
          else compareVolumeMounts_loop aMap rest)"

definition compareVolumeMounts :: "VolumeMount list \<Rightarrow> VolumeMount list \<Rightarrow> bool" where
  "compareVolumeMounts a b =
     (if length a \<noteq> length b then False
      else compareVolumeMounts_loop (mountMap a) b)"

text \<open>
  \<^verbatim>\<open>compareVolumes\<close> (lines 777-791): \<^verbatim>\<open>aMap\<close> is a \<^verbatim>\<open>map[string]bool\<close>; reading a
  missing key gives \<^verbatim>\<open>false\<close>.
\<close>

definition volumeMap :: "Volume list \<Rightarrow> (string, bool) fmap" where
  "volumeMap xs = fold (\<lambda>v m. fmupd (vol_Name v) True m) xs fmempty"

fun compareVolumes_loop :: "(string, bool) fmap \<Rightarrow> Volume list \<Rightarrow> bool" where
  "compareVolumes_loop aMap [] = True"
| "compareVolumes_loop aMap (v # rest) =
     (if \<not> (case fmlookup aMap (vol_Name v) of None \<Rightarrow> False | Some present \<Rightarrow> present)
      then False
      else compareVolumes_loop aMap rest)"

definition compareVolumes :: "Volume list \<Rightarrow> Volume list \<Rightarrow> bool" where
  "compareVolumes a b =
     (if length a \<noteq> length b then False
      else compareVolumes_loop (volumeMap a) b)"

text \<open>
  \<^verbatim>\<open>deploymentSpecEqual\<close> (lines 696-726). \<open>firstContainerEqual\<close> is the block of
  lines 704-717 on \<^verbatim>\<open>Containers[0]\<close> of both documents; it runs only when both container
  lists are non-empty, so the indexing never leaves the slice.
\<close>

definition firstContainerEqual :: "Container \<Rightarrow> Container \<Rightarrow> bool" where
  "firstContainerEqual existingContainer desiredContainer =
     (if Image existingContainer \<noteq> Image desiredContainer then False
      else if \<not> compareEnvVars (Env existingContainer) (Env desiredContainer) then False
      else if \<not> compareResourceRequirements (Resources existingContainer)
                   (Resources desiredContainer) then False
      else if \<not> compareVolumeMounts (VolumeMounts existingContainer)
                   (VolumeMounts desiredContainer) then False
      else True)"

definition deploymentSpecEqual :: "DeploymentSpec \<Rightarrow> DeploymentSpec \<Rightarrow> bool" where
  "deploymentSpecEqual existing desired =
     (let ecs = Containers (tpl_Spec (Template existing));
          dcs = Containers (tpl_Spec (Template desired))
      in
      if \<not> compareInt32Ptr (Replicas existing) (Replicas desired) then False
      else if length ecs \<noteq> length dcs then False
      else if length ecs > 0 \<and> length dcs > 0 \<and> \<not> firstContainerEqual (hd ecs) (hd dcs)
        then False
      else if \<not> compareVolumes (Volumes (tpl_Spec (Template existing)))
                   (Volumes (tpl_Spec (Template desired))) then False
      else if ServiceAccountName (tpl_Spec (Template existing))
                \<noteq> ServiceAccountName (tpl_Spec (Template desired)) then False
      else True)"

section \<open>The validator\<close>

text \<open>\<^verbatim>\<open>ValidateKubeNova\<close> and its helpers (package \<^verbatim>\<open>validator\<close> and the API package).\<close>

definition zh_v_database :: string where \<comment> \<open>database configuration error: \<close>
  "zh_v_database =
     [CHR 0xE6, CHR 0x95, CHR 0xB0, CHR 0xE6, CHR 0x8D, CHR 0xAE, CHR 0xE5, CHR 0xBA, CHR 0x93,
     CHR 0xE9, CHR 0x85, CHR 0x8D, CHR 0xE7, CHR 0xBD, CHR 0xAE, CHR 0xE9, CHR 0x94, CHR 0x99,
     CHR 0xE8, CHR 0xAF, CHR 0xAF] @ '': ''"

definition zh_v_cache :: string where \<comment> \<open>cache configuration error: \<close>
  "zh_v_cache =
     [CHR 0xE7, CHR 0xBC, CHR 0x93, CHR 0xE5, CHR 0xAD, CHR 0x98, CHR 0xE9, CHR 0x85, CHR 0x8D,
     CHR 0xE7, CHR 0xBD, CHR 0xAE, CHR 0xE9, CHR 0x94, CHR 0x99, CHR 0xE8, CHR 0xAF, CHR 0xAF] @
     '': ''"

definition zh_v_storage :: string where \<comment> \<open>storage configuration error: \<close>
  "zh_v_storage =
     [CHR 0xE5, CHR 0xAD, CHR 0x98, CHR 0xE5, CHR 0x82, CHR 0xA8, CHR 0xE9, CHR 0x85, CHR 0x8D,
     CHR 0xE7, CHR 0xBD, CHR 0xAE, CHR 0xE9, CHR 0x94, CHR 0x99, CHR 0xE8, CHR 0xAF, CHR 0xAF] @
     '': ''"

definition zh_v_telemetry :: string where \<comment> \<open>tracing configuration error: \<close>
  "zh_v_telemetry =
     [CHR 0xE9, CHR 0x93, CHR 0xBE, CHR 0xE8, CHR 0xB7, CHR 0xAF, CHR 0xE8, CHR 0xBF, CHR 0xBD,
     CHR 0xE8, CHR 0xB8, CHR 0xAA, CHR 0xE9, CHR 0x85, CHR 0x8D, CHR 0xE7, CHR 0xBD, CHR 0xAE,
     CHR 0xE9, CHR 0x94, CHR 0x99, CHR 0xE8, CHR 0xAF, CHR 0xAF] @ '': ''"

definition zh_v_jwt :: string where \<comment> \<open>JWT configuration error: \<close>
  "zh_v_jwt =
     ''JWT '' @ [CHR 0xE9, CHR 0x85, CHR 0x8D, CHR 0xE7, CHR 0xBD, CHR 0xAE, CHR 0xE9, CHR 0x94,
     CHR 0x99, CHR 0xE8, CHR 0xAF, CHR 0xAF] @ '': ''"

definition zh_v_web :: string where \<comment> \<open>web configuration error: \<close>
  "zh_v_web =
     ''web '' @ [CHR 0xE9, CHR 0x85, CHR 0x8D, CHR 0xE7, CHR 0xBD, CHR 0xAE, CHR 0xE9, CHR 0x94,
     CHR 0x99, CHR 0xE8, CHR 0xAF, CHR 0xAF] @ '': ''"

definition zh_v_db_host :: string where \<comment> \<open>database host must not be empty\<close>
  "zh_v_db_host =
     [CHR 0xE6, CHR 0x95, CHR 0xB0, CHR 0xE6, CHR 0x8D, CHR 0xAE, CHR 0xE5, CHR 0xBA, CHR 0x93,
     CHR 0xE4, CHR 0xB8, CHR 0xBB, CHR 0xE6, CHR 0x9C, CHR 0xBA, CHR 0xE5, CHR 0x9C, CHR 0xB0,
     CHR 0xE5, CHR 0x9D, CHR 0x80, CHR 0xE4, CHR 0xB8, CHR 0x8D, CHR 0xE8, CHR 0x83, CHR 0xBD,
     CHR 0xE4, CHR 0xB8, CHR 0xBA, CHR 0xE7, CHR 0xA9, CHR 0xBA]"

definition zh_v_db_name :: string where \<comment> \<open>database name must not be empty\<close>
  "zh_v_db_name =
     [CHR 0xE6, CHR 0x95, CHR 0xB0, CHR 0xE6, CHR 0x8D, CHR 0xAE, CHR 0xE5, CHR 0xBA, CHR 0x93,
     CHR 0xE5, CHR 0x90, CHR 0x8D, CHR 0xE7, CHR 0xA7, CHR 0xB0, CHR 0xE4, CHR 0xB8, CHR 0x8D,
     CHR 0xE8, CHR 0x83, CHR 0xBD, CHR 0xE4, CHR 0xB8, CHR 0xBA, CHR 0xE7, CHR 0xA9, CHR 0xBA]"

definition zh_v_db_user :: string where \<comment> \<open>database user must not be empty\<close>
  "zh_v_db_user =
     [CHR 0xE6, CHR 0x95, CHR 0xB0, CHR 0xE6, CHR 0x8D, CHR 0xAE, CHR 0xE5, CHR 0xBA, CHR 0x93,
     CHR 0xE7, CHR 0x94, CHR 0xA8, CHR 0xE6, CHR 0x88, CHR 0xB7, CHR 0xE5, CHR 0x90, CHR 0x8D,
     CHR 0xE4, CHR 0xB8, CHR 0x8D, CHR 0xE8, CHR 0x83, CHR 0xBD, CHR 0xE4, CHR 0xB8, CHR 0xBA,
     CHR 0xE7, CHR 0xA9, CHR 0xBA]"

definition zh_v_db_password :: string where \<comment> \<open>database password must not be empty\<close>
  "zh_v_db_password =
     [CHR 0xE6, CHR 0x95, CHR 0xB0, CHR 0xE6, CHR 0x8D, CHR 0xAE, CHR 0xE5, CHR 0xBA, CHR 0x93,
     CHR 0xE5, CHR 0xAF, CHR 0x86, CHR 0xE7, CHR 0xA0, CHR 0x81, CHR 0xE4, CHR 0xB8, CHR 0x8D,
     CHR 0xE8, CHR 0x83, CHR 0xBD, CHR 0xE4, CHR 0xB8, CHR 0xBA, CHR 0xE7, CHR 0xA9, CHR 0xBA]"

definition zh_v_db_port :: string where \<comment> \<open>invalid database port: \<close>
  "zh_v_db_port =
     [CHR 0xE6, CHR 0x95, CHR 0xB0, CHR 0xE6, CHR 0x8D, CHR 0xAE, CHR 0xE5, CHR 0xBA, CHR 0x93,
     CHR 0xE7, CHR 0xAB, CHR 0xAF, CHR 0xE5, CHR 0x8F, CHR 0xA3, CHR 0xE6, CHR 0x97, CHR 0xA0,
     CHR 0xE6, CHR 0x95, CHR 0x88] @ '': ''"

definition zh_v_redis_host :: string where \<comment> \<open>redis host must not be empty\<close>
  "zh_v_redis_host =
     ''redis '' @ [CHR 0xE4, CHR 0xB8, CHR 0xBB, CHR 0xE6, CHR 0x9C, CHR 0xBA, CHR 0xE5,
     CHR 0x9C, CHR 0xB0, CHR 0xE5, CHR 0x9D, CHR 0x80, CHR 0xE4, CHR 0xB8, CHR 0x8D, CHR 0xE8,
     CHR 0x83, CHR 0xBD, CHR 0xE4, CHR 0xB8, CHR 0xBA, CHR 0xE7, CHR 0xA9, CHR 0xBA]"

definition zh_v_redis_port :: string where \<comment> \<open>invalid redis port: \<close>
  "zh_v_redis_port =
     ''redis '' @ [CHR 0xE7, CHR 0xAB, CHR 0xAF, CHR 0xE5, CHR 0x8F, CHR 0xA3, CHR 0xE6,
     CHR 0x97, CHR 0xA0, CHR 0xE6, CHR 0x95, CHR 0x88] @ '': ''"

definition zh_v_redis_type :: string where \<comment> \<open>redis type must be node or cluster, current value: \<close>
  "zh_v_redis_type =
     ''redis '' @ [CHR 0xE7, CHR 0xB1, CHR 0xBB, CHR 0xE5, CHR 0x9E, CHR 0x8B, CHR 0xE5,
     CHR 0xBF, CHR 0x85, CHR 0xE9, CHR 0xA1, CHR 0xBB, CHR 0xE6, CHR 0x98, CHR 0xAF] @
     '' node '' @ [CHR 0xE6, CHR 0x88, CHR 0x96] @ '' cluster'' @ [CHR 0xEF, CHR 0xBC, CHR 0x8C,
     CHR 0xE5, CHR 0xBD, CHR 0x93, CHR 0xE5, CHR 0x89, CHR 0x8D, CHR 0xE5, CHR 0x80, CHR 0xBC] @
     '': ''"

definition zh_v_st_endpoint :: string where \<comment> \<open>storage endpoint must not be empty\<close>
  "zh_v_st_endpoint =
     [CHR 0xE5, CHR 0xAD, CHR 0x98, CHR 0xE5, CHR 0x82, CHR 0xA8, CHR 0xE7, CHR 0xAB, CHR 0xAF,
     CHR 0xE7, CHR 0x82, CHR 0xB9, CHR 0xE5, CHR 0x9C, CHR 0xB0, CHR 0xE5, CHR 0x9D, CHR 0x80,
     CHR 0xE4, CHR 0xB8, CHR 0x8D, CHR 0xE8, CHR 0x83, CHR 0xBD, CHR 0xE4, CHR 0xB8, CHR 0xBA,
     CHR 0xE7, CHR 0xA9, CHR 0xBA]"

definition zh_v_st_access :: string where \<comment> \<open>storage access key must not be empty\<close>
  "zh_v_st_access =
     [CHR 0xE5, CHR 0xAD, CHR 0x98, CHR 0xE5, CHR 0x82, CHR 0xA8, CHR 0xE8, CHR 0xAE, CHR 0xBF,
     CHR 0xE9, CHR 0x97, CHR 0xAE, CHR 0xE5, CHR 0xAF, CHR 0x86, CHR 0xE9, CHR 0x92, CHR 0xA5,
     CHR 0xE4, CHR 0xB8, CHR 0x8D, CHR 0xE8, CHR 0x83, CHR 0xBD, CHR 0xE4, CHR 0xB8, CHR 0xBA,
     CHR 0xE7, CHR 0xA9, CHR 0xBA]"

definition zh_v_st_secret :: string where \<comment> \<open>storage secret key must not be empty\<close>
  "zh_v_st_secret =
     [CHR 0xE5, CHR 0xAD, CHR 0x98, CHR 0xE5, CHR 0x82, CHR 0xA8, CHR 0xE5, CHR 0xAF, CHR 0x86,
     CHR 0xE9, CHR 0x92, CHR 0xA5, CHR 0xE4, CHR 0xB8, CHR 0x8D, CHR 0xE8, CHR 0x83, CHR 0xBD,
     CHR 0xE4, CHR 0xB8, CHR 0xBA, CHR 0xE7, CHR 0xA9, CHR 0xBA]"

definition zh_v_st_bucket :: string where \<comment> \<open>bucket name must not be empty\<close>
  "zh_v_st_bucket =
     [CHR 0xE5, CHR 0xAD, CHR 0x98, CHR 0xE5, CHR 0x82, CHR 0xA8, CHR 0xE6, CHR 0xA1, CHR 0xB6,
     CHR 0xE5, CHR 0x90, CHR 0x8D, CHR 0xE7, CHR 0xA7, CHR 0xB0, CHR 0xE4, CHR 0xB8, CHR 0x8D,
     CHR 0xE8, CHR 0x83, CHR 0xBD, CHR 0xE4, CHR 0xB8, CHR 0xBA, CHR 0xE7, CHR 0xA9, CHR 0xBA]"

definition zh_v_minio_tls :: string where \<comment> \<open>MinIO TLS configuration error: \<close>
  "zh_v_minio_tls =
     ''MinIO TLS '' @ [CHR 0xE9, CHR 0x85, CHR 0x8D, CHR 0xE7, CHR 0xBD, CHR 0xAE, CHR 0xE9,
     CHR 0x94, CHR 0x99, CHR 0xE8, CHR 0xAF, CHR 0xAF] @ '': ''"

definition zh_v_minio_tls_secret :: string where \<comment> \<open>MinIO TLS enabled without a certificate Secret name\<close>
  "zh_v_minio_tls_secret =
     ''MinIO TLS '' @ [CHR 0xE5, CHR 0xB7, CHR 0xB2, CHR 0xE5, CHR 0x90, CHR 0xAF, CHR 0xE7,
     CHR 0x94, CHR 0xA8, CHR 0xE4, CHR 0xBD, CHR 0x86, CHR 0xE6, CHR 0x9C, CHR 0xAA, CHR 0xE6,
     CHR 0x8C, CHR 0x87, CHR 0xE5, CHR 0xAE, CHR 0x9A, CHR 0xE8, CHR 0xAF, CHR 0x81, CHR 0xE4,
     CHR 0xB9, CHR 0xA6] @ '' Secret '' @ [CHR 0xE5, CHR 0x90, CHR 0x8D, CHR 0xE7, CHR 0xA7,
     CHR 0xB0]"

definition zh_v_jaeger :: string where \<comment> \<open>tracing enabled without a Jaeger endpoint\<close>
  "zh_v_jaeger =
     [CHR 0xE9, CHR 0x93, CHR 0xBE, CHR 0xE8, CHR 0xB7, CHR 0xAF, CHR 0xE8, CHR 0xBF, CHR 0xBD,
     CHR 0xE8, CHR 0xB8, CHR 0xAA, CHR 0xE5, CHR 0xB7, CHR 0xB2, CHR 0xE5, CHR 0x90, CHR 0xAF,
     CHR 0xE7, CHR 0x94, CHR 0xA8, CHR 0xE4, CHR 0xBD, CHR 0x86, CHR 0xE6, CHR 0x9C, CHR 0xAA,
     CHR 0xE9, CHR 0x85, CHR 0x8D, CHR 0xE7, CHR 0xBD, CHR 0xAE] @ '' Jaeger '' @ [CHR 0xE7,
     CHR 0xAB, CHR 0xAF, CHR 0xE7, CHR 0x82, CHR 0xB9, CHR 0xE5, CHR 0x9C, CHR 0xB0, CHR 0xE5,
     CHR 0x9D, CHR 0x80]"

definition zh_v_access_empty :: string where \<comment> \<open>access token secret must not be empty\<close>
  "zh_v_access_empty =
     [CHR 0xE8, CHR 0xAE, CHR 0xBF, CHR 0xE9, CHR 0x97, CHR 0xAE, CHR 0xE4, CHR 0xBB, CHR 0xA4,
     CHR 0xE7, CHR 0x89, CHR 0x8C, CHR 0xE5, CHR 0xAF, CHR 0x86, CHR 0xE9, CHR 0x92, CHR 0xA5,
     CHR 0xE4, CHR 0xB8, CHR 0x8D, CHR 0xE8, CHR 0x83, CHR 0xBD, CHR 0xE4, CHR 0xB8, CHR 0xBA,
     CHR 0xE7, CHR 0xA9, CHR 0xBA]"

definition zh_v_access_short :: string where \<comment> \<open>access token secret needs at least 32 characters, current length: \<close>
  "zh_v_access_short =
     [CHR 0xE8, CHR 0xAE, CHR 0xBF, CHR 0xE9, CHR 0x97, CHR 0xAE, CHR 0xE4, CHR 0xBB, CHR 0xA4,
     CHR 0xE7, CHR 0x89, CHR 0x8C, CHR 0xE5, CHR 0xAF, CHR 0x86, CHR 0xE9, CHR 0x92, CHR 0xA5,
     CHR 0xE9, CHR 0x95, CHR 0xBF, CHR 0xE5, CHR 0xBA, CHR 0xA6, CHR 0xE8, CHR 0x87, CHR 0xB3,
     CHR 0xE5, CHR 0xB0, CHR 0x91, CHR 0xE9, CHR 0x9C, CHR 0x80, CHR 0xE8, CHR 0xA6, CHR 0x81] @
     '' 32 '' @ [CHR 0xE4, CHR 0xB8, CHR 0xAA, CHR 0xE5, CHR 0xAD, CHR 0x97, CHR 0xE7, CHR 0xAC,
     CHR 0xA6, CHR 0xEF, CHR 0xBC, CHR 0x8C, CHR 0xE5, CHR 0xBD, CHR 0x93, CHR 0xE5, CHR 0x89,
     CHR 0x8D, CHR 0xE9, CHR 0x95, CHR 0xBF, CHR 0xE5, CHR 0xBA, CHR 0xA6] @ '': ''"

definition zh_v_refresh_empty :: string where \<comment> \<open>refresh token secret must not be empty\<close>
  "zh_v_refresh_empty =
     [CHR 0xE5, CHR 0x88, CHR 0xB7, CHR 0xE6, CHR 0x96, CHR 0xB0, CHR 0xE4, CHR 0xBB, CHR 0xA4,
     CHR 0xE7, CHR 0x89, CHR 0x8C, CHR 0xE5, CHR 0xAF, CHR 0x86, CHR 0xE9, CHR 0x92, CHR 0xA5,
     CHR 0xE4, CHR 0xB8, CHR 0x8D, CHR 0xE8, CHR 0x83, CHR 0xBD, CHR 0xE4, CHR 0xB8, CHR 0xBA,
     CHR 0xE7, CHR 0xA9, CHR 0xBA]"

definition zh_v_refresh_short :: string where \<comment> \<open>refresh token secret needs at least 32 characters, current length: \<close>
  "zh_v_refresh_short =
     [CHR 0xE5, CHR 0x88, CHR 0xB7, CHR 0xE6, CHR 0x96, CHR 0xB0, CHR 0xE4, CHR 0xBB, CHR 0xA4,
     CHR 0xE7, CHR 0x89, CHR 0x8C, CHR 0xE5, CHR 0xAF, CHR 0x86, CHR 0xE9, CHR 0x92, CHR 0xA5,
     CHR 0xE9, CHR 0x95, CHR 0xBF, CHR 0xE5, CHR 0xBA, CHR 0xA6, CHR 0xE8, CHR 0x87, CHR 0xB3,
     CHR 0xE5, CHR 0xB0, CHR 0x91, CHR 0xE9, CHR 0x9C, CHR 0x80, CHR 0xE8, CHR 0xA6, CHR 0x81] @
     '' 32 '' @ [CHR 0xE4, CHR 0xB8, CHR 0xAA, CHR 0xE5, CHR 0xAD, CHR 0x97, CHR 0xE7, CHR 0xAC,
     CHR 0xA6, CHR 0xEF, CHR 0xBC, CHR 0x8C, CHR 0xE5, CHR 0xBD, CHR 0x93, CHR 0xE5, CHR 0x89,
     CHR 0x8D, CHR 0xE9, CHR 0x95, CHR 0xBF, CHR 0xE5, CHR 0xBA, CHR 0xA6] @ '': ''"

definition zh_v_ingress_missing :: string where \<comment> \<open>expose type is ingress but no Ingress is configured\<close>
  "zh_v_ingress_missing =
     [CHR 0xE6, CHR 0x9A, CHR 0xB4, CHR 0xE9, CHR 0x9C, CHR 0xB2, CHR 0xE6, CHR 0x96, CHR 0xB9,
     CHR 0xE5, CHR 0xBC, CHR 0x8F, CHR 0xE4, CHR 0xB8, CHR 0xBA] @ '' ingress '' @ [CHR 0xE4,
     CHR 0xBD, CHR 0x86, CHR 0xE6, CHR 0x9C, CHR 0xAA, CHR 0xE9, CHR 0x85, CHR 0x8D, CHR 0xE7,
     CHR 0xBD, CHR 0xAE] @ '' Ingress''"

definition zh_v_ingress_host :: string where \<comment> \<open>the ingress configuration lacks a host\<close>
  "zh_v_ingress_host =
     ''ingress '' @ [CHR 0xE9, CHR 0x85, CHR 0x8D, CHR 0xE7, CHR 0xBD, CHR 0xAE, CHR 0xE7,
     CHR 0xBC, CHR 0xBA, CHR 0xE5, CHR 0xB0, CHR 0x91, CHR 0xE5, CHR 0x9F, CHR 0x9F, CHR 0xE5,
     CHR 0x90, CHR 0x8D]"

definition zh_v_ingress_tls :: string where \<comment> \<open>ingress TLS enabled without a certificate Secret name\<close>
  "zh_v_ingress_tls =
     ''ingress TLS '' @ [CHR 0xE5, CHR 0xB7, CHR 0xB2, CHR 0xE5, CHR 0x90, CHR 0xAF, CHR 0xE7,
     CHR 0x94, CHR 0xA8, CHR 0xE4, CHR 0xBD, CHR 0x86, CHR 0xE6, CHR 0x9C, CHR 0xAA, CHR 0xE6,
     CHR 0x8C, CHR 0x87, CHR 0xE5, CHR 0xAE, CHR 0x9A, CHR 0xE8, CHR 0xAF, CHR 0x81, CHR 0xE4,
     CHR 0xB9, CHR 0xA6] @ '' Secret '' @ [CHR 0xE5, CHR 0x90, CHR 0x8D, CHR 0xE7, CHR 0xA7,
     CHR 0xB0]"

definition zh_v_nodeport_tls :: string where \<comment> \<open>NodePort HTTPS enabled without a certificate Secret name\<close>
  "zh_v_nodeport_tls =
     ''NodePort HTTPS '' @ [CHR 0xE5, CHR 0xB7, CHR 0xB2, CHR 0xE5, CHR 0x90, CHR 0xAF,
     CHR 0xE7, CHR 0x94, CHR 0xA8, CHR 0xE4, CHR 0xBD, CHR 0x86, CHR 0xE6, CHR 0x9C, CHR 0xAA,
     CHR 0xE6, CHR 0x8C, CHR 0x87, CHR 0xE5, CHR 0xAE, CHR 0x9A, CHR 0xE8, CHR 0xAF, CHR 0x81,
     CHR 0xE4, CHR 0xB9, CHR 0xA6] @ '' Secret '' @ [CHR 0xE5, CHR 0x90, CHR 0x8D, CHR 0xE7,
     CHR 0xA7, CHR 0xB0]"

definition zh_v_expose_type :: string where \<comment> \<open>unsupported expose type: \<close>
  "zh_v_expose_type =
     [CHR 0xE4, CHR 0xB8, CHR 0x8D, CHR 0xE6, CHR 0x94, CHR 0xAF, CHR 0xE6, CHR 0x8C, CHR 0x81,
     CHR 0xE7, CHR 0x9A, CHR 0x84, CHR 0xE6, CHR 0x9A, CHR 0xB4, CHR 0xE9, CHR 0x9C, CHR 0xB2,
     CHR 0xE6, CHR 0x96, CHR 0xB9, CHR 0xE5, CHR 0xBC, CHR 0x8F] @ '': ''"

definition validateDatabase :: "DatabaseConfig \<Rightarrow> error option" where
  "validateDatabase db =
     (if db_Host db = [] then Some (Errorf zh_v_db_host)
      else if db_Database db = [] then Some (Errorf zh_v_db_name)
      else if db_User db = [] then Some (Errorf zh_v_db_user)
      else if db_Password db = [] then Some (Errorf zh_v_db_password)
      else if db_Port db \<le> 0 \<or> db_Port db > 65535
        then Some (Errorf (zh_v_db_port @ itoa (db_Port db)))
      else None)"

definition validateCache :: "CacheConfig \<Rightarrow> error option" where
  "validateCache cache =
     (if cache_Host cache = [] then Some (Errorf zh_v_redis_host)
      else if cache_Port cache \<le> 0 \<or> cache_Port cache > 65535
        then Some (Errorf (zh_v_redis_port @ itoa (cache_Port cache)))
      else if cache_Type cache \<noteq> ''node'' \<and> cache_Type cache \<noteq> ''cluster''
        then Some (Errorf (zh_v_redis_type @ cache_Type cache))
      else None)"

definition ValidateMinIOTLS :: "MinIOTLSConfig \<Rightarrow> error option" where
  "ValidateMinIOTLS tls =
     (if \<not> mtls_Enabled tls then None
      else if mtls_SecretName tls = [] then Some (Errorf zh_v_minio_tls_secret)
      else None)"

definition validateStorage :: "StorageConfig \<Rightarrow> error option" where
  "validateStorage storage =
     (if st_Endpoint storage = [] then Some (Errorf zh_v_st_endpoint)
      else if st_AccessKey storage = [] then Some (Errorf zh_v_st_access)
      else if st_SecretKey storage = [] then Some (Errorf zh_v_st_secret)
      else if st_Bucket storage = [] then Some (Errorf zh_v_st_bucket)
      else (case st_TLS storage of
              None \<Rightarrow> None
            | Some tls \<Rightarrow>
                if mtls_Enabled tls then
                  (case ValidateMinIOTLS tls of
                     Some err \<Rightarrow> Some (Errorf_w zh_v_minio_tls err)
                   | None \<Rightarrow> None)
                else None))"

definition ValidateTelemetryConfig :: "TelemetryConfig \<Rightarrow> error option" where
  "ValidateTelemetryConfig t =
     (if \<not> tel_Enabled t then None
      else if tel_JaegerEndpoint t = [] then Some (Errorf zh_v_jaeger)
      else None)"

definition validateJWT :: "JWTConfig \<Rightarrow> error option" where
  "validateJWT jwt =
     (if AccessSecret jwt = [] then Some (Errorf zh_v_access_empty)
      else if length (AccessSecret jwt) < 32
        then Some (Errorf (zh_v_access_short @ itoa (int (length (AccessSecret jwt)))))
      else if RefreshSecret jwt = [] then Some (Errorf zh_v_refresh_empty)
      else if length (RefreshSecret jwt) < 32
        then Some (Errorf (zh_v_refresh_short @ itoa (int (length (RefreshSecret jwt)))))
      else None)"

definition ValidateWebConfig :: "WebConfig \<Rightarrow> error option" where
  "ValidateWebConfig w =
     (if ExposeType w = ''ingress'' then
        (case web_Ingress w of
           None \<Rightarrow> Some (Errorf zh_v_ingress_missing)
         | Some ingress \<Rightarrow>
             if ic_Host ingress = [] then Some (Errorf zh_v_ingress_host)
             else if (case ic_TLS ingress of
                        None \<Rightarrow> False
                      | Some tls \<Rightarrow> itls_Enabled tls \<and> itls_SecretName tls = [])
               then Some (Errorf zh_v_ingress_tls)
             else None)
      else if ExposeType w = ''nodeport'' then
        (if (case web_NodePort w of
               None \<Rightarrow> False
             | Some np \<Rightarrow>
                 (case HTTPS np of
                    None \<Rightarrow> False
                  | Some https \<Rightarrow> nph_Enabled https \<and> nph_SecretName https = []))
         then Some (Errorf zh_v_nodeport_tls)
         else None)
      else Some (Errorf (zh_v_expose_type @ ExposeType w)))"

definition ValidateKubeNova :: "KubeNova \<Rightarrow> error option" where
  "ValidateKubeNova kn =
     (case validateDatabase (Database (Spec kn)) of
        Some err \<Rightarrow> Some (Errorf_w zh_v_database err)
      | None \<Rightarrow>
     (case validateCache (Cache (Spec kn)) of
        Some err \<Rightarrow> Some (Errorf_w zh_v_cache err)
      | None \<Rightarrow>
     (case validateStorage (Storage (Spec kn)) of
        Some err \<Rightarrow> Some (Errorf_w zh_v_storage err)
      | None \<Rightarrow>
     (case (if IsTelemetryEnabled kn
            then (case Telemetry (Spec kn) of
                    Some t \<Rightarrow> ValidateTelemetryConfig t
                  | None \<Rightarrow> None)
            else None) of
        Some err \<Rightarrow> Some (Errorf_w zh_v_telemetry err)
      | None \<Rightarrow>
     (case validateJWT (JWT (Services_cfg (Spec kn))) of
        Some err \<Rightarrow> Some (Errorf_w zh_v_jwt err)
      | None \<Rightarrow>
     (case ValidateWebConfig (Web_cfg (Spec kn)) of
        Some err \<Rightarrow> Some (Errorf_w zh_v_web err)
      | None \<Rightarrow> None))))))"

section \<open>Desired-state builders\<close>

text \<open>
  The RBAC builders (package \<^verbatim>\<open>builder\<close>) are small and are translated. The Go constant
  \<^verbatim>\<open>ServiceAccountName\<close> is \<open>ServiceAccountName_const\<close> here, the name being taken by the
  pod field.
\<close>

definition ObjectMeta_zero :: ObjectMeta where
  "ObjectMeta_zero =
     \<lparr>Name = [], Namespace = [], Labels = None, Annotations = None, OwnerReferences = [],
      Finalizers = [], ResourceVersion = [], Generation = 0, DeletionTimestamp = None\<rparr>"

definition ServiceAccountName_const :: string where
  "ServiceAccountName_const = ''kube-nova-sa''"

definition rbacLabels :: "KubeNova \<Rightarrow> string \<Rightarrow> StringMap" where
  "rbacLabels kn namespace =
     Some (fmap_of_list
       [(''app.kubernetes.io/name'', ''kube-nova''),
        (''app.kubernetes.io/instance'', Name (ObjectMeta kn)),
        (''app.kubernetes.io/managed-by'', ''kube-nova-operator''),
        (''app.kubernetes.io/namespace'', namespace),
        (''app.kubernetes.io/component'', ''rbac'')])"

definition BuildServiceAccount :: "KubeNova \<Rightarrow> string \<Rightarrow> ServiceAccount" where
  "BuildServiceAccount kn namespace =
     \<lparr>sa_ObjectMeta = ObjectMeta_zero
        \<lparr>Name := ServiceAccountName_const,
         Namespace := namespace,
         Labels := rbacLabels kn namespace\<rparr>\<rparr>"

definition BuildClusterRoleBinding :: "KubeNova \<Rightarrow> string \<Rightarrow> ClusterRoleBinding" where
  "BuildClusterRoleBinding kn namespace =
     \<lparr>crb_ObjectMeta = ObjectMeta_zero
        \<lparr>Name := ''kube-nova-'' @ namespace @ ''-'' @ Name (ObjectMeta kn) @ ''-cluster-admin'',
         Labels := rbacLabels kn namespace\<rparr>,
      Subjects =
        [\<lparr>sub_Kind = ''ServiceAccount'', sub_Name = ServiceAccountName_const,
          sub_Namespace = namespace\<rparr>],
      RoleRef =
        \<lparr>rr_APIGroup = ''rbac.authorization.k8s.io'', rr_Kind = ''ClusterRole'',
         rr_Name = ''cluster-admin''\<rparr>\<rparr>"

text \<open>
  The volume mounts and volumes of the front-end workload
  (\<^verbatim>\<open>getWebVolumeMounts\<close>, \<^verbatim>\<open>getWebVolumes\<close> in \<^verbatim>\<open>internal/builder/web.go\<close>).
\<close>

definition nodePortHTTPSSecret :: "KubeNova \<Rightarrow> string option" where
  "nodePortHTTPSSecret kn =
     (if ExposeType (Web_cfg (Spec kn)) = ''nodeport'' then
        (case web_NodePort (Web_cfg (Spec kn)) of
           None \<Rightarrow> None
         | Some np \<Rightarrow>
             (case HTTPS np of
                None \<Rightarrow> None
              | Some https \<Rightarrow>
                  if nph_Enabled https \<and> nph_SecretName https \<noteq> []
                  then Some (nph_SecretName https) else None))
      else None)"

definition getWebVolumeMounts :: "KubeNova \<Rightarrow> VolumeMount list" where
  "getWebVolumeMounts kn =
     [\<lparr>vm_Name = ''cache'', vm_MountPath = ''/var/cache/nginx'', vm_SubPath = [],
       vm_ReadOnly = False\<rparr>,
      \<lparr>vm_Name = ''logs'', vm_MountPath = ''/var/log/nginx'', vm_SubPath = [],
       vm_ReadOnly = False\<rparr>,
      \<lparr>vm_Name = ''run'', vm_MountPath = ''/var/run'', vm_SubPath = [], vm_ReadOnly = False\<rparr>]
     @
     [\<lparr>vm_Name = ''nginx-config'', vm_MountPath = ''/etc/nginx/nginx.conf'',
       vm_SubPath = ''nginx.conf'', vm_ReadOnly = False\<rparr>,
      \<lparr>vm_Name = ''nginx-config'', vm_MountPath = ''/etc/nginx/conf.d/default.conf'',
       vm_SubPath = ''default.conf'', vm_ReadOnly = False\<rparr>]
     @
     (case nodePortHTTPSSecret kn of
        Some _ \<Rightarrow>
          [\<lparr>vm_Name = ''tls-certs'', vm_MountPath = ''/etc/nginx/certs'', vm_SubPath = [],
            vm_ReadOnly = True\<rparr>]
      | None \<Rightarrow> [])"

definition getWebVolumes :: "KubeNova \<Rightarrow> string \<Rightarrow> Volume list" where
  "getWebVolumes kn namespace =
     (let configMapName =
            (if CustomNginxConfigMap (Web_cfg (Spec kn)) \<noteq> []
             then CustomNginxConfigMap (Web_cfg (Spec kn))
             else ''frontend-nginx-config'')
      in
      [\<lparr>vol_Name = ''nginx-config'', vol_VolumeSource = ConfigMapVolumeSource configMapName\<rparr>,
       \<lparr>vol_Name = ''cache'', vol_VolumeSource = EmptyDirVolumeSource ''1Gi''\<rparr>,
       \<lparr>vol_Name = ''logs'', vol_VolumeSource = EmptyDirVolumeSource ''500Mi''\<rparr>,
       \<lparr>vol_Name = ''run'', vol_VolumeSource = EmptyDirVolumeSource ''10Mi''\<rparr>]
      @
      (case nodePortHTTPSSecret kn of
         Some secretName \<Rightarrow>
           [\<lparr>vol_Name = ''tls-certs'', vol_VolumeSource = SecretVolumeSource secretName\<rparr>]
       | None \<Rightarrow> []))"

text \<open>
  The front-end workload document (\<^verbatim>\<open>buildWebDeployment\<close>, \<^verbatim>\<open>getWebPorts\<close>,
  \<^verbatim>\<open>getWebResourceRequirements\<close>), in the fields the workload records keep. The
  builder sets no service account name.
\<close>

definition getWebPorts :: "KubeNova \<Rightarrow> int list" where
  "getWebPorts kn =
     [80] @
     (if ExposeType (Web_cfg (Spec kn)) = ''nodeport''
         \<and> (case web_NodePort (Web_cfg (Spec kn)) of
                None \<Rightarrow> False
              | Some np \<Rightarrow> (case HTTPS np of None \<Rightarrow> False | Some https \<Rightarrow> nph_Enabled https))
      then [443] else [])"

definition getWebResourceRequirements :: "KubeNova \<Rightarrow> ResourceRequirements" where
  "getWebResourceRequirements kn =
     (case web_Resources (Web_cfg (Spec kn)) of
        Some resources \<Rightarrow> resources
      | None \<Rightarrow>
          \<lparr>Requests = Some (fmap_of_list [(''memory'', ''128Mi''), (''cpu'', ''100m'')]),
           Limits = Some (fmap_of_list [(''memory'', ''512Mi''), (''cpu'', ''500m'')])\<rparr>)"

definition webLabels :: "KubeNova \<Rightarrow> StringMap" where
  "webLabels kn =
     Some (fmap_of_list
       [(''app'', ''kube-nova-web''),
        (''tier'', ''frontend''),
        (''app.kubernetes.io/name'', ''kube-nova''),
        (''app.kubernetes.io/instance'', Name (ObjectMeta kn)),
        (''app.kubernetes.io/component'', ''web''),
        (''app.kubernetes.io/managed-by'', ''kube-nova-operator'')])"

definition buildWebDeployment :: "KubeNova \<Rightarrow> string \<Rightarrow> Deployment" where
  "buildWebDeployment kn namespace =
     (let registry = GetImageRegistry kn;
          replicas = GetWebReplicas (Web_cfg (Spec kn));
          image =
            (if web_Image (Web_cfg (Spec kn)) \<noteq> [] then web_Image (Web_cfg (Spec kn))
             else Registry registry @ ''/'' @ Organization registry @ ''/kube-nova-web:''
                    @ Tag registry)
      in
      \<lparr>dp_ObjectMeta = ObjectMeta_zero
         \<lparr>Name := ''kube-nova-web'', Namespace := namespace, Labels := webLabels kn\<rparr>,
       dp_Spec =
         \<lparr>Replicas = Some replicas,
          Selector = Some (fmap_of_list [(''app'', ''kube-nova-web'')]),
          Template =
            \<lparr>tpl_ObjectMeta = ObjectMeta_zero\<lparr>Labels := webLabels kn\<rparr>,
             tpl_Spec =
               \<lparr>Containers =
                  [\<lparr>c_Name = ''kube-nova-web'',
                    Image = image,
                    ImagePullPolicy = PullPolicy registry,
                    c_Ports = getWebPorts kn,
                    Env =
                      [\<lparr>env_Name = ''TZ'', env_Value = ''Asia/Shanghai'', env_ValueFrom = None\<rparr>,
                       \<lparr>env_Name = ''NGINX_WORKER_PROCESSES'', env_Value = ''auto'',
                        env_ValueFrom = None\<rparr>,
                       \<lparr>env_Name = ''NGINX_WORKER_CONNECTIONS'', env_Value = ''4096'',
                        env_ValueFrom = None\<rparr>],
                    Resources = getWebResourceRequirements kn,
                    VolumeMounts = getWebVolumeMounts kn\<rparr>],
                Volumes = getWebVolumes kn namespace,
                ServiceAccountName = [],
                ImagePullSecrets = PullSecrets registry,
                NodeName = [],
                DNSPolicy = ''ClusterFirst'',
                RestartPolicy = ''Always'',
                SchedulerName = []\<rparr>\<rparr>,
          Strategy = ''RollingUpdate''\<rparr>,
       dp_Status = \<lparr>ReadyReplicas = 0, AvailableReplicas = 0\<rparr>\<rparr>)"

text \<open>
  The other builders assemble large documents from templates; the controller only passes
  their results on, so they are parameters. \<^verbatim>\<open>BuildAllServices\<close> returns a Go map that the
  controller ranges over in an unspecified order: the parameter returns the entries in the
  order of that iteration.
\<close>

record ServiceResources =
  sr_Deployment :: Deployment
  sr_Service :: Service

record WebResources =
  wr_Deployment :: Deployment
  wr_Service :: Service
  wr_Ingress :: "Ingress option"
  NginxConfigMap :: "ConfigMap option"

record Builder =
  BuildSecret :: "KubeNova \<Rightarrow> string \<Rightarrow> string \<Rightarrow> int \<Rightarrow> Secret"
  BuildAllConfigMaps :: "KubeNova \<Rightarrow> string \<Rightarrow> ConfigMap list"
  BuildAllServices :: "KubeNova \<Rightarrow> string \<Rightarrow> (string \<times> ServiceResources) list"
  BuildWebResources :: "KubeNova \<Rightarrow> string \<Rightarrow> WebResources"

section \<open>Status bookkeeping, the retry-safe status writer and the deletion lifecycle\<close>

definition kubenovaFinalizer :: string where
  "kubenovaFinalizer = ''kubenova.io/finalizer''"

text \<open>
  \<^verbatim>\<open>controllerutil.ContainsFinalizer\<close>, \<^verbatim>\<open>AddFinalizer\<close> and \<^verbatim>\<open>RemoveFinalizer\<close>
  (controller-runtime): membership, append when absent, removal of every occurrence.
\<close>

definition ContainsFinalizer :: "KubeNova \<Rightarrow> string \<Rightarrow> bool" where
  "ContainsFinalizer kubenova finalizer = (finalizer \<in> set (Finalizers (ObjectMeta kubenova)))"

definition AddFinalizer :: "KubeNova \<Rightarrow> string \<Rightarrow> KubeNova" where
  "AddFinalizer kubenova finalizer =
     (if finalizer \<in> set (Finalizers (ObjectMeta kubenova)) then kubenova
      else kubenova\<lparr>ObjectMeta := (ObjectMeta kubenova)
             \<lparr>Finalizers := Finalizers (ObjectMeta kubenova) @ [finalizer]\<rparr>\<rparr>)"

definition RemoveFinalizer :: "KubeNova \<Rightarrow> string \<Rightarrow> KubeNova" where
  "RemoveFinalizer kubenova finalizer =
     kubenova\<lparr>ObjectMeta := (ObjectMeta kubenova)
       \<lparr>Finalizers := filter (\<lambda>f. f \<noteq> finalizer) (Finalizers (ObjectMeta kubenova))\<rparr>\<rparr>"

text \<open>
  \<^verbatim>\<open>meta.SetStatusCondition\<close> (apimachinery): a condition of a new type is appended, with
  the current time when it carries none; an existing condition of that type takes the new
  status (and a transition time when the status changed), reason, message and observed
  generation. The zero time is \<open>0\<close>.
\<close>

definition mergeCondition :: "Time \<Rightarrow> Condition \<Rightarrow> Condition \<Rightarrow> Condition" where
  "mergeCondition now existingCondition newCondition =
     (let c = (if cond_Status existingCondition \<noteq> cond_Status newCondition
               then existingCondition
                      \<lparr>cond_Status := cond_Status newCondition,
                       cond_LastTransitionTime :=
                         (if cond_LastTransitionTime newCondition \<noteq> 0
                          then cond_LastTransitionTime newCondition else now)\<rparr>
               else existingCondition)
      in c\<lparr>cond_Reason := cond_Reason newCondition,
           cond_Message := cond_Message newCondition,
           cond_ObservedGeneration := cond_ObservedGeneration newCondition\<rparr>)"

fun updateFirstCondition :: "Time \<Rightarrow> Condition \<Rightarrow> Condition list \<Rightarrow> Condition list" where
  "updateFirstCondition now newCondition [] = []"
| "updateFirstCondition now newCondition (c # cs) =
     (if cond_Type c = cond_Type newCondition then mergeCondition now c newCondition # cs
      else c # updateFirstCondition now newCondition cs)"

definition SetStatusCondition :: "Time \<Rightarrow> Condition list \<Rightarrow> Condition \<Rightarrow> Condition list" where
  "SetStatusCondition now conditions newCondition =
     (if list_ex (\<lambda>c. cond_Type c = cond_Type newCondition) conditions
      then updateFirstCondition now newCondition conditions
      else conditions @
             [if cond_LastTransitionTime newCondition = 0
              then newCondition\<lparr>cond_LastTransitionTime := now\<rparr>
              else newCondition])"

text \<open>\<^verbatim>\<open>setStatusPhase\<close> (controller, lines 1018-1024); \<open>now\<close> is \<^verbatim>\<open>metav1.Now()\<close>.\<close>

definition setStatusPhase :: "Time \<Rightarrow> KubeNova \<Rightarrow> DeploymentPhase \<Rightarrow> string \<Rightarrow> KubeNova" where
  "setStatusPhase now kubenova phase message =
     kubenova\<lparr>Status := (Status kubenova)
       \<lparr>Phase := phase,
        Message := message,
        LastUpdateTime := now,
        ObservedGeneration := Generation (ObjectMeta kubenova)\<rparr>\<rparr>"

text \<open>
  \<^verbatim>\<open>updateStatusWithRetry\<close> (lines 202-245). The loop variable \<^verbatim>\<open>i\<close> is the argument of
  the recursion; the function returns the error and the caller's root, which the Go code
  updates in place on success.
\<close>

function updateStatusWithRetry_loop ::
    "'w KubeNovaReconciler \<Rightarrow> nat \<Rightarrow> KubeNova \<Rightarrow> 'w state
       \<Rightarrow> (error option \<times> KubeNova) \<times> 'w state" where
  "updateStatusWithRetry_loop r i kubenova s =
     (if i < 3 then
        (case r_Get_KubeNova r
                \<lparr>nn_Namespace = Namespace (ObjectMeta kubenova),
                 nn_Name = Name (ObjectMeta kubenova)\<rparr> s of
           (Inl err, s1) \<Rightarrow> ((Some err, kubenova), s1)
         | (Inr fetched, s1) \<Rightarrow>
             (let latest = fetched\<lparr>Status := Status kubenova\<rparr> in
              case r_Status_Update r latest s1 of
                (Inl err, s2) \<Rightarrow>
                  if IsConflict err \<and> i < 2
                  then updateStatusWithRetry_loop r (i + 1) kubenova
                         (r_Sleep r (100 * (i + 1)) s2)
                  else ((Some err, kubenova), s2)
              | (Inr latest', s2) \<Rightarrow>
                  ((None,
                    kubenova\<lparr>Status := Status latest',
                             ObjectMeta := (ObjectMeta kubenova)
                               \<lparr>ResourceVersion := ResourceVersion (ObjectMeta latest')\<rparr>\<rparr>),
                   s2)))
      else ((Some (Errorf zh_status_update_exhausted), kubenova), s))"
  by pat_completeness auto
termination
  by (relation "measure (\<lambda>(r, i, kubenova, s). 3 - i)") auto

declare updateStatusWithRetry_loop.simps [simp del]

definition updateStatusWithRetry ::
    "'w KubeNovaReconciler \<Rightarrow> KubeNova \<Rightarrow> 'w state \<Rightarrow> (error option \<times> KubeNova) \<times> 'w state" where
  "updateStatusWithRetry r kubenova s = updateStatusWithRetry_loop r 0 kubenova s"

text \<open>
  \<^verbatim>\<open>reconcileDelete\<close> (lines 248-278). \<open>removeFinalizerAndUpdate\<close> is its last step
  (lines 268-277), which three paths of the function reach.
\<close>

definition removeFinalizerAndUpdate ::
    "'w KubeNovaReconciler \<Rightarrow> KubeNova \<Rightarrow> 'w state \<Rightarrow> (Result \<times> error option) \<times> 'w state" where
  "removeFinalizerAndUpdate r kubenova s =
     (case r_Update r (ObjKubeNova (RemoveFinalizer kubenova kubenovaFinalizer)) s of
        (Some err, s1) \<Rightarrow> ((Result_zero, Some err), s1)
      | (None, s1) \<Rightarrow> ((Result_zero, None), s1))"

definition reconcileDelete ::
    "'w KubeNovaReconciler \<Rightarrow> KubeNova \<Rightarrow> 'w state \<Rightarrow> (Result \<times> error option) \<times> 'w state" where
  "reconcileDelete r kubenova0 s0 =
     (case updateStatusWithRetry r
             (setStatusPhase (r_Now r s0) kubenova0 PhaseDeleting zh_deleting_resources) s0 of
        ((_, kubenova), s1) \<Rightarrow>
          (let crbName = ''kube-nova-'' @ Namespace (ObjectMeta kubenova) @ ''-''
                           @ Name (ObjectMeta kubenova) @ ''-cluster-admin''
           in
           case r_Get_ClusterRoleBinding r \<lparr>nn_Namespace = [], nn_Name = crbName\<rparr> s1 of
             (Inr crb, s2) \<Rightarrow>
               (case r_Delete r (ObjClusterRoleBinding crb) s2 of
                  (Some err, s3) \<Rightarrow>
                    if \<not> IsNotFound err then ((Result_zero, Some err), s3)
                    else removeFinalizerAndUpdate r kubenova s3
                | (None, s3) \<Rightarrow> removeFinalizerAndUpdate r kubenova s3)
           | (Inl _, s2) \<Rightarrow> removeFinalizerAndUpdate r kubenova s2))"

section \<open>The stages of the pipeline\<close>

text \<open>
  A stage returns its error (\<open>None\<close> is \<^verbatim>\<open>nil\<close>) and the next state. \<open>andThen\<close> is the
  Go idiom \<^verbatim>\<open>if err != nil { return err }\<close> between two steps. \<open>getOrCreate\<close> is the block
  the controller repeats for every dependent document:
  \<^verbatim>\<open>if err := r.Get(..., existing); err != nil { if errors.IsNotFound(err) { r.Create(desired) }
  else { return } } else { ... }\<close>, with the wrapped errors of each place as parameters.
  \<open>failed_msg verb what\<close> is the text \<^verbatim>\<open>"<verb> <what> <failed>: "\<close> of those errors.
\<close>

definition andThen ::
    "error option \<times> 'w state \<Rightarrow> ('w state \<Rightarrow> error option \<times> 'w state)
       \<Rightarrow> error option \<times> 'w state" where
  "andThen res k = (case res of (Some err, s) \<Rightarrow> (Some err, s) | (None, s) \<Rightarrow> k s)"

definition wrapError :: "string \<Rightarrow> error option \<times> 'w state \<Rightarrow> error option \<times> 'w state" where
  "wrapError msg res =
     (case res of (Some err, s) \<Rightarrow> (Some (Errorf_w msg err), s) | (None, s) \<Rightarrow> (None, s))"

definition getOrCreate ::
    "(error + 'a) \<times> 'w state \<Rightarrow> 'w KubeNovaReconciler \<Rightarrow> obj \<Rightarrow> string \<Rightarrow> string
       \<Rightarrow> ('a \<Rightarrow> 'w state \<Rightarrow> error option \<times> 'w state) \<Rightarrow> error option \<times> 'w state" where
  "getOrCreate got r desired createFailed getFailed onExisting =
     (case got of
        (Inl err, s1) \<Rightarrow>
          if IsNotFound err then wrapError createFailed (r_Create r desired s1)
          else (Some (Errorf_w getFailed err), s1)
      | (Inr existing, s1) \<Rightarrow> onExisting existing s1)"

definition failed_msg :: "string \<Rightarrow> string \<Rightarrow> string" where
  "failed_msg verb what = verb @ '' '' @ what @ '' '' @ zh_failed @ '': ''"

definition setCondition :: "Time \<Rightarrow> KubeNova \<Rightarrow> Condition \<Rightarrow> KubeNova" where
  "setCondition now kubenova newCondition =
     kubenova\<lparr>Status := (Status kubenova)
       \<lparr>Conditions := SetStatusCondition now (Conditions (Status kubenova)) newCondition\<rparr>\<rparr>"

text \<open>\<^verbatim>\<open>reconcileValidation\<close> (lines 282-314): it changes the root in memory only.\<close>

definition reconcileValidation ::
    "'w KubeNovaReconciler \<Rightarrow> KubeNova \<Rightarrow> 'w state \<Rightarrow> error option \<times> KubeNova" where
  "reconcileValidation r kubenova0 s =
     (let kubenova = setStatusPhase (r_Now r s) kubenova0 PhaseValidating zh_validating_config
      in
      case ValidateKubeNova kubenova of
        Some err \<Rightarrow>
          (Some err,
           setCondition (r_Now r s) kubenova
             \<lparr>cond_Type = ConditionTypeValidated,
              cond_Status = ConditionFalse,
              cond_ObservedGeneration = Generation (ObjectMeta kubenova),
              cond_LastTransitionTime = 0,
              cond_Reason = ''ValidationFailed'',
              cond_Message = zh_validation_failed @ err_Message err\<rparr>)
      | None \<Rightarrow>
          (None,
           setCondition (r_Now r s) kubenova
             \<lparr>cond_Type = ConditionTypeValidated,
              cond_Status = ConditionTrue,
              cond_ObservedGeneration = Generation (ObjectMeta kubenova),
              cond_LastTransitionTime = 0,
              cond_Reason = ''ValidationSucceeded'',
              cond_Message = zh_validation_succeeded\<rparr>))"

text \<open>\<^verbatim>\<open>reconcileNamespace\<close> (lines 317-331).\<close>

definition reconcileNamespace ::
    "'w KubeNovaReconciler \<Rightarrow> KubeNova \<Rightarrow> 'w state \<Rightarrow> error option \<times> 'w state" where
  "reconcileNamespace r kubenova s =
     (let namespace = Namespace (ObjectMeta kubenova) in
      case r_Get_Namespace r \<lparr>nn_Namespace = [], nn_Name = namespace\<rparr> s of
        (Inl err, s1) \<Rightarrow>
          if IsNotFound err
          then (Some (Errorf (zh_namespace @ '' '' @ namespace @ '' '' @ zh_namespace_missing)), s1)
          else (Some (Errorf_w (zh_get @ zh_namespace @ zh_failed @ '': '') err), s1)
      | (Inr ns, s1) \<Rightarrow> (None, s1))"

text \<open>\<^verbatim>\<open>reconcileRBAC\<close> (lines 334-375).\<close>

definition reconcileRBAC ::
    "'w KubeNovaReconciler \<Rightarrow> KubeNova \<Rightarrow> 'w state \<Rightarrow> error option \<times> 'w state" where
  "reconcileRBAC r kubenova s =
     (let namespace = Namespace (ObjectMeta kubenova);
          sa0 = BuildServiceAccount kubenova namespace
      in
      case SetControllerReference r kubenova (sa_ObjectMeta sa0) of
        Inl err \<Rightarrow> (Some (Errorf_w (failed_msg zh_set ''ServiceAccount OwnerReference'') err), s)
      | Inr ownedMeta \<Rightarrow>
          (let sa = sa0\<lparr>sa_ObjectMeta := ownedMeta\<rparr> in
           andThen
             (getOrCreate
                (r_Get_ServiceAccount r
                   \<lparr>nn_Namespace = namespace, nn_Name = Name (sa_ObjectMeta sa)\<rparr> s)
                r (ObjServiceAccount sa)
                (failed_msg zh_create ''ServiceAccount'') (failed_msg zh_get ''ServiceAccount'')
                (\<lambda>existingSA s1. (None, s1)))
             (\<lambda>s2.
                let crb = BuildClusterRoleBinding kubenova namespace in
                getOrCreate
                  (r_Get_ClusterRoleBinding r
                     \<lparr>nn_Namespace = [], nn_Name = Name (crb_ObjectMeta crb)\<rparr> s2)
                  r (ObjClusterRoleBinding crb)
                  (failed_msg zh_create ''ClusterRoleBinding'')
                  (failed_msg zh_get ''ClusterRoleBinding'')
                  (\<lambda>existingCRB s3. (None, s3)))))"

text \<open>\<^verbatim>\<open>getNodeIP\<close> (lines 968-1016).\<close>

definition isReady :: "Node \<Rightarrow> bool" where
  "isReady node =
     list_ex (\<lambda>condition. nc_Type condition = NodeReady \<and> nc_Status condition = ConditionTrue_str)
       (node_Conditions (node_Status node))"

fun firstAddress :: "(string \<Rightarrow> bool) \<Rightarrow> NodeAddress list \<Rightarrow> string option" where
  "firstAddress wanted [] = None"
| "firstAddress wanted (addr # rest) =
     (if wanted (na_Type addr) then Some (na_Address addr) else firstAddress wanted rest)"

fun getNodeIP_loop :: "Node list \<Rightarrow> string option" where
  "getNodeIP_loop [] = None"
| "getNodeIP_loop (node # rest) =
     (if \<not> isReady node then getNodeIP_loop rest
      else
        (case firstAddress (\<lambda>t. t = NodeExternalIP) (node_Addresses (node_Status node)) of
           Some address \<Rightarrow> Some address
         | None \<Rightarrow>
             (case firstAddress (\<lambda>t. t = NodeInternalIP) (node_Addresses (node_Status node)) of
                Some address \<Rightarrow> Some address
              | None \<Rightarrow> getNodeIP_loop rest)))"

definition getNodeIP :: "'w KubeNovaReconciler \<Rightarrow> 'w state \<Rightarrow> string \<times> 'w state" where
  "getNodeIP r s =
     (case r_List_Nodes r s of
        (Inl err, s1) \<Rightarrow> ([], s1)
      | (Inr items, s1) \<Rightarrow>
          if length items = 0 then ([], s1)
          else
            (case getNodeIP_loop items of
               Some address \<Rightarrow> (address, s1)
             | None \<Rightarrow>
                 if length items > 0 then
                   (case firstAddress (\<lambda>t. t = NodeExternalIP \<or> t = NodeInternalIP)
                           (node_Addresses (node_Status (items ! 0))) of
                      Some address \<Rightarrow> (address, s1)
                    | None \<Rightarrow> ([], s1))
                 else ([], s1)))"

text \<open>\<^verbatim>\<open>getWebNodePort\<close> (lines 419-465).\<close>

fun firstNodePort :: "string \<Rightarrow> ServicePort list \<Rightarrow> int option" where
  "firstNodePort name [] = None"
| "firstNodePort name (port # rest) =
     (if sp_Name port = name \<and> sp_NodePort port > 0 then Some (sp_NodePort port)
      else firstNodePort name rest)"

definition configuredPortOrDefault :: "KubeNova \<Rightarrow> int" where
  "configuredPortOrDefault kubenova =
     (case web_NodePort (Web_cfg (Spec kubenova)) of
        Some np \<Rightarrow> if HTTPPort np > 0 then HTTPPort np else 30080
      | None \<Rightarrow> 30080)"

definition nodePortHTTPSEnabled :: "KubeNova \<Rightarrow> bool" where
  "nodePortHTTPSEnabled kubenova =
     (case web_NodePort (Web_cfg (Spec kubenova)) of
        None \<Rightarrow> False
      | Some np \<Rightarrow> (case HTTPS np of None \<Rightarrow> False | Some https \<Rightarrow> nph_Enabled https))"

definition getWebNodePort ::
    "'w KubeNovaReconciler \<Rightarrow> KubeNova \<Rightarrow> string \<Rightarrow> 'w state \<Rightarrow> int \<times> 'w state" where
  "getWebNodePort r kubenova namespace s =
     (if ExposeType (Web_cfg (Spec kubenova)) \<noteq> ''nodeport'' then (0, s)
      else
        (case r_Get_Service r \<lparr>nn_Namespace = namespace, nn_Name = ''kube-nova-web''\<rparr> s of
           (Inl err, s1) \<Rightarrow> (configuredPortOrDefault kubenova, s1)
         | (Inr webSvc, s1) \<Rightarrow>
             (case (if nodePortHTTPSEnabled kubenova
                    then firstNodePort ''https'' (svc_Ports (svc_Spec webSvc)) else None) of
                Some p \<Rightarrow> (p, s1)
              | None \<Rightarrow>
                  (case firstNodePort ''http'' (svc_Ports (svc_Spec webSvc)) of
                     Some p \<Rightarrow> (p, s1)
                   | None \<Rightarrow> (configuredPortOrDefault kubenova, s1)))))"

text \<open>\<^verbatim>\<open>reconcileSecret\<close> (lines 378-416).\<close>

definition reconcileSecret ::
    "'w KubeNovaReconciler \<Rightarrow> Builder \<Rightarrow> KubeNova \<Rightarrow> 'w state \<Rightarrow> error option \<times> 'w state" where
  "reconcileSecret r b kubenova s =
     (let namespace = Namespace (ObjectMeta kubenova) in
      case getNodeIP r s of (nodeIP, s1) \<Rightarrow>
      case getWebNodePort r kubenova namespace s1 of (nodePort, s2) \<Rightarrow>
      (let secret0 = BuildSecret b kubenova namespace nodeIP nodePort in
       case SetControllerReference r kubenova (sec_ObjectMeta secret0) of
         Inl err \<Rightarrow> (Some (Errorf_w (failed_msg zh_set ''OwnerReference'') err), s2)
       | Inr ownedMeta \<Rightarrow>
           (let secret = secret0\<lparr>sec_ObjectMeta := ownedMeta\<rparr> in
            getOrCreate
              (r_Get_Secret r
                 \<lparr>nn_Namespace = namespace, nn_Name = Name (sec_ObjectMeta secret)\<rparr> s2)
              r (ObjSecret secret)
              (failed_msg zh_create ''Secret'') (failed_msg zh_get ''Secret'')
              (\<lambda>existingSecret s3.
                 if sec_Data existingSecret \<noteq> sec_Data secret
                 then wrapError (failed_msg zh_update ''Secret'')
                        (r_Update r (ObjSecret (existingSecret\<lparr>sec_Data := sec_Data secret\<rparr>)) s3)
                 else (None, s3)))))"

text \<open>
  One configuration document: the loop body of \<^verbatim>\<open>reconcileConfigMaps\<close> (lines 476-499),
  which \<^verbatim>\<open>reconcileWeb\<close> repeats for the default Nginx configuration (lines 589-613) with
  other error texts.
\<close>

definition syncConfigMap ::
    "'w KubeNovaReconciler \<Rightarrow> KubeNova \<Rightarrow> string \<Rightarrow> string \<Rightarrow> string \<Rightarrow> string \<Rightarrow> ConfigMap
       \<Rightarrow> 'w state \<Rightarrow> error option \<times> 'w state" where
  "syncConfigMap r kubenova namespace createFailed getFailed updateFailed cm0 s =
     (case SetControllerReference r kubenova (cm_ObjectMeta cm0) of
        Inl err \<Rightarrow> (Some (Errorf_w (failed_msg zh_set ''OwnerReference'') err), s)
      | Inr ownedMeta \<Rightarrow>
          (let cm = cm0\<lparr>cm_ObjectMeta := ownedMeta\<rparr> in
           getOrCreate
             (r_Get_ConfigMap r
                \<lparr>nn_Namespace = namespace, nn_Name = Name (cm_ObjectMeta cm)\<rparr> s)
             r (ObjConfigMap cm) createFailed getFailed
             (\<lambda>existingCM s1.
                if cm_Data existingCM \<noteq> cm_Data cm
                then wrapError updateFailed
                       (r_Update r (ObjConfigMap (existingCM\<lparr>cm_Data := cm_Data cm\<rparr>)) s1)
                else (None, s1))))"

text \<open>\<^verbatim>\<open>reconcileConfigMaps\<close> (lines 468-503).\<close>

fun reconcileConfigMaps_loop ::
    "'w KubeNovaReconciler \<Rightarrow> KubeNova \<Rightarrow> string \<Rightarrow> ConfigMap list \<Rightarrow> 'w state
       \<Rightarrow> error option \<times> 'w state" where
  "reconcileConfigMaps_loop r kubenova namespace [] s = (None, s)"
| "reconcileConfigMaps_loop r kubenova namespace (cm # rest) s =
     andThen
       (syncConfigMap r kubenova namespace
          (failed_msg zh_create (''ConfigMap '' @ Name (cm_ObjectMeta cm)))
          (failed_msg zh_get ''ConfigMap'')
          (failed_msg zh_update (''ConfigMap '' @ Name (cm_ObjectMeta cm)))
          cm s)
       (reconcileConfigMaps_loop r kubenova namespace rest)"

definition reconcileConfigMaps ::
    "'w KubeNovaReconciler \<Rightarrow> Builder \<Rightarrow> KubeNova \<Rightarrow> 'w state \<Rightarrow> error option \<times> 'w state" where
  "reconcileConfigMaps r b kubenova s =
     (let namespace = Namespace (ObjectMeta kubenova) in
      reconcileConfigMaps_loop r kubenova namespace (BuildAllConfigMaps b kubenova namespace) s)"

text \<open>
  The workload update path. \<open>spliceServiceDeployment\<close> is the five assignments of
  lines 543-547 onto the freshly fetched document, \<open>spliceWebDeployment\<close> the four
  assignments of lines 641-644. \<open>syncDeployment\<close> is the block of lines 517-554, which
  \<^verbatim>\<open>reconcileWeb\<close> repeats (lines 617-651) with its own assignments and error texts.
\<close>

definition spliceServiceDeployment :: "Deployment \<Rightarrow> Deployment \<Rightarrow> Deployment" where
  "spliceServiceDeployment latestDeploy deployment =
     latestDeploy\<lparr>dp_Spec := (dp_Spec latestDeploy)
       \<lparr>Replicas := Replicas (dp_Spec deployment),
        Template := (Template (dp_Spec latestDeploy))
          \<lparr>tpl_Spec := (tpl_Spec (Template (dp_Spec latestDeploy)))
             \<lparr>Containers := Containers (tpl_Spec (Template (dp_Spec deployment))),
              Volumes := Volumes (tpl_Spec (Template (dp_Spec deployment))),
              ServiceAccountName := ServiceAccountName (tpl_Spec (Template (dp_Spec deployment))),
              ImagePullSecrets := ImagePullSecrets (tpl_Spec (Template (dp_Spec deployment)))\<rparr>\<rparr>\<rparr>\<rparr>"

definition spliceWebDeployment :: "Deployment \<Rightarrow> Deployment \<Rightarrow> Deployment" where
  "spliceWebDeployment latestDeploy deployment =
     latestDeploy\<lparr>dp_Spec := (dp_Spec latestDeploy)
       \<lparr>Replicas := Replicas (dp_Spec deployment),
        Template := (Template (dp_Spec latestDeploy))
          \<lparr>tpl_Spec := (tpl_Spec (Template (dp_Spec latestDeploy)))
             \<lparr>Containers := Containers (tpl_Spec (Template (dp_Spec deployment))),
              Volumes := Volumes (tpl_Spec (Template (dp_Spec deployment))),
              ImagePullSecrets := ImagePullSecrets (tpl_Spec (Template (dp_Spec deployment)))\<rparr>\<rparr>\<rparr>\<rparr>"

definition syncDeployment ::
    "'w KubeNovaReconciler \<Rightarrow> KubeNova \<Rightarrow> string \<Rightarrow> (Deployment \<Rightarrow> Deployment \<Rightarrow> Deployment)
       \<Rightarrow> string \<Rightarrow> string \<Rightarrow> string \<Rightarrow> string \<Rightarrow> Deployment
       \<Rightarrow> 'w state \<Rightarrow> error option \<times> 'w state" where
  "syncDeployment r kubenova namespace spliceFields createFailed getFailed regetFailed updateFailed
       deployment0 s =
     (case SetControllerReference r kubenova (dp_ObjectMeta deployment0) of
        Inl err \<Rightarrow> (Some (Errorf_w (failed_msg zh_set ''OwnerReference'') err), s)
      | Inr ownedMeta \<Rightarrow>
          (let deployment = deployment0\<lparr>dp_ObjectMeta := ownedMeta\<rparr>;
               key = \<lparr>nn_Namespace = namespace, nn_Name = Name (dp_ObjectMeta deployment)\<rparr>
           in
           getOrCreate (r_Get_Deployment r key s) r (ObjDeployment deployment)
             createFailed getFailed
             (\<lambda>existingDeploy s1.
                if \<not> deploymentSpecEqual (dp_Spec existingDeploy) (dp_Spec deployment) then
                  (case r_Get_Deployment r key s1 of
                     (Inl err, s2) \<Rightarrow> (Some (Errorf_w regetFailed err), s2)
                   | (Inr latestDeploy, s2) \<Rightarrow>
                       wrapError updateFailed
                         (r_Update r (ObjDeployment (spliceFields latestDeploy deployment)) s2))
                else (None, s1))))"

text \<open>
  The network-expose document of a component (lines 557-572 and 654-669): created when
  absent, left alone when present.
\<close>

definition syncService ::
    "'w KubeNovaReconciler \<Rightarrow> KubeNova \<Rightarrow> string \<Rightarrow> string \<Rightarrow> string \<Rightarrow> Service
       \<Rightarrow> 'w state \<Rightarrow> error option \<times> 'w state" where
  "syncService r kubenova namespace createFailed getFailed service0 s =
     (case SetControllerReference r kubenova (svc_ObjectMeta service0) of
        Inl err \<Rightarrow> (Some (Errorf_w (failed_msg zh_set ''OwnerReference'') err), s)
      | Inr ownedMeta \<Rightarrow>
          (let service = service0\<lparr>svc_ObjectMeta := ownedMeta\<rparr> in
           getOrCreate
             (r_Get_Service r
                \<lparr>nn_Namespace = namespace, nn_Name = Name (svc_ObjectMeta service)\<rparr> s)
             r (ObjService service) createFailed getFailed
             (\<lambda>existingSvc s1. (None, s1))))"

text \<open>\<^verbatim>\<open>reconcileServices\<close> (lines 506-577); it sets the phase in memory first.\<close>

fun reconcileServices_loop ::
    "'w KubeNovaReconciler \<Rightarrow> KubeNova \<Rightarrow> string \<Rightarrow> (string \<times> ServiceResources) list \<Rightarrow> 'w state
       \<Rightarrow> error option \<times> 'w state" where
  "reconcileServices_loop r kubenova namespace [] s = (None, s)"
| "reconcileServices_loop r kubenova namespace ((serviceName, resources) # rest) s =
     andThen
       (andThen
          (syncDeployment r kubenova namespace spliceServiceDeployment
             (failed_msg zh_create (''Deployment '' @ serviceName))
             (failed_msg zh_get ''Deployment'')
             (failed_msg zh_reget ''Deployment'')
             (failed_msg zh_update (''Deployment '' @ serviceName))
             (sr_Deployment resources) s)
          (syncService r kubenova namespace
             (failed_msg zh_create (''Service '' @ serviceName))
             (failed_msg zh_get ''Service'')
             (sr_Service resources)))
       (reconcileServices_loop r kubenova namespace rest)"

definition reconcileServices ::
    "'w KubeNovaReconciler \<Rightarrow> Builder \<Rightarrow> KubeNova \<Rightarrow> 'w state
       \<Rightarrow> (error option \<times> KubeNova) \<times> 'w state" where
  "reconcileServices r b kubenova0 s =
     (let kubenova = setStatusPhase (r_Now r s) kubenova0 PhaseCreating zh_deploying_backend;
          namespace = Namespace (ObjectMeta kubenova)
      in
      case reconcileServices_loop r kubenova namespace (BuildAllServices b kubenova namespace) s of
        (err, s1) \<Rightarrow> ((err, kubenova), s1))"

text \<open>\<^verbatim>\<open>reconcileWeb\<close> (lines 580-693).\<close>

definition syncIngress ::
    "'w KubeNovaReconciler \<Rightarrow> KubeNova \<Rightarrow> string \<Rightarrow> Ingress \<Rightarrow> 'w state
       \<Rightarrow> error option \<times> 'w state" where
  "syncIngress r kubenova namespace ingress0 s =
     (case SetControllerReference r kubenova (ing_ObjectMeta ingress0) of
        Inl err \<Rightarrow> (Some (Errorf_w (failed_msg zh_set ''OwnerReference'') err), s)
      | Inr ownedMeta \<Rightarrow>
          (let ingress = ingress0\<lparr>ing_ObjectMeta := ownedMeta\<rparr> in
           getOrCreate
             (r_Get_Ingress r
                \<lparr>nn_Namespace = namespace, nn_Name = Name (ing_ObjectMeta ingress)\<rparr> s)
             r (ObjIngress ingress)
             (failed_msg zh_create ''Ingress'') (failed_msg zh_get ''Ingress'')
             (\<lambda>existingIngress s1. (None, s1))))"

definition reconcileWeb ::
    "'w KubeNovaReconciler \<Rightarrow> Builder \<Rightarrow> KubeNova \<Rightarrow> 'w state \<Rightarrow> error option \<times> 'w state" where
  "reconcileWeb r b kubenova s =
     (let namespace = Namespace (ObjectMeta kubenova);
          webResources = BuildWebResources b kubenova namespace
      in
      andThen
        (case NginxConfigMap webResources of
           Some cm \<Rightarrow>
             syncConfigMap r kubenova namespace
               (failed_msg zh_create ''Web ConfigMap'')
               (failed_msg zh_get ''Web ConfigMap'')
               (failed_msg zh_update ''Web ConfigMap'')
               cm s
         | None \<Rightarrow> (None, s))
        (\<lambda>s1.
      andThen
        (syncDeployment r kubenova namespace spliceWebDeployment
           (failed_msg zh_create ''Web Deployment'')
           (failed_msg zh_get ''Web Deployment'')
           (failed_msg zh_reget ''Web Deployment'')
           (failed_msg zh_update ''Web Deployment'')
           (wr_Deployment webResources) s1)
        (\<lambda>s2.
      andThen
        (syncService r kubenova namespace
           (failed_msg zh_create ''Web Service'')
           (failed_msg zh_get ''Web Service'')
           (wr_Service webResources) s2)
        (\<lambda>s3.
           case wr_Ingress webResources of
             Some ingress \<Rightarrow> syncIngress r kubenova namespace ingress s3
           | None \<Rightarrow> (None, s3)))))"

section \<open>The status aggregator\<close>

text \<open>
  A Go panic (here only the dereference of a nil \<^verbatim>\<open>Spec.Replicas\<close>, or a write to a nil
  map) is the outcome \<open>Panic\<close>; the state reached when it happens is kept.
\<close>

datatype 'a outcome = Panic | Return 'a

definition backendServices :: "string list" where
  "backendServices =
     [''portal-api'', ''portal-rpc'', ''manager-api'', ''manager-rpc'',
      ''workload-api'', ''console-api'', ''console-rpc'']"

text \<open>
  The classification of a backend component (lines 821-838) and of the front end
  (lines 849-863): the new status entry, and whether the component counts as ready.
\<close>

definition serviceComponentStatus :: "Time \<Rightarrow> int \<Rightarrow> int \<Rightarrow> ComponentStatus \<times> bool" where
  "serviceComponentStatus now readyReplicas replicas =
     (let status =
            \<lparr>State = ComponentStateEmpty, cs_ReadyReplicas = readyReplicas,
             DesiredReplicas = replicas, cs_Message = [], LastTransitionTime = now\<rparr>
      in
      if readyReplicas = replicas then
        (status\<lparr>State := ComponentStateReady, cs_Message := zh_service_ok\<rparr>, True)
      else if readyReplicas > 0 then
        (status\<lparr>State := ComponentStateRunning,
                cs_Message := zh_service_partly_ready @ '' ('' @ itoa readyReplicas @ ''/''
                                @ itoa replicas @ '')''\<rparr>,
         False)
      else
        (status\<lparr>State := ComponentStatePending, cs_Message := zh_waiting_for_pods\<rparr>, False))"

definition webComponentStatus :: "Time \<Rightarrow> int \<Rightarrow> int \<Rightarrow> ComponentStatus \<times> bool" where
  "webComponentStatus now readyReplicas replicas =
     (let status =
            \<lparr>State = ComponentStateEmpty, cs_ReadyReplicas = readyReplicas,
             DesiredReplicas = replicas, cs_Message = [], LastTransitionTime = now\<rparr>
      in
      if readyReplicas = replicas then
        (status\<lparr>State := ComponentStateReady, cs_Message := zh_web_ok\<rparr>, True)
      else
        (status\<lparr>State := ComponentStateRunning,
                cs_Message := zh_web_partly_ready @ '' ('' @ itoa readyReplicas @ ''/''
                                @ itoa replicas @ '')''\<rparr>,
         False))"

definition setServices :: "KubeNova \<Rightarrow> (string, ComponentStatus) fmap \<Rightarrow> KubeNova" where
  "setServices kubenova m =
     kubenova\<lparr>Status := (Status kubenova)
       \<lparr>ComponentStatus := (ComponentStatus (Status kubenova))\<lparr>Services := Some m\<rparr>\<rparr>\<rparr>"

definition setWeb :: "KubeNova \<Rightarrow> ComponentStatus \<Rightarrow> KubeNova" where
  "setWeb kubenova status =
     kubenova\<lparr>Status := (Status kubenova)
       \<lparr>ComponentStatus := (ComponentStatus (Status kubenova))\<lparr>Web := Some status\<rparr>\<rparr>\<rparr>"

text \<open>
  The loop over the backend components (lines 809-841). A component whose workload
  document cannot be read is skipped (\<^verbatim>\<open>continue\<close>), whatever the error.
\<close>

fun checkServices ::
    "'w KubeNovaReconciler \<Rightarrow> string \<Rightarrow> string list \<Rightarrow> KubeNova \<Rightarrow> bool \<Rightarrow> 'w state
       \<Rightarrow> (KubeNova \<times> bool) outcome \<times> 'w state" where
  "checkServices r namespace [] kubenova allReady s = (Return (kubenova, allReady), s)"
| "checkServices r namespace (serviceName # rest) kubenova allReady s =
     (case r_Get_Deployment r \<lparr>nn_Namespace = namespace, nn_Name = serviceName\<rparr> s of
        (Inl err, s1) \<Rightarrow> checkServices r namespace rest kubenova allReady s1
      | (Inr deployment, s1) \<Rightarrow>
          (case Replicas (dp_Spec deployment) of
             None \<Rightarrow> (Panic, s1)
           | Some replicas \<Rightarrow>
               (case serviceComponentStatus (r_Now r s1)
                       (ReadyReplicas (dp_Status deployment)) replicas of
                  (status, ready) \<Rightarrow>
                    (case Services (ComponentStatus (Status kubenova)) of
                       None \<Rightarrow> (Panic, s1)
                     | Some m \<Rightarrow>
                         checkServices r namespace rest
                           (setServices kubenova (fmupd serviceName status m))
                           (if ready then allReady else False) s1))))"

text \<open>The front end (lines 844-866).\<close>

definition checkWeb ::
    "'w KubeNovaReconciler \<Rightarrow> string \<Rightarrow> KubeNova \<Rightarrow> bool \<Rightarrow> 'w state
       \<Rightarrow> (KubeNova \<times> bool) outcome \<times> 'w state" where
  "checkWeb r namespace kubenova allReady s =
     (case r_Get_Deployment r \<lparr>nn_Namespace = namespace, nn_Name = ''kube-nova-web''\<rparr> s of
        (Inl err, s1) \<Rightarrow> (Return (kubenova, allReady), s1)
      | (Inr webDeployment, s1) \<Rightarrow>
          (case Replicas (dp_Spec webDeployment) of
             None \<Rightarrow> (Panic, s1)
           | Some replicas \<Rightarrow>
               (case webComponentStatus (r_Now r s1)
                       (ReadyReplicas (dp_Status webDeployment)) replicas of
                  (status, ready) \<Rightarrow>
                    (Return (setWeb kubenova status, if ready then allReady else False), s1))))"

text \<open>\<^verbatim>\<open>updateAccessInfo\<close> (lines 895-966).\<close>

definition AccessInfo_zero :: AccessInfo where
  "AccessInfo_zero =
     \<lparr>WebURL = [], DatabaseEndpoint = [], CacheEndpoint = [], StorageEndpoint = [],
      StorageConsoleURL = [], JaegerUIURL = [], ServiceEndpoints = None\<rparr>"

definition nodePorts :: "ServicePort list \<Rightarrow> int \<times> int" where
  "nodePorts ports =
     fold (\<lambda>port (httpPort, httpsPort).
             (if sp_Name port = ''http'' \<and> sp_NodePort port > 0 then sp_NodePort port else httpPort,
              if sp_Name port = ''https'' \<and> sp_NodePort port > 0 then sp_NodePort port
              else httpsPort))
       ports (0, 0)"

definition nodePortURL :: "string \<Rightarrow> int \<Rightarrow> int \<Rightarrow> string" where
  "nodePortURL nodeIP httpPort httpsPort =
     (if httpsPort > 0 then
        (if nodeIP \<noteq> [] then ''https://'' @ nodeIP @ '':'' @ itoa httpsPort
         else ''https://<NODE-IP>:'' @ itoa httpsPort)
      else if httpPort > 0 then
        (if nodeIP \<noteq> [] then ''http://'' @ nodeIP @ '':'' @ itoa httpPort
         else ''http://<NODE-IP>:'' @ itoa httpPort)
      else zh_nodeport_pending)"

definition updateWebURL ::
    "'w KubeNovaReconciler \<Rightarrow> KubeNova \<Rightarrow> string \<Rightarrow> AccessInfo \<Rightarrow> 'w state
       \<Rightarrow> AccessInfo \<times> 'w state" where
  "updateWebURL r kubenova namespace accessInfo s =
     (let web = Web_cfg (Spec kubenova) in
      case (if ExposeType web = ''ingress'' then web_Ingress web else None) of
        Some ingress \<Rightarrow>
          (let protocol =
                 (if (case ic_TLS ingress of None \<Rightarrow> False | Some tls \<Rightarrow> itls_Enabled tls)
                  then ''https'' else ''http'')
           in (accessInfo\<lparr>WebURL := protocol @ ''://'' @ ic_Host ingress\<rparr>, s))
      | None \<Rightarrow>
          if ExposeType web = ''nodeport'' then
            (case r_Get_Service r \<lparr>nn_Namespace = namespace, nn_Name = ''kube-nova-web''\<rparr> s of
               (Inr webSvc, s1) \<Rightarrow>
                 (case nodePorts (svc_Ports (svc_Spec webSvc)) of
                    (httpPort, httpsPort) \<Rightarrow>
                      (case getNodeIP r s1 of
                         (nodeIP, s2) \<Rightarrow>
                           (accessInfo\<lparr>WebURL := nodePortURL nodeIP httpPort httpsPort\<rparr>, s2)))
             | (Inl err, s1) \<Rightarrow> (accessInfo\<lparr>WebURL := zh_service_creating\<rparr>, s1))
          else (accessInfo, s))"

definition updateAccessInfo ::
    "'w KubeNovaReconciler \<Rightarrow> KubeNova \<Rightarrow> string \<Rightarrow> 'w state \<Rightarrow> KubeNova \<times> 'w state" where
  "updateAccessInfo r kubenova namespace s =
     (let accessInfo0 =
            (case AccessInfo (Status kubenova) of None \<Rightarrow> AccessInfo_zero | Some a \<Rightarrow> a)
      in
      case updateWebURL r kubenova namespace accessInfo0 s of
        (accessInfo1, s1) \<Rightarrow>
          (let endpoints0 =
                 (case ServiceEndpoints accessInfo1 of None \<Rightarrow> fmempty | Some m \<Rightarrow> m);
               endpoints =
                 fold (\<lambda>svc m. fmupd svc (svc @ ''.'' @ namespace @ ''.svc.cluster.local'') m)
                   backendServices endpoints0;
               accessInfo2 = accessInfo1
                 \<lparr>ServiceEndpoints := Some endpoints,
                  DatabaseEndpoint := GetDatabaseEndpoint (Database (Spec kubenova)),
                  CacheEndpoint := GetCacheEndpoint (Cache (Spec kubenova)),
                  StorageEndpoint := GetStorageEndpoint (Storage (Spec kubenova))\<rparr>;
               accessInfo3 =
                 (case Telemetry (Spec kubenova) of
                    Some t \<Rightarrow>
                      if IsTelemetryEnabled kubenova
                      then accessInfo2\<lparr>JaegerUIURL := tel_JaegerEndpoint t\<rparr> else accessInfo2
                  | None \<Rightarrow> accessInfo2)
           in (kubenova\<lparr>Status := (Status kubenova)\<lparr>AccessInfo := Some accessInfo3\<rparr>\<rparr>, s1)))"

text \<open>\<^verbatim>\<open>checkComponentStatus\<close> (lines 794-893).\<close>

definition setOverallStatus :: "Time \<Rightarrow> KubeNova \<Rightarrow> bool \<Rightarrow> KubeNova" where
  "setOverallStatus now kubenova allReady =
     (if allReady then
        setCondition now (setStatusPhase now kubenova PhaseReady zh_all_components_ok)
          \<lparr>cond_Type = ConditionTypeReady,
           cond_Status = ConditionTrue,
           cond_ObservedGeneration = Generation (ObjectMeta kubenova),
           cond_LastTransitionTime = 0,
           cond_Reason = ''AllComponentsReady'',
           cond_Message = zh_all_components_ok\<rparr>
      else
        setCondition now (setStatusPhase now kubenova PhaseCreating zh_components_not_ready)
          \<lparr>cond_Type = ConditionTypeReady,
           cond_Status = ConditionFalse,
           cond_ObservedGeneration = Generation (ObjectMeta kubenova),
           cond_LastTransitionTime = 0,
           cond_Reason = ''ComponentsNotReady'',
           cond_Message = zh_components_not_ready\<rparr>)"

definition aggregateComponents ::
    "'w KubeNovaReconciler \<Rightarrow> KubeNova \<Rightarrow> 'w state \<Rightarrow> (KubeNova \<times> bool) outcome \<times> 'w state" where
  "aggregateComponents r kubenova0 s0 =
     (let namespace = Namespace (ObjectMeta kubenova0);
          kubenova1 =
            (if Services (ComponentStatus (Status kubenova0)) = None
             then setServices kubenova0 fmempty else kubenova0)
      in
      case checkServices r namespace backendServices kubenova1 True s0 of
        (Panic, s1) \<Rightarrow> (Panic, s1)
      | (Return (kubenova2, allReady1), s1) \<Rightarrow> checkWeb r namespace kubenova2 allReady1 s1)"

definition checkComponentStatus ::
    "'w KubeNovaReconciler \<Rightarrow> KubeNova \<Rightarrow> 'w state
       \<Rightarrow> (error option \<times> KubeNova) outcome \<times> 'w state" where
  "checkComponentStatus r kubenova0 s0 =
     (case aggregateComponents r kubenova0 s0 of
        (Panic, s2) \<Rightarrow> (Panic, s2)
      | (Return (kubenova3, allReady), s2) \<Rightarrow>
          (case updateAccessInfo r kubenova3 (Namespace (ObjectMeta kubenova0)) s2 of
             (kubenova4, s3) \<Rightarrow>
               (case updateStatusWithRetry r
                       (setOverallStatus (r_Now r s3) kubenova4 allReady) s3 of
                  (res, s4) \<Rightarrow> (Return res, s4))))"

section \<open>The reconciliation pass\<close>

text \<open>
  \<open>stageFailed\<close> is the block \<^verbatim>\<open>Reconcile\<close> runs when a stage returns an error (lines
  112-118, repeated for each of the seven stages): set the failure phase and message,
  persist the status with the retry-safe writer, ignore the writer's own error, and
  return the stage's error with a one-minute requeue.
\<close>

definition IsZero :: "Time option \<Rightarrow> bool" where
  "IsZero t = (case t of None \<Rightarrow> True | Some x \<Rightarrow> x = 0)"

definition stageFailed ::
    "'w KubeNovaReconciler \<Rightarrow> KubeNova \<Rightarrow> string \<Rightarrow> error \<Rightarrow> 'w state
       \<Rightarrow> (Result \<times> error option) outcome \<times> 'w state" where
  "stageFailed r kubenova prefix err s =
     (case updateStatusWithRetry r
             (setStatusPhase (r_Now r s) kubenova PhaseFailed (prefix @ err_Message err)) s of
        ((updateErr, _), s1) \<Rightarrow>
          (Return (\<lparr>Requeue = False, RequeueAfter = Minute\<rparr>, Some err), s1))"

text \<open>The eight stages of \<^verbatim>\<open>Reconcile\<close> (lines 108-191).\<close>

definition runPipeline ::
    "'w KubeNovaReconciler \<Rightarrow> Builder \<Rightarrow> KubeNova \<Rightarrow> 'w state
       \<Rightarrow> (Result \<times> error option) outcome \<times> 'w state" where
  "runPipeline r b kubenova0 s1 =
     (case reconcileValidation r kubenova0 s1 of
        (Some err, kubenova) \<Rightarrow> stageFailed r kubenova zh_validation_failed err s1
      | (None, kubenova) \<Rightarrow>
     (case reconcileNamespace r kubenova s1 of
        (Some err, s2) \<Rightarrow> stageFailed r kubenova zh_namespace_error err s2
      | (None, s2) \<Rightarrow>
     (case reconcileRBAC r kubenova s2 of
        (Some err, s3) \<Rightarrow> stageFailed r kubenova zh_rbac_failed err s3
      | (None, s3) \<Rightarrow>
     (case reconcileSecret r b kubenova s3 of
        (Some err, s4) \<Rightarrow> stageFailed r kubenova zh_secret_failed err s4
      | (None, s4) \<Rightarrow>
     (case reconcileConfigMaps r b kubenova s4 of
        (Some err, s5) \<Rightarrow> stageFailed r kubenova zh_configmap_failed err s5
      | (None, s5) \<Rightarrow>
     (case reconcileServices r b kubenova s5 of
        ((Some err, kubenova'), s6) \<Rightarrow> stageFailed r kubenova' zh_backend_failed err s6
      | ((None, kubenova'), s6) \<Rightarrow>
     (case reconcileWeb r b kubenova' s6 of
        (Some err, s7) \<Rightarrow> stageFailed r kubenova' zh_web_failed err s7
      | (None, s7) \<Rightarrow>
     (case checkComponentStatus r kubenova' s7 of
        (Panic, s8) \<Rightarrow> (Panic, s8)
      | (Return (Some err, _), s8) \<Rightarrow>
          (Return (\<lparr>Requeue = False, RequeueAfter = 30 * Second\<rparr>, None), s8)
      | (Return (None, _), s8) \<Rightarrow>
          (Return (\<lparr>Requeue = False, RequeueAfter = 5 * Minute\<rparr>, None), s8)))))))))"

text \<open>\<^verbatim>\<open>Reconcile\<close> (lines 69-192).\<close>

definition Reconcile ::
    "'w KubeNovaReconciler \<Rightarrow> Builder \<Rightarrow> NamespacedName \<Rightarrow> 'w state
       \<Rightarrow> (Result \<times> error option) outcome \<times> 'w state" where
  "Reconcile r b req s0 =
     (case r_Get_KubeNova r req s0 of
        (Inl err, s1) \<Rightarrow>
          if IsNotFound err then (Return (Result_zero, None), s1)
          else (Return (Result_zero, Some err), s1)
      | (Inr kubenova, s1) \<Rightarrow>
          if \<not> IsZero (DeletionTimestamp (ObjectMeta kubenova)) then
            (case reconcileDelete r kubenova s1 of (res, s2) \<Rightarrow> (Return res, s2))
          else if \<not> ContainsFinalizer kubenova kubenovaFinalizer then
            (case r_Update r (ObjKubeNova (AddFinalizer kubenova kubenovaFinalizer)) s1 of
               (Some err, s2) \<Rightarrow> (Return (Result_zero, Some err), s2)
             | (None, s2) \<Rightarrow> (Return (\<lparr>Requeue = True, RequeueAfter = 0\<rparr>, None), s2))
          else if ObservedGeneration (Status kubenova) = Generation (ObjectMeta kubenova)
                  \<and> Phase (Status kubenova) = PhaseReady then
            (Return (\<lparr>Requeue = False, RequeueAfter = 5 * Minute\<rparr>, None), s1)
          else runPipeline r b kubenova s1)"

section \<open>A scripted store and sample documents\<close>

text \<open>
  For worked examples the world is a script: the list of replies the store gives, in the
  order of the calls. A call takes the next reply; a reply of the wrong form, or a call
  after the script has ended, is answered with an error. The clock stands still and the
  owner reference is always set.
\<close>

datatype reply = ReplyError error | ReplyOK | ReplyObj obj | ReplyNodes "Node list"

definition unexpectedCall :: error where
  "unexpectedCall = Error StatusReasonUnknown ''unexpected call''"

definition scripted_get :: "(obj \<Rightarrow> 'a option) \<Rightarrow> reply list \<Rightarrow> (error + 'a) \<times> reply list" where
  "scripted_get pick w =
     (case w of
        [] \<Rightarrow> (Inl unexpectedCall, [])
      | ReplyError err # rest \<Rightarrow> (Inl err, rest)
      | ReplyObj x # rest \<Rightarrow>
          (case pick x of Some y \<Rightarrow> (Inr y, rest) | None \<Rightarrow> (Inl unexpectedCall, rest))
      | _ # rest \<Rightarrow> (Inl unexpectedCall, rest))"

definition scripted_ack :: "reply list \<Rightarrow> error option \<times> reply list" where
  "scripted_ack w =
     (case w of
        [] \<Rightarrow> (Some unexpectedCall, [])
      | ReplyError err # rest \<Rightarrow> (Some err, rest)
      | ReplyOK # rest \<Rightarrow> (None, rest)
      | _ # rest \<Rightarrow> (Some unexpectedCall, rest))"

definition scripted_nodes :: "reply list \<Rightarrow> (error + Node list) \<times> reply list" where
  "scripted_nodes w =
     (case w of
        [] \<Rightarrow> (Inl unexpectedCall, [])
      | ReplyError err # rest \<Rightarrow> (Inl err, rest)
      | ReplyNodes nodes # rest \<Rightarrow> (Inr nodes, rest)
      | _ # rest \<Rightarrow> (Inl unexpectedCall, rest))"

fun pickKubeNova :: "obj \<Rightarrow> KubeNova option" where
  "pickKubeNova (ObjKubeNova x) = Some x" | "pickKubeNova _ = None"
fun pickNamespace :: "obj \<Rightarrow> Namespace_doc option" where
  "pickNamespace (ObjNamespace x) = Some x" | "pickNamespace _ = None"
fun pickServiceAccount :: "obj \<Rightarrow> ServiceAccount option" where
  "pickServiceAccount (ObjServiceAccount x) = Some x" | "pickServiceAccount _ = None"
fun pickClusterRoleBinding :: "obj \<Rightarrow> ClusterRoleBinding option" where
  "pickClusterRoleBinding (ObjClusterRoleBinding x) = Some x" | "pickClusterRoleBinding _ = None"
fun pickSecret :: "obj \<Rightarrow> Secret option" where
  "pickSecret (ObjSecret x) = Some x" | "pickSecret _ = None"
fun pickConfigMap :: "obj \<Rightarrow> ConfigMap option" where
  "pickConfigMap (ObjConfigMap x) = Some x" | "pickConfigMap _ = None"
fun pickDeployment :: "obj \<Rightarrow> Deployment option" where
  "pickDeployment (ObjDeployment x) = Some x" | "pickDeployment _ = None"
fun pickService :: "obj \<Rightarrow> Service option" where
  "pickService (ObjService x) = Some x" | "pickService _ = None"
fun pickIngress :: "obj \<Rightarrow> Ingress option" where
  "pickIngress (ObjIngress x) = Some x" | "pickIngress _ = None"

definition ownedBy :: "KubeNova \<Rightarrow> ObjectMeta \<Rightarrow> ObjectMeta" where
  "ownedBy owner m =
     m\<lparr>OwnerReferences :=
         [\<lparr>or_Kind = ''KubeNova'', or_Name = Name (ObjectMeta owner), or_Controller = True\<rparr>]\<rparr>"

definition scriptedReconciler :: "(reply list) KubeNovaReconciler" where
  "scriptedReconciler =
     \<lparr>Get_KubeNova = (\<lambda>key. scripted_get pickKubeNova),
      Get_Namespace = (\<lambda>key. scripted_get pickNamespace),
      Get_ServiceAccount = (\<lambda>key. scripted_get pickServiceAccount),
      Get_ClusterRoleBinding = (\<lambda>key. scripted_get pickClusterRoleBinding),
      Get_Secret = (\<lambda>key. scripted_get pickSecret),
      Get_ConfigMap = (\<lambda>key. scripted_get pickConfigMap),
      Get_Deployment = (\<lambda>key. scripted_get pickDeployment),
      Get_Service = (\<lambda>key. scripted_get pickService),
      Get_Ingress = (\<lambda>key. scripted_get pickIngress),
      List_Nodes = scripted_nodes,
      Create = (\<lambda>x. scripted_ack),
      Update = (\<lambda>x. scripted_ack),
      Delete = (\<lambda>x. scripted_ack),
      Status_Update = (\<lambda>x. scripted_get pickKubeNova),
      Now = (\<lambda>w. 1700000000),
      Sleep = (\<lambda>d w. w),
      SetControllerReference = (\<lambda>owner m. Inr (ownedBy owner m))\<rparr>"

section \<open>Notions used to state the properties\<close>

text \<open>
  The fixed comparison set of the diff engine, in the specification's words: replica
  count; first-container image, environment variables, resource requests and limits,
  volume mounts; pod volumes; pod-level identity reference. The number of containers is
  part of it, since the engine compares it.
\<close>

definition comparedFields ::
    "DeploymentSpec \<Rightarrow>
       int option \<times> nat \<times> (string \<times> EnvVar list \<times> ResourceRequirements \<times> VolumeMount list) option
         \<times> Volume list \<times> string" where
  "comparedFields d =
     (let podSpec = tpl_Spec (Template d) in
      (Replicas d,
       length (Containers podSpec),
       (case Containers podSpec of
          [] \<Rightarrow> None
        | c # _ \<Rightarrow> Some (Image c, Env c, Resources c, VolumeMounts c)),
       Volumes podSpec,
       ServiceAccountName podSpec))"

text \<open>The literal-valued entries of an environment list, as name and value.\<close>

definition literalEnv :: "EnvVar list \<Rightarrow> (string \<times> string) list" where
  "literalEnv xs = map (\<lambda>e. (env_Name e, env_Value e)) (filter (\<lambda>e. env_Value e \<noteq> []) xs)"

definition withContainers :: "DeploymentSpec \<Rightarrow> Container list \<Rightarrow> DeploymentSpec" where
  "withContainers d cs =
     d\<lparr>Template := (Template d)\<lparr>tpl_Spec := (tpl_Spec (Template d))\<lparr>Containers := cs\<rparr>\<rparr>\<rparr>"

definition withVolumes :: "DeploymentSpec \<Rightarrow> Volume list \<Rightarrow> DeploymentSpec" where
  "withVolumes d vs =
     d\<lparr>Template := (Template d)\<lparr>tpl_Spec := (tpl_Spec (Template d))\<lparr>Volumes := vs\<rparr>\<rparr>\<rparr>"

definition withTemplateLabels :: "DeploymentSpec \<Rightarrow> StringMap \<Rightarrow> DeploymentSpec" where
  "withTemplateLabels d labels =
     d\<lparr>Template := (Template d)
         \<lparr>tpl_ObjectMeta := (tpl_ObjectMeta (Template d))\<lparr>Labels := labels\<rparr>\<rparr>\<rparr>"

text \<open>
  A backend workload as \<^verbatim>\<open>buildDeployment\<close> shapes it for \<^verbatim>\<open>portal-api\<close> with default
  settings (two replicas, the \<^verbatim>\<open>TZ\<close> variable, the field-sourced \<^verbatim>\<open>POD_NAMESPACE\<close>
  variable, the configuration volume), in the fields the records keep.
\<close>

definition env_TZ :: EnvVar where
  "env_TZ = \<lparr>env_Name = ''TZ'', env_Value = ''Asia/Shanghai'', env_ValueFrom = None\<rparr>"

definition env_POD_NAMESPACE :: EnvVar where
  "env_POD_NAMESPACE =
     \<lparr>env_Name = ''POD_NAMESPACE'', env_Value = [], env_ValueFrom = Some ''metadata.namespace''\<rparr>"

definition mount_config :: VolumeMount where
  "mount_config =
     \<lparr>vm_Name = ''config'', vm_MountPath = ''/app/etc'', vm_SubPath = [], vm_ReadOnly = True\<rparr>"

definition mount_cache :: VolumeMount where
  "mount_cache =
     \<lparr>vm_Name = ''cache'', vm_MountPath = ''/app/cache'', vm_SubPath = [], vm_ReadOnly = False\<rparr>"

definition samplePortalContainer :: Container where
  "samplePortalContainer =
     \<lparr>c_Name = ''portal-api'',
      Image = ''registry.cn-hangzhou.aliyuncs.com/kube-nova/portal-api:latest'',
      ImagePullPolicy = ''Always'',
      c_Ports = [8810, 9999],
      Env = [env_TZ, env_POD_NAMESPACE],
      Resources =
        \<lparr>Requests = Some (fmap_of_list [(''memory'', ''256Mi''), (''cpu'', ''200m'')]),
         Limits = Some (fmap_of_list [(''memory'', ''512Mi''), (''cpu'', ''1000m'')])\<rparr>,
      VolumeMounts = [mount_config, mount_cache]\<rparr>"

definition samplePortalSpec :: DeploymentSpec where
  "samplePortalSpec =
     \<lparr>Replicas = Some 2,
      Selector = Some (fmap_of_list [(''app'', ''portal-api'')]),
      Template =
        \<lparr>tpl_ObjectMeta = ObjectMeta_zero
           \<lparr>Labels := Some (fmap_of_list [(''app'', ''portal-api''), (''component'', ''api'')])\<rparr>,
         tpl_Spec =
           \<lparr>Containers = [samplePortalContainer],
            Volumes =
              [\<lparr>vol_Name = ''config'', vol_VolumeSource = ConfigMapVolumeSource ''portal-api-config''\<rparr>,
               \<lparr>vol_Name = ''cache'', vol_VolumeSource = EmptyDirVolumeSource ''1Gi''\<rparr>],
            ServiceAccountName = ServiceAccountName_const,
            ImagePullSecrets = [],
            NodeName = [],
            DNSPolicy = ''ClusterFirst'',
            RestartPolicy = ''Always'',
            SchedulerName = []\<rparr>\<rparr>,
      Strategy = ''RollingUpdate''\<rparr>"

text \<open>
  A root entity with a well-formed desired state, exposed through node ports.
\<close>

definition sampleSpec :: KubeNovaSpec where
  "sampleSpec =
     \<lparr>ImageRegistry = None,
      Database = \<lparr>db_Host = ''mysql'', db_Port = 3306, db_Database = ''nova'',
                  db_User = ''root'', db_Password = ''secret''\<rparr>,
      Cache = \<lparr>cache_Host = ''redis'', cache_Port = 6379, cache_Type = ''node''\<rparr>,
      Storage = \<lparr>st_Endpoint = ''minio:9000'', st_AccessKey = ''access'', st_SecretKey = ''secret'',
                 st_Bucket = ''nova'', st_TLS = None\<rparr>,
      Telemetry = None,
      Services_cfg =
        \<lparr>JWT = \<lparr>AccessSecret = ''0123456789abcdef0123456789abcdef'',
                 RefreshSecret = ''fedcba9876543210fedcba9876543210''\<rparr>\<rparr>,
      Web_cfg =
        \<lparr>web_Replicas = 3, web_Image = [], web_Resources = None, ExposeType = ''nodeport'',
         web_Ingress = None, web_NodePort = None, CustomNginxConfigMap = []\<rparr>\<rparr>"

definition Status_zero :: KubeNovaStatus where
  "Status_zero =
     \<lparr>Phase = PhaseEmpty, Conditions = [],
      ComponentStatus = \<lparr>Services = None, Web = None\<rparr>,
      AccessInfo = None, Message = [], LastUpdateTime = 0, ObservedGeneration = 0\<rparr>"

definition sampleKubeNova :: KubeNova where
  "sampleKubeNova =
     \<lparr>ObjectMeta = ObjectMeta_zero
        \<lparr>Name := ''demo'', Namespace := ''nova'', Finalizers := [kubenovaFinalizer],
         ResourceVersion := ''41'', Generation := 2\<rparr>,
      Spec = sampleSpec,
      Status = Status_zero\<lparr>ObservedGeneration := 1, Phase := PhaseReady\<rparr>\<rparr>"

text \<open>
  Documents for the worked examples of the diff engine: a label the store may inject, a
  second \<^verbatim>\<open>TZ\<close> variable as a user's extra environment adds it, a volume mounted twice,
  and a root entity that names its own Nginx configuration.
\<close>

definition injectedLabels :: StringMap where
  "injectedLabels =
     Some (fmap_of_list
       [(''app'', ''portal-api''), (''component'', ''api''), (''pod-template-hash'', ''5d8c7f'')])"

definition env_TZ_UTC :: EnvVar where
  "env_TZ_UTC = \<lparr>env_Name = ''TZ'', env_Value = ''UTC'', env_ValueFrom = None\<rparr>"

definition twoZones :: Container where
  "twoZones = samplePortalContainer\<lparr>Env := [env_TZ, env_POD_NAMESPACE, env_TZ_UTC]\<rparr>"

definition twoZones_permuted :: Container where
  "twoZones_permuted = samplePortalContainer\<lparr>Env := [env_TZ_UTC, env_POD_NAMESPACE, env_TZ]\<rparr>"

definition mount_config_extra :: VolumeMount where
  "mount_config_extra =
     \<lparr>vm_Name = ''config'', vm_MountPath = ''/app/extra'', vm_SubPath = [], vm_ReadOnly = True\<rparr>"

definition mountedTwice :: Container where
  "mountedTwice = samplePortalContainer\<lparr>VolumeMounts := [mount_config, mount_config_extra]\<rparr>"

definition mountedTwice_permuted :: Container where
  "mountedTwice_permuted =
     samplePortalContainer\<lparr>VolumeMounts := [mount_config_extra, mount_config]\<rparr>"

definition mountedExtraOnly :: Container where
  "mountedExtraOnly =
     samplePortalContainer\<lparr>VolumeMounts := [mount_config_extra, mount_config_extra]\<rparr>"

definition sampleKubeNova_customNginx :: KubeNova where
  "sampleKubeNova_customNginx =
     sampleKubeNova\<lparr>Spec := sampleSpec
       \<lparr>Web_cfg := (Web_cfg sampleSpec)\<lparr>CustomNginxConfigMap := ''my-nginx''\<rparr>\<rparr>\<rparr>"

definition nginxConfMount :: VolumeMount where
  "nginxConfMount =
     \<lparr>vm_Name = ''nginx-config'', vm_MountPath = ''/etc/nginx/nginx.conf'',
      vm_SubPath = ''nginx.conf'', vm_ReadOnly = False\<rparr>"


section \<open>Notions on traces, and documents for the worked examples\<close>

text \<open>
  The properties below speak about the calls a function makes to the store. They are read
  off the trace: the list of events a run appends to the state.
\<close>

text \<open>
  The identity under which the root entity is read.
\<close>

definition rootKey :: "KubeNova \<Rightarrow> NamespacedName" where
  "rootKey kubenova =
     \<lparr>nn_Namespace = Namespace (ObjectMeta kubenova), nn_Name = Name (ObjectMeta kubenova)\<rparr>"

text \<open>
  The shape of a trace of the status writer for the caller's root \<open>kubenova\<close>, and the
  number of attempts it holds: each attempt reads the root by its identity and, when the
  read succeeds, writes the fetched document with the caller's status put in; a pause
  separates two attempts. \<open>None\<close> is any other trace.
\<close>

fun writerAttempts :: "KubeNova \<Rightarrow> event list \<Rightarrow> nat option" where
  "writerAttempts kubenova [] = Some 0"
| "writerAttempts kubenova [EvGet k key (Inl err)] =
     (if k = KindKubeNova \<and> key = rootKey kubenova then Some 1 else None)"
| "writerAttempts kubenova (EvGet k key (Inr (ObjKubeNova fetched)) # EvStatusUpdate sent reply # rest) =
     (if k = KindKubeNova \<and> key = rootKey kubenova \<and> sent = fetched\<lparr>Status := Status kubenova\<rparr>
      then (case rest of
              [] \<Rightarrow> Some 1
            | EvSleep d # rest' \<Rightarrow> map_option Suc (writerAttempts kubenova rest')
            | _ \<Rightarrow> None)
      else None)"
| "writerAttempts kubenova _ = None"

definition withinThreeAttempts :: "KubeNova \<Rightarrow> event list \<Rightarrow> bool" where
  "withinThreeAttempts kubenova evs =
     (case writerAttempts kubenova evs of None \<Rightarrow> False | Some n \<Rightarrow> 1 \<le> n \<and> n \<le> 3)"

text \<open>
  A root whose status is waiting to be written, the documents the store holds at
  successive versions, and two scripts: two conflicts before a success, and three
  conflicts.
\<close>

definition conflictError :: error where
  "conflictError = Error StatusReasonConflict ''the object has been modified''"

definition pendingRoot :: KubeNova where
  "pendingRoot =
     sampleKubeNova\<lparr>Status := Status_zero
       \<lparr>Phase := PhaseCreating, Message := zh_components_not_ready, ObservedGeneration := 2\<rparr>\<rparr>"

definition storedRoot :: "string \<Rightarrow> KubeNova" where
  "storedRoot version =
     sampleKubeNova\<lparr>ObjectMeta := (ObjectMeta sampleKubeNova)\<lparr>ResourceVersion := version\<rparr>\<rparr>"

definition writtenRoot :: "string \<Rightarrow> KubeNova" where
  "writtenRoot version = (storedRoot version)\<lparr>Status := Status pendingRoot\<rparr>"

definition conflictsThenSuccess :: "reply list" where
  "conflictsThenSuccess =
     [ReplyObj (ObjKubeNova (storedRoot ''41'')), ReplyError conflictError,
      ReplyObj (ObjKubeNova (storedRoot ''42'')), ReplyError conflictError,
      ReplyObj (ObjKubeNova (storedRoot ''43'')), ReplyObj (ObjKubeNova (writtenRoot ''44''))]"

definition conflictsThrice :: "reply list" where
  "conflictsThrice =
     [ReplyObj (ObjKubeNova (storedRoot ''41'')), ReplyError conflictError,
      ReplyObj (ObjKubeNova (storedRoot ''42'')), ReplyError conflictError,
      ReplyObj (ObjKubeNova (storedRoot ''43'')), ReplyError conflictError]"

text \<open>
  The identity of the cluster-scoped binding, from the name the builder gives it, and the
  calls of a trace that concern bindings.
\<close>

definition crbKey :: "KubeNova \<Rightarrow> NamespacedName" where
  "crbKey kubenova =
     \<lparr>nn_Namespace = [],
      nn_Name = Name (crb_ObjectMeta
                  (BuildClusterRoleBinding kubenova (Namespace (ObjectMeta kubenova))))\<rparr>"





text \<open>
  A root marked for deletion, and a script in which the read of the binding fails with an
  error that is not "not found".
\<close>

definition serverTimeout :: error where
  "serverTimeout = Error StatusReasonUnknown ''etcdserver: request timed out''"

definition deletingRoot :: KubeNova where
  "deletingRoot =
     sampleKubeNova\<lparr>ObjectMeta := (ObjectMeta sampleKubeNova)\<lparr>DeletionTimestamp := Some 1700000100\<rparr>\<rparr>"

definition deletingStatus :: KubeNovaStatus where
  "deletingStatus =
     (Status deletingRoot)
       \<lparr>Phase := PhaseDeleting, Message := zh_deleting_resources,
        LastUpdateTime := 1700000000, ObservedGeneration := 2\<rparr>"

definition bindingUnreadable :: "reply list" where
  "bindingUnreadable =
     [ReplyObj (ObjKubeNova deletingRoot),
      ReplyObj (ObjKubeNova (deletingRoot\<lparr>Status := deletingStatus\<rparr>)),
      ReplyError serverTimeout,
      ReplyOK]"

text \<open>
  The values an extractor finds in a trace, in order.
\<close>

definition collect :: "(event \<Rightarrow> 'a list) \<Rightarrow> event list \<Rightarrow> 'a list" where
  "collect f evs = concat (map f evs)"

text \<open>
  The workload reads of a trace with their results; a workload whose ready replicas are
  all that its specification asks for; the backend entries of the component status (none
  when the map is nil); the entry of a component, backend or front end.
\<close>

fun deploymentRead :: "event \<Rightarrow> (string \<times> (error + Deployment)) list" where
  "deploymentRead (EvGet KindDeployment key (Inr (ObjDeployment d))) = [(nn_Name key, Inr d)]"
| "deploymentRead (EvGet KindDeployment key (Inl err)) = [(nn_Name key, Inl err)]"
| "deploymentRead _ = []"

definition fullyReady :: "Deployment \<Rightarrow> bool" where
  "fullyReady d = (Replicas (dp_Spec d) = Some (ReadyReplicas (dp_Status d)))"

definition servicesOf :: "KubeNova \<Rightarrow> (string, ComponentStatus) fmap" where
  "servicesOf kubenova =
     (case Services (ComponentStatus (Status kubenova)) of None \<Rightarrow> fmempty | Some m \<Rightarrow> m)"

definition webKey :: "string \<Rightarrow> NamespacedName" where
  "webKey ns = \<lparr>nn_Namespace = ns, nn_Name = ''kube-nova-web''\<rparr>"

definition componentEntry :: "KubeNova \<Rightarrow> string \<Rightarrow> ComponentStatus option" where
  "componentEntry kubenova name =
     (if name = ''kube-nova-web'' then Web (ComponentStatus (Status kubenova))
      else fmlookup (servicesOf kubenova) name)"

text \<open>
  Workload documents as the store reports them, by name, desired and ready replicas, and
  scripts for the aggregator: a mixed fleet, and a front end none of whose three replicas
  is ready.
\<close>

definition observedWorkload :: "string \<Rightarrow> int \<Rightarrow> int \<Rightarrow> Deployment" where
  "observedWorkload name replicas ready =
     \<lparr>dp_ObjectMeta = ObjectMeta_zero\<lparr>Name := name, Namespace := ''nova''\<rparr>,
      dp_Spec = samplePortalSpec\<lparr>Replicas := Some replicas\<rparr>,
      dp_Status = \<lparr>ReadyReplicas = ready, AvailableReplicas = ready\<rparr>\<rparr>"

definition notFound :: error where
  "notFound = Error StatusReasonNotFound ''not found''"

definition mixedFleet :: "reply list" where
  "mixedFleet =
     [ReplyObj (ObjDeployment (observedWorkload ''portal-api'' 2 2)),
      ReplyObj (ObjDeployment (observedWorkload ''portal-rpc'' 2 1)),
      ReplyObj (ObjDeployment (observedWorkload ''manager-api'' 2 0)),
      ReplyError notFound,
      ReplyError serverTimeout,
      ReplyObj (ObjDeployment (observedWorkload ''console-api'' 2 2)),
      ReplyObj (ObjDeployment (observedWorkload ''console-rpc'' 2 2)),
      ReplyObj (ObjDeployment (observedWorkload ''kube-nova-web'' 3 3))]"

definition mixedRun :: "(KubeNova \<times> bool) outcome \<times> reply list state" where
  "mixedRun = aggregateComponents scriptedReconciler sampleKubeNova (mixedFleet, [])"

definition aggregated :: "(KubeNova \<times> bool) outcome \<times> 'w state \<Rightarrow> KubeNova option" where
  "aggregated run = (case fst run of Return (kubenova, allReady) \<Rightarrow> Some kubenova | Panic \<Rightarrow> None)"

definition idleWeb :: "reply list" where
  "idleWeb = [ReplyObj (ObjDeployment (observedWorkload ''kube-nova-web'' 3 0))]"

definition mixedRoot :: KubeNova where
  "mixedRoot = (case aggregated mixedRun of Some kubenova \<Rightarrow> kubenova | None \<Rightarrow> sampleKubeNova)"

text \<open>
  The documents sent to the status endpoint in a trace, and the status of the condition
  of a given type.
\<close>

fun statusWrites :: "event \<Rightarrow> KubeNova list" where
  "statusWrites (EvStatusUpdate sent reply) = [sent]"
| "statusWrites _ = []"

definition conditionStatus :: "string \<Rightarrow> KubeNova \<Rightarrow> ConditionStatus option" where
  "conditionStatus t kubenova =
     map_option cond_Status (find (\<lambda>c. cond_Type c = t) (Conditions (Status kubenova)))"

text \<open>
  A root whose status, from an earlier pass, holds a pending entry for \<^verbatim>\<open>portal-api\<close>.
\<close>

definition staleRoot :: KubeNova where
  "staleRoot =
     sampleKubeNova\<lparr>Status := (Status sampleKubeNova)
       \<lparr>Phase := PhaseCreating,
        ComponentStatus :=
          \<lparr>Services = Some (fmap_of_list
              [(''portal-api'', fst (serviceComponentStatus 1699999000 0 2))]),
           Web = None\<rparr>\<rparr>\<rparr>"

text \<open>
  \<^verbatim>\<open>strings.Contains\<close>; a node listing that yields no address the controller can use (the
  listing fails, lists no node, or no node carries an external or internal address);
  the events that only read the store; and documents for the worked examples of the
  access information.
\<close>

definition containsStr :: "string \<Rightarrow> string \<Rightarrow> bool" where
  "containsStr s substr =
     list_ex (\<lambda>i. take (length substr) (drop i s) = substr) [0..<Suc (length s)]"

definition noUsableAddress :: "error + Node list \<Rightarrow> bool" where
  "noUsableAddress res =
     (case res of
        Inl err \<Rightarrow> True
      | Inr items \<Rightarrow>
          list_all (\<lambda>node. list_all (\<lambda>addr. na_Type addr \<noteq> NodeExternalIP
                                          \<and> na_Type addr \<noteq> NodeInternalIP)
                             (node_Addresses (node_Status node))) items)"

fun isRead :: "event \<Rightarrow> bool" where
  "isRead (EvGet k key res) = True"
| "isRead (EvListNodes res) = True"
| "isRead _ = False"

definition webServiceKey :: "string \<Rightarrow> NamespacedName" where
  "webServiceKey ns = \<lparr>nn_Namespace = ns, nn_Name = ''kube-nova-web''\<rparr>"

definition addresslessNode :: Node where
  "addresslessNode =
     \<lparr>node_ObjectMeta = ObjectMeta_zero\<lparr>Name := ''node-1''\<rparr>,
      node_Status =
        \<lparr>node_Conditions = [\<lparr>nc_Type = NodeReady, nc_Status = ConditionTrue_str\<rparr>],
         node_Addresses = [\<lparr>na_Type = ''Hostname'', na_Address = ''node-1''\<rparr>]\<rparr>\<rparr>"

definition sampleWebService :: Service where
  "sampleWebService =
     \<lparr>svc_ObjectMeta = ObjectMeta_zero\<lparr>Name := ''kube-nova-web'', Namespace := ''nova''\<rparr>,
      svc_Spec =
        \<lparr>svc_Type = ''NodePort'',
         svc_Ports = [\<lparr>sp_Name = ''http'', sp_Port = 80, sp_NodePort = 30080\<rparr>],
         svc_ClusterIP = ''10.96.0.17''\<rparr>\<rparr>"

definition nodesWithoutAddress :: "reply list" where
  "nodesWithoutAddress = [ReplyObj (ObjService sampleWebService), ReplyNodes [addresslessNode]]"

definition nodeListingFails :: "reply list" where
  "nodeListingFails = [ReplyObj (ObjService sampleWebService), ReplyError serverTimeout]"

text \<open>
  The events a stage of the pipeline may add to the trace: reads, creations, and updates
  of credential, configuration and workload documents. \<open>stageSteps s s'\<close> says that
  \<open>s'\<close> extends the trace of \<open>s\<close> by such events only. The writes to network-expose
  documents in a trace are its updates and deletions of them.
\<close>

fun stageEvent :: "event \<Rightarrow> bool" where
  "stageEvent (EvGet k key res) = True"
| "stageEvent (EvListNodes res) = True"
| "stageEvent (EvCreate x res) = True"
| "stageEvent (EvUpdate (ObjSecret x) res) = True"
| "stageEvent (EvUpdate (ObjConfigMap x) res) = True"
| "stageEvent (EvUpdate (ObjDeployment x) res) = True"
| "stageEvent _ = False"

definition stageSteps :: "'w state \<Rightarrow> 'w state \<Rightarrow> bool" where
  "stageSteps s s' = (\<exists>evs. snd s' = snd s @ evs \<and> list_all stageEvent evs)"

fun serviceWrites :: "event \<Rightarrow> Service list" where
  "serviceWrites (EvUpdate (ObjService x) res) = [x]"
| "serviceWrites (EvDelete (ObjService x) res) = [x]"
| "serviceWrites _ = []"

text \<open>
  \<open>writesAll P s s'\<close>: the trace of \<open>s'\<close> extends that of \<open>s\<close>, and every status
  document sent in the extension satisfies \<open>P\<close>. \<open>pipelineWrites\<close> is what a run of the
  pipeline does with it: either a stage failed, an error is returned and every status sent
  carries the failure phase, or no error is returned.
\<close>

definition writesAll :: "(KubeNovaStatus \<Rightarrow> bool) \<Rightarrow> 'w state \<Rightarrow> 'w state \<Rightarrow> bool" where
  "writesAll P s s' =
     (\<exists>evs. snd s' = snd s @ evs \<and> list_all (\<lambda>sent. P (Status sent)) (collect statusWrites evs))"

definition pipelineWrites ::
    "int \<Rightarrow> 'w state \<Rightarrow> (Result \<times> error option) outcome \<times> 'w state \<Rightarrow> bool" where
  "pipelineWrites g s0 out =
     ((writesAll (\<lambda>st. ObservedGeneration st = g \<and> Phase st = PhaseFailed) s0 (snd out)
       \<and> (\<exists>res err. fst out = Return (res, Some err)))
      \<or> (writesAll (\<lambda>st. ObservedGeneration st = g) s0 (snd out)
          \<and> (\<forall>res err. fst out \<noteq> Return (res, Some err))))"

text \<open>
  The observed generations and the phases of the status documents sent in a trace; a
  builder for the worked examples, with the front-end workload as \<^verbatim>\<open>buildWebDeployment\<close>
  shapes it; a root whose desired state is invalid (no database host), the status the
  controller gives it, and two scripts: validation fails, and the namespace is missing.
\<close>

definition sentGenerations :: "event list \<Rightarrow> int list" where
  "sentGenerations evs = map (\<lambda>sent. ObservedGeneration (Status sent)) (collect statusWrites evs)"

definition sentPhases :: "event list \<Rightarrow> DeploymentPhase list" where
  "sentPhases evs = map (\<lambda>sent. Phase (Status sent)) (collect statusWrites evs)"

definition sampleBuilder :: Builder where
  "sampleBuilder =
     \<lparr>BuildSecret = (\<lambda>kn namespace nodeIP nodePort.
        \<lparr>sec_ObjectMeta = ObjectMeta_zero\<lparr>Name := ''kube-nova-secret'', Namespace := namespace\<rparr>,
         sec_Data = None\<rparr>),
      BuildAllConfigMaps = (\<lambda>kn namespace. []),
      BuildAllServices = (\<lambda>kn namespace. []),
      BuildWebResources = (\<lambda>kn namespace.
        \<lparr>wr_Deployment = buildWebDeployment kn namespace,
         wr_Service = sampleWebService,
         wr_Ingress = None,
         NginxConfigMap = None\<rparr>)\<rparr>"

definition invalidRoot :: KubeNova where
  "invalidRoot =
     sampleKubeNova\<lparr>Spec := sampleSpec\<lparr>Database := (Database sampleSpec)\<lparr>db_Host := []\<rparr>\<rparr>\<rparr>"

definition failedStatus :: KubeNovaStatus where
  "failedStatus =
     \<lparr>Phase = PhaseFailed,
      Conditions =
        [\<lparr>cond_Type = ConditionTypeValidated, cond_Status = ConditionFalse,
          cond_ObservedGeneration = 2, cond_LastTransitionTime = 1700000000,
          cond_Reason = ''ValidationFailed'',
          cond_Message = zh_validation_failed @ zh_v_database @ zh_v_db_host\<rparr>],
      ComponentStatus = \<lparr>Services = None, Web = None\<rparr>,
      AccessInfo = None,
      Message = zh_validation_failed @ zh_v_database @ zh_v_db_host,
      LastUpdateTime = 1700000000,
      ObservedGeneration = 2\<rparr>"

definition failedRoot :: KubeNova where
  "failedRoot = invalidRoot\<lparr>Status := failedStatus\<rparr>"

definition validationFails :: "reply list" where
  "validationFails =
     [ReplyObj (ObjKubeNova invalidRoot), ReplyObj (ObjKubeNova invalidRoot),
      ReplyObj (ObjKubeNova failedRoot)]"

definition namespaceMissing :: "reply list" where
  "namespaceMissing =
     [ReplyObj (ObjKubeNova sampleKubeNova), ReplyError notFound,
      ReplyObj (ObjKubeNova sampleKubeNova), ReplyObj (ObjKubeNova sampleKubeNova)]"







definition desiredWeb :: Deployment where
  "desiredWeb = buildWebDeployment sampleKubeNova_customNginx ''nova''"

definition ownedWeb :: Deployment where
  "ownedWeb = desiredWeb\<lparr>dp_ObjectMeta := ownedBy sampleKubeNova_customNginx (dp_ObjectMeta desiredWeb)\<rparr>"






text \<open>
  The front-end workload built for the sample root before it named its own Nginx
  configuration, as the store holds it, and two scripts: the store holds that document,
  and the store holds exactly the desired one.
\<close>

definition defaultWeb :: Deployment where
  "defaultWeb = buildWebDeployment sampleKubeNova ''nova''"

definition liveDefaultWeb :: Deployment where
  "liveDefaultWeb = defaultWeb\<lparr>dp_ObjectMeta := ownedBy sampleKubeNova (dp_ObjectMeta defaultWeb)\<rparr>"

definition sourceChangedScript :: "reply list" where
  "sourceChangedScript =
     [ReplyObj (ObjDeployment liveDefaultWeb), ReplyObj (ObjDeployment liveDefaultWeb), ReplyOK,
      ReplyObj (ObjService sampleWebService)]"

definition steadyWebScript :: "reply list" where
  "steadyWebScript =
     [ReplyObj (ObjDeployment ownedWeb), ReplyObj (ObjDeployment ownedWeb), ReplyOK,
      ReplyObj (ObjService sampleWebService)]"




















text \<open>
  A scripted store that accepts every status write and returns the document written; the
  reads of a pass in which \<^verbatim>\<open>portal-api\<close> cannot be read and nothing else is deployed; the
  root the stage returns from it; and the reason of the \<open>Ready\<close> condition of a root.
\<close>

definition acceptingStore :: "(reply list) KubeNovaReconciler" where
  "acceptingStore = scriptedReconciler\<lparr>Status_Update := (\<lambda>x w. (Inr x, w))\<rparr>"

definition unreadableReads :: "reply list" where
  "unreadableReads =
     [ReplyError serverTimeout,
      ReplyError notFound, ReplyError notFound, ReplyError notFound,
      ReplyError notFound, ReplyError notFound, ReplyError notFound,
      ReplyError notFound,
      ReplyError notFound,
      ReplyObj (ObjKubeNova staleRoot)]"

definition unreadableReport :: KubeNova where
  "unreadableReport =
     (case fst (checkComponentStatus acceptingStore staleRoot (unreadableReads, [])) of
        Return (err, kubenova) \<Rightarrow> kubenova
      | Panic \<Rightarrow> staleRoot)"

definition readyReason :: "KubeNova \<Rightarrow> string option" where
  "readyReason kubenova =
     map_option cond_Reason
       (find (\<lambda>c. cond_Type c = ConditionTypeReady) (Conditions (Status kubenova)))"

section \<open>Properties of the diff engine\<close>

lemma compareInt32Ptr_iff: "compareInt32Ptr a b \<longleftrightarrow> a = b"
  by (cases a; cases b) (simp_all add: compareInt32Ptr_def)

lemma fold_env_lookup:
  "fmlookup (fold (\<lambda>env m. if env_Value env \<noteq> [] then fmupd (env_Name env) (env_Value env) m else m) xs m0) k
     = (case map_of (rev (literalEnv xs)) k of Some v \<Rightarrow> Some v | None \<Rightarrow> fmlookup m0 k)"
proof (induction xs arbitrary: m0)
  case Nil
  then show ?case by (simp add: literalEnv_def)
next
  case (Cons x xs)
  show ?case
    by (simp add: Cons.IH) (auto simp: literalEnv_def map_add_def split: option.splits)
qed

lemma envMap_lookup: "fmlookup (envMap xs) k = map_of (rev (literalEnv xs)) k"
  by (simp add: envMap_def fold_env_lookup split: option.splits)

lemma envMap_literal: "envMap (filter (\<lambda>e. env_Value e \<noteq> []) xs) = envMap xs"
  by (rule fmap_ext) (simp add: envMap_lookup literalEnv_def)

lemma envMap_perm:
  assumes "mset ys = mset xs" "distinct (map env_Name xs)"
  shows "envMap ys = envMap xs"
proof (rule fmap_ext)
  fix k
  have dx: "distinct (map fst (rev (literalEnv xs)))"
    using assms(2) by (simp add: literalEnv_def distinct_rev rev_map[symmetric] comp_def distinct_map_filter)
  have "mset (map env_Name ys) = mset (map env_Name xs)" using assms(1) by simp
  then have "distinct (map env_Name ys)" using assms(2)
    by (metis mset_eq_imp_distinct_iff)
  then have dy: "distinct (map fst (rev (literalEnv ys)))"
    by (simp add: literalEnv_def distinct_rev rev_map[symmetric] comp_def distinct_map_filter)
  have "set ys = set xs" using assms(1) by (rule mset_eq_setD)
  then have "set (rev (literalEnv ys)) = set (rev (literalEnv xs))"
    by (simp add: literalEnv_def)
  then have "map_of (rev (literalEnv ys)) = map_of (rev (literalEnv xs))"
    using dx dy by (simp add: map_of_inject_set)
  then show "fmlookup (envMap ys) k = fmlookup (envMap xs) k"
    by (simp add: envMap_lookup)
qed

lemma fold_mount_lookup:
  "fmlookup (fold (\<lambda>vm m. fmupd (vm_Name vm) vm m) xs m0) k
     = (case map_of (rev (map (\<lambda>vm. (vm_Name vm, vm)) xs)) k of Some v \<Rightarrow> Some v | None \<Rightarrow> fmlookup m0 k)"
proof (induction xs arbitrary: m0)
  case Nil
  then show ?case by simp
next
  case (Cons x xs)
  show ?case
    by (simp add: Cons.IH) (auto simp: map_add_def split: option.splits)
qed

lemma mountMap_lookup: "fmlookup (mountMap xs) k = map_of (rev (map (\<lambda>vm. (vm_Name vm, vm)) xs)) k"
  by (simp add: mountMap_def fold_mount_lookup split: option.splits)

lemma mountMap_perm:
  assumes "mset ys = mset xs" "distinct (map vm_Name xs)"
  shows "mountMap ys = mountMap xs"
proof (rule fmap_ext)
  fix k
  let ?kv = "\<lambda>zs. rev (map (\<lambda>vm. (vm_Name vm, vm)) zs)"
  have dx: "distinct (map fst (?kv xs))"
    using assms(2) by (simp add: distinct_rev rev_map[symmetric] comp_def)
  have "mset (map vm_Name ys) = mset (map vm_Name xs)" using assms(1) by simp
  then have "distinct (map vm_Name ys)" using assms(2)
    by (metis mset_eq_imp_distinct_iff)
  then have dy: "distinct (map fst (?kv ys))"
    by (simp add: distinct_rev rev_map[symmetric] comp_def)
  have "set ys = set xs" using assms(1) by (rule mset_eq_setD)
  then have "set (?kv ys) = set (?kv xs)" by simp
  then have "map_of (?kv ys) = map_of (?kv xs)"
    using dx dy by (simp add: map_of_inject_set)
  then show "fmlookup (mountMap ys) k = fmlookup (mountMap xs) k"
    by (simp add: mountMap_lookup)
qed

lemma compareVolumeMounts_loop_all:
  "compareVolumeMounts_loop aMap b \<longleftrightarrow>
     (\<forall>vm \<in> set b. \<exists>e. fmlookup aMap (vm_Name vm) = Some e \<and> vm_MountPath e = vm_MountPath vm)"
  by (induction b) (auto split: option.splits)

lemma compareVolumeMounts_perm_left:
  assumes "mset a' = mset a" "distinct (map vm_Name a)"
  shows "compareVolumeMounts a' b = compareVolumeMounts a b"
proof -
  have "length a' = length a" using assms(1) by (metis size_mset)
  then show ?thesis
    by (simp add: compareVolumeMounts_def mountMap_perm[OF assms])
qed

lemma compareVolumeMounts_perm_right:
  assumes "mset b' = mset b"
  shows "compareVolumeMounts a b' = compareVolumeMounts a b"
proof -
  have "length b' = length b" using assms by (metis size_mset)
  moreover have "set b' = set b" using assms by (rule mset_eq_setD)
  ultimately show ?thesis
    by (simp add: compareVolumeMounts_def compareVolumeMounts_loop_all)
qed

lemma compareEnvVars_perm_left:
  assumes "mset a' = mset a" "distinct (map env_Name a)"
  shows "compareEnvVars a' b = compareEnvVars a b"
proof -
  have "length a' = length a" using assms(1) by (metis size_mset)
  then show ?thesis
    by (simp add: compareEnvVars_def envMap_perm[OF assms])
qed

lemma compareEnvVars_perm_right:
  assumes "mset b' = mset b" "distinct (map env_Name b)"
  shows "compareEnvVars a b' = compareEnvVars a b"
proof -
  have "length b' = length b" using assms(1) by (metis size_mset)
  then show ?thesis
    by (simp add: compareEnvVars_def envMap_perm[OF assms])
qed

lemma fold_volume_lookup:
  "fmlookup (fold (\<lambda>v m. fmupd (vol_Name v) True m) xs m0) k
     = (if k \<in> vol_Name ` set xs then Some True else fmlookup m0 k)"
  by (induction xs arbitrary: m0) auto

lemma volumeMap_lookup:
  "fmlookup (volumeMap xs) k = (if k \<in> vol_Name ` set xs then Some True else None)"
  by (simp add: volumeMap_def fold_volume_lookup)

lemma compareVolumes_loop_all:
  "compareVolumes_loop aMap b \<longleftrightarrow> (\<forall>v \<in> set b. fmlookup aMap (vol_Name v) = Some True)"
  by (induction b) (auto split: option.splits)

lemma compareVolumes_names:
  "compareVolumes a b \<longleftrightarrow> length a = length b \<and> vol_Name ` set b \<subseteq> vol_Name ` set a"
  by (auto simp: compareVolumes_def compareVolumes_loop_all volumeMap_lookup)

lemma compareVolumes_by_name:
  assumes "map vol_Name a' = map vol_Name a" "map vol_Name b' = map vol_Name b"
  shows "compareVolumes a' b' = compareVolumes a b"
proof -
  have "length a' = length a" "length b' = length b"
    using assms by (metis length_map)+
  moreover have "vol_Name ` set a' = vol_Name ` set a" "vol_Name ` set b' = vol_Name ` set b"
    using assms by (metis set_map)+
  ultimately show ?thesis by (simp add: compareVolumes_names)
qed

lemma firstContainerEqual_alt:
  "firstContainerEqual a b \<longleftrightarrow>
     Image a = Image b \<and> compareEnvVars (Env a) (Env b)
     \<and> compareResourceRequirements (Resources a) (Resources b)
     \<and> compareVolumeMounts (VolumeMounts a) (VolumeMounts b)"
  by (simp add: firstContainerEqual_def)

lemma deploymentSpecEqual_alt:
  "deploymentSpecEqual e d \<longleftrightarrow>
     Replicas e = Replicas d
     \<and> length (Containers (tpl_Spec (Template e))) = length (Containers (tpl_Spec (Template d)))
     \<and> (Containers (tpl_Spec (Template e)) \<noteq> [] \<longrightarrow>
          firstContainerEqual (hd (Containers (tpl_Spec (Template e))))
            (hd (Containers (tpl_Spec (Template d)))))
     \<and> compareVolumes (Volumes (tpl_Spec (Template e))) (Volumes (tpl_Spec (Template d)))
     \<and> ServiceAccountName (tpl_Spec (Template e)) = ServiceAccountName (tpl_Spec (Template d))"
  by (auto simp: deploymentSpecEqual_def Let_def compareInt32Ptr_iff)

lemma comparedFields_hd:
  assumes "comparedFields e' = comparedFields e"
  shows "Replicas e' = Replicas e"
    and "length (Containers (tpl_Spec (Template e'))) = length (Containers (tpl_Spec (Template e)))"
    and "Volumes (tpl_Spec (Template e')) = Volumes (tpl_Spec (Template e))"
    and "ServiceAccountName (tpl_Spec (Template e')) = ServiceAccountName (tpl_Spec (Template e))"
    and "Containers (tpl_Spec (Template e)) \<noteq> [] \<Longrightarrow>
           firstContainerEqual (hd (Containers (tpl_Spec (Template e')))) x
             = firstContainerEqual (hd (Containers (tpl_Spec (Template e)))) x"
    and "Containers (tpl_Spec (Template e)) \<noteq> [] \<Longrightarrow>
           firstContainerEqual x (hd (Containers (tpl_Spec (Template e'))))
             = firstContainerEqual x (hd (Containers (tpl_Spec (Template e))))"
  using assms
  by (auto simp: comparedFields_def Let_def firstContainerEqual_alt split: list.splits)

lemma diff_scope_left:
  assumes "comparedFields e' = comparedFields e"
  shows "deploymentSpecEqual e' d = deploymentSpecEqual e d"
proof -
  note h = comparedFields_hd[OF assms]
  have ne: "Containers (tpl_Spec (Template e')) \<noteq> [] \<longleftrightarrow> Containers (tpl_Spec (Template e)) \<noteq> []"
    using h(2) by (metis length_0_conv)
  show ?thesis
    unfolding deploymentSpecEqual_alt using h(1-4) h(5) ne by auto
qed

lemma diff_scope_right:
  assumes "comparedFields d' = comparedFields d"
  shows "deploymentSpecEqual e d' = deploymentSpecEqual e d"
proof -
  note h = comparedFields_hd[OF assms]
  show ?thesis
  proof (cases "length (Containers (tpl_Spec (Template e))) = length (Containers (tpl_Spec (Template d)))")
    case True
    then have "Containers (tpl_Spec (Template e)) \<noteq> [] \<Longrightarrow> Containers (tpl_Spec (Template d)) \<noteq> []"
      by (metis length_0_conv)
    then show ?thesis
      unfolding deploymentSpecEqual_alt using h(1-4) h(6) True by auto
  next
    case False
    then show ?thesis unfolding deploymentSpecEqual_alt using h(2) by simp
  qed
qed

lemma diff_replicas:
  assumes "deploymentSpecEqual e d" "n \<noteq> Replicas e"
  shows "\<not> deploymentSpecEqual (e\<lparr>Replicas := n\<rparr>) d"
  using assms by (simp add: deploymentSpecEqual_alt)

lemma diff_replicas_desired:
  assumes "deploymentSpecEqual e d" "n \<noteq> Replicas d"
  shows "\<not> deploymentSpecEqual e (d\<lparr>Replicas := n\<rparr>)"
  using assms by (auto simp: deploymentSpecEqual_alt)

lemma diff_replicas_differ:
  assumes "Replicas e \<noteq> Replicas d"
  shows "\<not> deploymentSpecEqual e d"
  using assms by (simp add: deploymentSpecEqual_alt)

lemma withContainers_simps [simp]:
  "Replicas (withContainers e cs) = Replicas e"
  "Containers (tpl_Spec (Template (withContainers e cs))) = cs"
  "Volumes (tpl_Spec (Template (withContainers e cs))) = Volumes (tpl_Spec (Template e))"
  "ServiceAccountName (tpl_Spec (Template (withContainers e cs)))
     = ServiceAccountName (tpl_Spec (Template e))"
  by (simp_all add: withContainers_def)

lemma withVolumes_simps [simp]:
  "Replicas (withVolumes e vs) = Replicas e"
  "Containers (tpl_Spec (Template (withVolumes e vs))) = Containers (tpl_Spec (Template e))"
  "Volumes (tpl_Spec (Template (withVolumes e vs))) = vs"
  "ServiceAccountName (tpl_Spec (Template (withVolumes e vs)))
     = ServiceAccountName (tpl_Spec (Template e))"
  by (simp_all add: withVolumes_def)

lemma diff_env_perm:
  assumes "mset env' = mset (Env c)" "distinct (map env_Name (Env c))"
  shows "deploymentSpecEqual (withContainers e (c\<lparr>Env := env'\<rparr> # cs)) d
           = deploymentSpecEqual (withContainers e (c # cs)) d"
    and "deploymentSpecEqual d (withContainers e (c\<lparr>Env := env'\<rparr> # cs))
           = deploymentSpecEqual d (withContainers e (c # cs))"
  using compareEnvVars_perm_left[OF assms] compareEnvVars_perm_right[OF assms]
  by (simp_all add: deploymentSpecEqual_alt firstContainerEqual_alt)

lemma diff_mounts_perm:
  assumes "mset mounts' = mset (VolumeMounts c)"
  shows "distinct (map vm_Name (VolumeMounts c)) \<Longrightarrow>
           deploymentSpecEqual (withContainers e (c\<lparr>VolumeMounts := mounts'\<rparr> # cs)) d
             = deploymentSpecEqual (withContainers e (c # cs)) d"
    and "deploymentSpecEqual d (withContainers e (c\<lparr>VolumeMounts := mounts'\<rparr> # cs))
           = deploymentSpecEqual d (withContainers e (c # cs))"
  using compareVolumeMounts_perm_left[OF assms] compareVolumeMounts_perm_right[OF assms]
  by (simp_all add: deploymentSpecEqual_alt firstContainerEqual_alt)

text \<open>
  Claim C6, as the code has it. The diff engine's result depends on the two documents
  only through the fixed comparison set (\<open>comparedFields\<close>), so a change elsewhere, such
  as a label the store injects, is not seen; two documents with different replica counts
  compare unequal, so changing the replica count of either of two documents that compare
  equal, the observed or the desired one, makes them compare unequal; and permuting the environment
  variables or the volume mounts of the first container leaves the result as it is,
  provided the names in the permuted list are pairwise distinct (for the mounts of the
  desired document no proviso is needed).
\<close>

theorem diff_engine_scope_and_order:
  "(comparedFields e' = comparedFields e \<longrightarrow> deploymentSpecEqual e' d = deploymentSpecEqual e d)
   \<and> (comparedFields d' = comparedFields d \<longrightarrow> deploymentSpecEqual e d' = deploymentSpecEqual e d)
   \<and> (Replicas e \<noteq> Replicas d \<longrightarrow> \<not> deploymentSpecEqual e d)
   \<and> (deploymentSpecEqual e d \<and> n \<noteq> Replicas e \<longrightarrow> \<not> deploymentSpecEqual (e\<lparr>Replicas := n\<rparr>) d)
   \<and> (deploymentSpecEqual e d \<and> n \<noteq> Replicas d \<longrightarrow> \<not> deploymentSpecEqual e (d\<lparr>Replicas := n\<rparr>))
   \<and> (mset env' = mset (Env c) \<and> distinct (map env_Name (Env c)) \<longrightarrow>
        deploymentSpecEqual (withContainers e (c\<lparr>Env := env'\<rparr> # cs)) d
          = deploymentSpecEqual (withContainers e (c # cs)) d
        \<and> deploymentSpecEqual d (withContainers e (c\<lparr>Env := env'\<rparr> # cs))
          = deploymentSpecEqual d (withContainers e (c # cs)))
   \<and> (mset mounts' = mset (VolumeMounts c) \<and> distinct (map vm_Name (VolumeMounts c)) \<longrightarrow>
        deploymentSpecEqual (withContainers e (c\<lparr>VolumeMounts := mounts'\<rparr> # cs)) d
          = deploymentSpecEqual (withContainers e (c # cs)) d)
   \<and> (mset mounts' = mset (VolumeMounts c) \<longrightarrow>
        deploymentSpecEqual d (withContainers e (c\<lparr>VolumeMounts := mounts'\<rparr> # cs))
          = deploymentSpecEqual d (withContainers e (c # cs)))"
  by (intro conjI impI; (elim conjE)?;
      (rule diff_scope_left diff_scope_right diff_replicas diff_replicas_desired
            diff_replicas_differ diff_env_perm diff_mounts_perm;
       assumption))

text \<open>
  The theorem at the sample backend workload: with an injected pod-template label, another
  strategy, three replicas instead of two on the observed and on the desired side, and the
  two variables and the two mounts of its container swapped.
\<close>

theorem diff_engine_scope_and_order_witness:
  "comparedFields (withTemplateLabels samplePortalSpec injectedLabels) = comparedFields samplePortalSpec
   \<and> withTemplateLabels samplePortalSpec injectedLabels \<noteq> samplePortalSpec
   \<and> deploymentSpecEqual (withTemplateLabels samplePortalSpec injectedLabels) samplePortalSpec
   \<and> comparedFields (samplePortalSpec\<lparr>Strategy := ''Recreate''\<rparr>) = comparedFields samplePortalSpec
   \<and> deploymentSpecEqual samplePortalSpec (samplePortalSpec\<lparr>Strategy := ''Recreate''\<rparr>)
   \<and> deploymentSpecEqual samplePortalSpec samplePortalSpec
   \<and> Replicas samplePortalSpec = Some 2
   \<and> \<not> deploymentSpecEqual (samplePortalSpec\<lparr>Replicas := Some 3\<rparr>) samplePortalSpec
   \<and> \<not> deploymentSpecEqual samplePortalSpec (samplePortalSpec\<lparr>Replicas := Some 3\<rparr>)
   \<and> mset [env_POD_NAMESPACE, env_TZ] = mset (Env samplePortalContainer)
   \<and> distinct (map env_Name (Env samplePortalContainer))
   \<and> deploymentSpecEqual
        (withContainers samplePortalSpec [samplePortalContainer\<lparr>Env := [env_POD_NAMESPACE, env_TZ]\<rparr>])
        samplePortalSpec
   \<and> deploymentSpecEqual samplePortalSpec
        (withContainers samplePortalSpec [samplePortalContainer\<lparr>Env := [env_POD_NAMESPACE, env_TZ]\<rparr>])
   \<and> mset [mount_cache, mount_config] = mset (VolumeMounts samplePortalContainer)
   \<and> distinct (map vm_Name (VolumeMounts samplePortalContainer))
   \<and> deploymentSpecEqual
        (withContainers samplePortalSpec
           [samplePortalContainer\<lparr>VolumeMounts := [mount_cache, mount_config]\<rparr>])
        samplePortalSpec
   \<and> deploymentSpecEqual samplePortalSpec
        (withContainers samplePortalSpec
           [samplePortalContainer\<lparr>VolumeMounts := [mount_cache, mount_config]\<rparr>])"
proof -
  have same: "withContainers samplePortalSpec [samplePortalContainer] = samplePortalSpec"
    by (simp add: withContainers_def samplePortalSpec_def)
  have h1: "comparedFields (withTemplateLabels samplePortalSpec injectedLabels)
              = comparedFields samplePortalSpec"
    by (simp add: comparedFields_def withTemplateLabels_def samplePortalSpec_def)
  have h1': "withTemplateLabels samplePortalSpec injectedLabels \<noteq> samplePortalSpec"
    by code_simp
  have h2: "comparedFields (samplePortalSpec\<lparr>Strategy := ''Recreate''\<rparr>) = comparedFields samplePortalSpec"
    by (simp add: comparedFields_def samplePortalSpec_def)
  have h3: "deploymentSpecEqual samplePortalSpec samplePortalSpec"
    by code_simp
  have h3': "Some 3 \<noteq> Replicas samplePortalSpec" "Replicas samplePortalSpec = Some 2"
    by (simp_all add: samplePortalSpec_def)
  have h4: "mset [env_POD_NAMESPACE, env_TZ] = mset (Env samplePortalContainer)"
    by (simp add: samplePortalContainer_def)
  have h4': "distinct (map env_Name (Env samplePortalContainer))"
    by (simp add: samplePortalContainer_def env_TZ_def env_POD_NAMESPACE_def)
  have h5: "mset [mount_cache, mount_config] = mset (VolumeMounts samplePortalContainer)"
    by (simp add: samplePortalContainer_def)
  have h5': "distinct (map vm_Name (VolumeMounts samplePortalContainer))"
    by (simp add: samplePortalContainer_def mount_config_def mount_cache_def)
  show ?thesis
    using diff_engine_scope_and_order
            [where e = samplePortalSpec
               and e' = "withTemplateLabels samplePortalSpec injectedLabels"
               and d = samplePortalSpec
               and d' = "samplePortalSpec\<lparr>Strategy := ''Recreate''\<rparr>"
               and n = "Some 3"
               and c = samplePortalContainer and cs = "[]"
               and env' = "[env_POD_NAMESPACE, env_TZ]"
               and mounts' = "[mount_cache, mount_config]"]
          h1 h1' h2 h3 h3' h4 h4' h5 h5'
    by (simp add: same)
qed

text \<open>
  Claim C6 as stated fails when a list holds a name twice. With \<^verbatim>\<open>TZ\<close> set twice (the
  later entry wins), swapping the two entries turns a pair of documents that compare equal
  into one that compares unequal; the same happens with a volume mounted at two paths.
\<close>

theorem diff_order_counterexample:
  "mset (Env twoZones_permuted) = mset (Env twoZones)
   \<and> deploymentSpecEqual (withContainers samplePortalSpec [twoZones])
        (withContainers samplePortalSpec [twoZones])
   \<and> \<not> deploymentSpecEqual (withContainers samplePortalSpec [twoZones_permuted])
          (withContainers samplePortalSpec [twoZones])
   \<and> mset (VolumeMounts mountedTwice_permuted) = mset (VolumeMounts mountedTwice)
   \<and> deploymentSpecEqual (withContainers samplePortalSpec [mountedTwice])
        (withContainers samplePortalSpec [mountedExtraOnly])
   \<and> \<not> deploymentSpecEqual (withContainers samplePortalSpec [mountedTwice_permuted])
          (withContainers samplePortalSpec [mountedExtraOnly])"
proof -
  have "mset (Env twoZones_permuted) = mset (Env twoZones)"
    by (simp add: twoZones_def twoZones_permuted_def)
  moreover have "deploymentSpecEqual (withContainers samplePortalSpec [twoZones])
        (withContainers samplePortalSpec [twoZones])"
    by code_simp
  moreover have "\<not> deploymentSpecEqual (withContainers samplePortalSpec [twoZones_permuted])
          (withContainers samplePortalSpec [twoZones])"
    by code_simp
  moreover have "mset (VolumeMounts mountedTwice_permuted) = mset (VolumeMounts mountedTwice)"
    by (simp add: mountedTwice_def mountedTwice_permuted_def)
  moreover have "deploymentSpecEqual (withContainers samplePortalSpec [mountedTwice])
        (withContainers samplePortalSpec [mountedExtraOnly])"
    by code_simp
  moreover have "\<not> deploymentSpecEqual (withContainers samplePortalSpec [mountedTwice_permuted])
          (withContainers samplePortalSpec [mountedExtraOnly])"
    by code_simp
  ultimately show ?thesis by blast
qed

lemma literalEnv_append: "literalEnv (xs @ ys) = literalEnv xs @ literalEnv ys"
  by (simp add: literalEnv_def)

lemma envMap_reference_swap:
  assumes "env_Value x = []" "env_Value y = []"
  shows "envMap (xs @ x # ys) = envMap (xs @ y # ys)"
proof (rule fmap_ext)
  fix k
  have "literalEnv (xs @ x # ys) = literalEnv (xs @ y # ys)"
    using assms by (simp add: literalEnv_def)
  then show "fmlookup (envMap (xs @ x # ys)) k = fmlookup (envMap (xs @ y # ys)) k"
    by (simp add: envMap_lookup)
qed

lemma compareEnvVars_literal:
  "compareEnvVars a b \<longleftrightarrow>
     length a = length b
     \<and> envMap (filter (\<lambda>e. env_Value e \<noteq> []) a) = envMap (filter (\<lambda>e. env_Value e \<noteq> []) b)"
  by (simp add: compareEnvVars_def envMap_literal)

lemma diff_reference_env:
  assumes self: "deploymentSpecEqual e e"
    and cs: "Containers (tpl_Spec (Template e)) = c # cs"
    and env: "Env c = xs @ x # ys"
    and ref: "env_Value x = []" "env_Value y = []"
  shows "deploymentSpecEqual e (withContainers e (c\<lparr>Env := xs @ y # ys\<rparr> # cs))"
    and "deploymentSpecEqual (withContainers e (c\<lparr>Env := xs @ y # ys\<rparr> # cs)) e"
proof -
  have m: "envMap (xs @ x # ys) = envMap (xs @ y # ys)"
    using ref by (rule envMap_reference_swap)
  have fc: "firstContainerEqual c c" and vols: "compareVolumes (Volumes (tpl_Spec (Template e))) (Volumes (tpl_Spec (Template e)))"
    using self cs by (simp_all add: deploymentSpecEqual_alt)
  show "deploymentSpecEqual e (withContainers e (c\<lparr>Env := xs @ y # ys\<rparr> # cs))"
    using fc vols cs env m
    by (simp add: deploymentSpecEqual_alt firstContainerEqual_alt compareEnvVars_def)
  show "deploymentSpecEqual (withContainers e (c\<lparr>Env := xs @ y # ys\<rparr> # cs)) e"
    using fc vols cs env m
    by (simp add: deploymentSpecEqual_alt firstContainerEqual_alt compareEnvVars_def)
qed

lemma diff_volume_source:
  assumes self: "deploymentSpecEqual e e"
    and names: "map vol_Name vs = map vol_Name (Volumes (tpl_Spec (Template e)))"
  shows "deploymentSpecEqual e (withVolumes e vs)"
    and "deploymentSpecEqual (withVolumes e vs) e"
proof -
  have "compareVolumes (Volumes (tpl_Spec (Template e))) vs"
    using self compareVolumes_by_name[OF refl names, of "Volumes (tpl_Spec (Template e))"]
    by (simp add: deploymentSpecEqual_alt)
  moreover have "compareVolumes vs (Volumes (tpl_Spec (Template e)))"
    using self compareVolumes_by_name[OF names refl, of "Volumes (tpl_Spec (Template e))"]
    by (simp add: deploymentSpecEqual_alt)
  ultimately show "deploymentSpecEqual e (withVolumes e vs)"
    and "deploymentSpecEqual (withVolumes e vs) e"
    using self by (simp_all add: deploymentSpecEqual_alt)
qed

lemma syncDeployment_equal_no_update:
  assumes "SetControllerReference r kubenova (dp_ObjectMeta desired) = Inr m"
    and "Get_Deployment r \<lparr>nn_Namespace = namespace, nn_Name = Name m\<rparr> (fst s) = (Inr existing, w')"
    and "deploymentSpecEqual (dp_Spec existing) (dp_Spec desired)"
  shows "syncDeployment r kubenova namespace spliceFields createFailed getFailed regetFailed
           updateFailed desired s
         = (None, (w', snd s @ [EvGet KindDeployment \<lparr>nn_Namespace = namespace, nn_Name = Name m\<rparr>
                                   (Inr (ObjDeployment existing))]))"
  using assms
  by (simp add: syncDeployment_def getOrCreate_def r_Get_Deployment_def do_get_def Let_def)

text \<open>
  The front-end workload that the builder produces never compares equal to itself.
\<close>

lemma web_mounts_not_self_equal:
  "\<not> compareVolumeMounts (getWebVolumeMounts kn) (getWebVolumeMounts kn)"
proof
  let ?a = "getWebVolumeMounts kn"
  assume "compareVolumeMounts ?a ?a"
  then have all: "\<forall>vm \<in> set ?a. \<exists>e. fmlookup (mountMap ?a) (vm_Name vm) = Some e
                      \<and> vm_MountPath e = vm_MountPath vm"
    by (simp add: compareVolumeMounts_def compareVolumeMounts_loop_all)
  have mem: "nginxConfMount \<in> set ?a"
    by (simp add: getWebVolumeMounts_def nginxConfMount_def)
  have lk: "fmlookup (mountMap ?a) ''nginx-config''
          = Some \<lparr>vm_Name = ''nginx-config'', vm_MountPath = ''/etc/nginx/conf.d/default.conf'',
                  vm_SubPath = ''default.conf'', vm_ReadOnly = False\<rparr>"
    by (cases "nodePortHTTPSSecret kn") (simp_all add: mountMap_lookup getWebVolumeMounts_def)
  from all mem have "\<exists>e. fmlookup (mountMap ?a) (vm_Name nginxConfMount) = Some e
                      \<and> vm_MountPath e = vm_MountPath nginxConfMount"
    by blast
  with lk show False by (simp add: nginxConfMount_def)
qed

lemma web_workload_never_equal_to_itself:
  "\<not> deploymentSpecEqual (dp_Spec (buildWebDeployment kn namespace))
        (dp_Spec (buildWebDeployment kn namespace))"
proof -
  have "Containers (tpl_Spec (Template (dp_Spec (buildWebDeployment kn namespace)))) \<noteq> []"
    and "VolumeMounts (hd (Containers (tpl_Spec (Template (dp_Spec (buildWebDeployment kn namespace))))))
           = getWebVolumeMounts kn"
    by (simp_all add: buildWebDeployment_def Let_def)
  then show ?thesis
    using web_mounts_not_self_equal[of kn]
    by (simp add: deploymentSpecEqual_alt firstContainerEqual_alt)
qed
section \<open>The retry-safe status writer\<close>

lemma writer_loop_trace:
  "\<exists>evs. snd (snd (updateStatusWithRetry_loop r i kubenova s)) = snd s @ evs
         \<and> (case writerAttempts kubenova evs of
               None \<Rightarrow> False
             | Some n \<Rightarrow> n \<le> 3 - i \<and> (i < 3 \<longrightarrow> 1 \<le> n))"
proof (induction r i kubenova s rule: updateStatusWithRetry_loop.induct)
  case (1 r i kubenova s)
  obtain w t where s: "s = (w, t)" by (cases s)
  show ?case
  proof (cases "i < 3")
    case False
    then show ?thesis
      by (subst updateStatusWithRetry_loop.simps) simp
  next
    case True
    obtain g w1 where g: "Get_KubeNova r (rootKey kubenova) w = (g, w1)"
      by (cases "Get_KubeNova r (rootKey kubenova) w")
    show ?thesis
    proof (cases g)
      case (Inl err)
      with g True s show ?thesis
        by (subst updateStatusWithRetry_loop.simps)
           (simp add: r_Get_KubeNova_def do_get_def rootKey_def)
    next
      case (Inr fetched)
      obtain u w2 where u: "Status_Update r (fetched\<lparr>Status := Status kubenova\<rparr>) w1 = (u, w2)"
        by (cases "Status_Update r (fetched\<lparr>Status := Status kubenova\<rparr>) w1")
      let ?t1 = "t @ [EvGet KindKubeNova (rootKey kubenova) (Inr (ObjKubeNova fetched))]"
      let ?t2 = "?t1 @ [EvStatusUpdate (fetched\<lparr>Status := Status kubenova\<rparr>) u]"
      have get: "r_Get_KubeNova r (rootKey kubenova) s = (Inr fetched, (w1, ?t1))"
        using g Inr s by (simp add: r_Get_KubeNova_def do_get_def)
      have upd: "r_Status_Update r (fetched\<lparr>Status := Status kubenova\<rparr>) (w1, ?t1) = (u, (w2, ?t2))"
        using u by (simp add: r_Status_Update_def)
      show ?thesis
      proof (cases u)
        case (Inr latest')
        with get upd True s show ?thesis
          by (subst updateStatusWithRetry_loop.simps)
             (simp add: rootKey_def[symmetric] Let_def)
      next
        case (Inl err)
        show ?thesis
        proof (cases "IsConflict err \<and> i < 2")
          case False
          with get upd True Inl s show ?thesis
            by (subst updateStatusWithRetry_loop.simps)
               (auto simp: rootKey_def[symmetric] Let_def)
        next
          case retry: True
          let ?s3 = "r_Sleep r (100 * (i + 1)) (w2, ?t2)"
          have s3: "snd ?s3 = ?t2 @ [EvSleep (100 * (i + 1))]"
            by (simp add: r_Sleep_def)
          have "\<exists>evs. snd (snd (updateStatusWithRetry_loop r (i + 1) kubenova ?s3)) = snd ?s3 @ evs
                     \<and> (case writerAttempts kubenova evs of
                           None \<Rightarrow> False
                         | Some n \<Rightarrow> n \<le> 3 - (i + 1) \<and> (i + 1 < 3 \<longrightarrow> 1 \<le> n))"
          proof -
            have get': "(Inr fetched, (w1, ?t1))
                          = r_Get_KubeNova r
                              \<lparr>nn_Namespace = Namespace (ObjectMeta kubenova),
                                 nn_Name = Name (ObjectMeta kubenova)\<rparr> s"
              using get by (simp add: rootKey_def)
            have upd': "(Inl err, (w2, ?t2))
                          = r_Status_Update r (fetched\<lparr>Status := Status kubenova\<rparr>) (w1, ?t1)"
              using upd Inl by simp
            show ?thesis
              using "1.IH"[OF True get' refl refl upd' refl retry] Inl by simp
          qed
          then obtain evs n where
            tr: "snd (snd (updateStatusWithRetry_loop r (i + 1) kubenova ?s3)) = snd ?s3 @ evs"
            and n: "writerAttempts kubenova evs = Some n" "n \<le> 3 - (i + 1)"
            by (auto split: option.splits)
          have step: "updateStatusWithRetry_loop r i kubenova s
                        = updateStatusWithRetry_loop r (i + 1) kubenova ?s3"
            using get upd True Inl retry
            by (subst updateStatusWithRetry_loop.simps)
               (simp add: rootKey_def[symmetric] Let_def)
          have "snd (snd (updateStatusWithRetry_loop r i kubenova s))
                  = snd s @ ([EvGet KindKubeNova (rootKey kubenova) (Inr (ObjKubeNova fetched)),
                          EvStatusUpdate (fetched\<lparr>Status := Status kubenova\<rparr>) u,
                          EvSleep (100 * (i + 1))] @ evs)"
            using step tr s3 s by simp
          moreover have "writerAttempts kubenova
                   ([EvGet KindKubeNova (rootKey kubenova) (Inr (ObjKubeNova fetched)),
                     EvStatusUpdate (fetched\<lparr>Status := Status kubenova\<rparr>) u,
                     EvSleep (100 * (i + 1))] @ evs) = Some (Suc n)"
            using n by simp
          ultimately show ?thesis
            using n retry by (auto simp del: append.simps)
        qed
      qed
    qed
  qed
qed

lemma writer_attempts_bound:
  "withinThreeAttempts kubenova (snd (snd (updateStatusWithRetry r kubenova (w, []))))"
  using writer_loop_trace[of r 0 kubenova "(w, [])"]
  by (auto simp: withinThreeAttempts_def updateStatusWithRetry_def split: option.splits)

lemma writer_two_conflicts:
  assumes g1: "Get_KubeNova r (rootKey kubenova) w0 = (Inr l1, w1)"
    and u1: "Status_Update r (l1\<lparr>Status := Status kubenova\<rparr>) w1 = (Inl e1, w2)" "IsConflict e1"
    and g2: "Get_KubeNova r (rootKey kubenova) (Sleep r 100 w2) = (Inr l2, w3)"
    and u2: "Status_Update r (l2\<lparr>Status := Status kubenova\<rparr>) w3 = (Inl e2, w4)" "IsConflict e2"
    and g3: "Get_KubeNova r (rootKey kubenova) (Sleep r 200 w4) = (Inr l3, w5)"
    and u3: "Status_Update r (l3\<lparr>Status := Status kubenova\<rparr>) w5 = (u, w6)"
  shows "updateStatusWithRetry r kubenova (w0, [])
         = ((case u of
               Inl e3 \<Rightarrow> (Some e3, kubenova)
             | Inr l3' \<Rightarrow>
                 (None,
                  kubenova\<lparr>Status := Status l3',
                           ObjectMeta := (ObjectMeta kubenova)
                             \<lparr>ResourceVersion := ResourceVersion (ObjectMeta l3')\<rparr>\<rparr>)),
            (w6,
             [EvGet KindKubeNova (rootKey kubenova) (Inr (ObjKubeNova l1)),
              EvStatusUpdate (l1\<lparr>Status := Status kubenova\<rparr>) (Inl e1),
              EvSleep 100,
              EvGet KindKubeNova (rootKey kubenova) (Inr (ObjKubeNova l2)),
              EvStatusUpdate (l2\<lparr>Status := Status kubenova\<rparr>) (Inl e2),
              EvSleep 200,
              EvGet KindKubeNova (rootKey kubenova) (Inr (ObjKubeNova l3)),
              EvStatusUpdate (l3\<lparr>Status := Status kubenova\<rparr>) u]))"
proof -
  let ?ta = "[EvGet KindKubeNova (rootKey kubenova) (Inr (ObjKubeNova l1)),
              EvStatusUpdate (l1\<lparr>Status := Status kubenova\<rparr>) (Inl e1),
              EvSleep 100]"
  let ?tb = "?ta @ [EvGet KindKubeNova (rootKey kubenova) (Inr (ObjKubeNova l2)),
              EvStatusUpdate (l2\<lparr>Status := Status kubenova\<rparr>) (Inl e2),
              EvSleep 200]"
  have first: "updateStatusWithRetry_loop r 0 kubenova (w0, [])
                 = updateStatusWithRetry_loop r 1 kubenova (Sleep r 100 w2, ?ta)"
    using g1 u1
    by (subst updateStatusWithRetry_loop.simps)
       (simp add: r_Get_KubeNova_def do_get_def r_Status_Update_def r_Sleep_def
                  rootKey_def[symmetric] Let_def)
  have second: "updateStatusWithRetry_loop r 1 kubenova (Sleep r 100 w2, ?ta)
                 = updateStatusWithRetry_loop r 2 kubenova (Sleep r 200 w4, ?tb)"
    using g2 u2
    by (subst updateStatusWithRetry_loop.simps)
       (simp add: r_Get_KubeNova_def do_get_def r_Status_Update_def r_Sleep_def
                  rootKey_def[symmetric] Let_def numeral_2_eq_2)
  have third: "updateStatusWithRetry_loop r 2 kubenova (Sleep r 200 w4, ?tb)
                 = ((case u of
                       Inl e3 \<Rightarrow> (Some e3, kubenova)
                     | Inr l3' \<Rightarrow>
                         (None,
                          kubenova\<lparr>Status := Status l3',
                                   ObjectMeta := (ObjectMeta kubenova)
                                     \<lparr>ResourceVersion := ResourceVersion (ObjectMeta l3')\<rparr>\<rparr>)),
                    (w6, ?tb @ [EvGet KindKubeNova (rootKey kubenova) (Inr (ObjKubeNova l3)),
                                EvStatusUpdate (l3\<lparr>Status := Status kubenova\<rparr>) u]))"
    using g3 u3
    by (subst updateStatusWithRetry_loop.simps)
       (simp add: r_Get_KubeNova_def do_get_def r_Status_Update_def
                  rootKey_def[symmetric] Let_def split: sum.splits)
  show ?thesis
    unfolding updateStatusWithRetry_def first second third by simp
qed

text \<open>
  Claim C3. Every run of the status writer is a sequence of at least one and at most three
  attempts, each of which reads the root afresh and sends the fetched document with only
  the status replaced by the caller's. When the writes of the first two attempts are
  answered with a conflict and the third is accepted, the writer returns no error and the
  caller's root holds the version token (and the status) of the document the store
  returned for the third write; the pauses are of 100 and 200 milliseconds. When the
  third write conflicts too, the writer returns that error and the caller's root is left
  as it was.
\<close>

theorem status_writer_retry:
  "withinThreeAttempts kubenova (snd (snd (updateStatusWithRetry r kubenova (w0, []))))
   \<and> (Get_KubeNova r (rootKey kubenova) w0 = (Inr l1, w1)
       \<and> Status_Update r (l1\<lparr>Status := Status kubenova\<rparr>) w1 = (Inl e1, w2) \<and> IsConflict e1
       \<and> Get_KubeNova r (rootKey kubenova) (Sleep r 100 w2) = (Inr l2, w3)
       \<and> Status_Update r (l2\<lparr>Status := Status kubenova\<rparr>) w3 = (Inl e2, w4) \<and> IsConflict e2
       \<and> Get_KubeNova r (rootKey kubenova) (Sleep r 200 w4) = (Inr l3, w5)
       \<longrightarrow>
         (Status_Update r (l3\<lparr>Status := Status kubenova\<rparr>) w5 = (Inr l3', w6) \<longrightarrow>
            fst (updateStatusWithRetry r kubenova (w0, []))
              = (None,
                 kubenova\<lparr>Status := Status l3',
                          ObjectMeta := (ObjectMeta kubenova)
                            \<lparr>ResourceVersion := ResourceVersion (ObjectMeta l3')\<rparr>\<rparr>)
            \<and> snd (updateStatusWithRetry r kubenova (w0, []))
              = (w6,
                 [EvGet KindKubeNova (rootKey kubenova) (Inr (ObjKubeNova l1)),
                  EvStatusUpdate (l1\<lparr>Status := Status kubenova\<rparr>) (Inl e1),
                  EvSleep 100,
                  EvGet KindKubeNova (rootKey kubenova) (Inr (ObjKubeNova l2)),
                  EvStatusUpdate (l2\<lparr>Status := Status kubenova\<rparr>) (Inl e2),
                  EvSleep 200,
                  EvGet KindKubeNova (rootKey kubenova) (Inr (ObjKubeNova l3)),
                  EvStatusUpdate (l3\<lparr>Status := Status kubenova\<rparr>) (Inr l3')]))
         \<and> (Status_Update r (l3\<lparr>Status := Status kubenova\<rparr>) w5 = (Inl e3, w6) \<and> IsConflict e3 \<longrightarrow>
              fst (updateStatusWithRetry r kubenova (w0, [])) = (Some e3, kubenova)))"
proof (intro conjI impI)
  show "withinThreeAttempts kubenova (snd (snd (updateStatusWithRetry r kubenova (w0, []))))"
    by (rule writer_attempts_bound)
next
  assume h: "Get_KubeNova r (rootKey kubenova) w0 = (Inr l1, w1)
       \<and> Status_Update r (l1\<lparr>Status := Status kubenova\<rparr>) w1 = (Inl e1, w2) \<and> IsConflict e1
       \<and> Get_KubeNova r (rootKey kubenova) (Sleep r 100 w2) = (Inr l2, w3)
       \<and> Status_Update r (l2\<lparr>Status := Status kubenova\<rparr>) w3 = (Inl e2, w4) \<and> IsConflict e2
       \<and> Get_KubeNova r (rootKey kubenova) (Sleep r 200 w4) = (Inr l3, w5)"
    and ok: "Status_Update r (l3\<lparr>Status := Status kubenova\<rparr>) w5 = (Inr l3', w6)"
  note eq = writer_two_conflicts[of r kubenova w0 l1 w1 e1 w2 l2 w3 e2 w4 l3 w5 "Inr l3'" w6]
  show "fst (updateStatusWithRetry r kubenova (w0, []))
              = (None,
                 kubenova\<lparr>Status := Status l3',
                          ObjectMeta := (ObjectMeta kubenova)
                            \<lparr>ResourceVersion := ResourceVersion (ObjectMeta l3')\<rparr>\<rparr>)"
    using eq h ok by simp
  show "snd (updateStatusWithRetry r kubenova (w0, []))
              = (w6,
                 [EvGet KindKubeNova (rootKey kubenova) (Inr (ObjKubeNova l1)),
                  EvStatusUpdate (l1\<lparr>Status := Status kubenova\<rparr>) (Inl e1),
                  EvSleep 100,
                  EvGet KindKubeNova (rootKey kubenova) (Inr (ObjKubeNova l2)),
                  EvStatusUpdate (l2\<lparr>Status := Status kubenova\<rparr>) (Inl e2),
                  EvSleep 200,
                  EvGet KindKubeNova (rootKey kubenova) (Inr (ObjKubeNova l3)),
                  EvStatusUpdate (l3\<lparr>Status := Status kubenova\<rparr>) (Inr l3')])"
    using eq h ok by simp
next
  assume h: "Get_KubeNova r (rootKey kubenova) w0 = (Inr l1, w1)
       \<and> Status_Update r (l1\<lparr>Status := Status kubenova\<rparr>) w1 = (Inl e1, w2) \<and> IsConflict e1
       \<and> Get_KubeNova r (rootKey kubenova) (Sleep r 100 w2) = (Inr l2, w3)
       \<and> Status_Update r (l2\<lparr>Status := Status kubenova\<rparr>) w3 = (Inl e2, w4) \<and> IsConflict e2
       \<and> Get_KubeNova r (rootKey kubenova) (Sleep r 200 w4) = (Inr l3, w5)"
    and bad: "Status_Update r (l3\<lparr>Status := Status kubenova\<rparr>) w5 = (Inl e3, w6) \<and> IsConflict e3"
  note eq = writer_two_conflicts[of r kubenova w0 l1 w1 e1 w2 l2 w3 e2 w4 l3 w5 "Inl e3" w6]
  show "fst (updateStatusWithRetry r kubenova (w0, [])) = (Some e3, kubenova)"
    using eq h bad by simp
qed

lemma scripted_simps:
  "Get_KubeNova scriptedReconciler key (ReplyObj (ObjKubeNova x) # rest) = (Inr x, rest)"
  "Status_Update scriptedReconciler y (ReplyObj (ObjKubeNova x) # rest) = (Inr x, rest)"
  "Status_Update scriptedReconciler y (ReplyError err # rest) = (Inl err, rest)"
  "Sleep scriptedReconciler d w = w"
  by (simp_all add: scriptedReconciler_def scripted_get_def)

text \<open>
  The theorem at a scripted store that answers the first two writes, or all three, with a
  conflict.
\<close>

theorem status_writer_retry_witness:
  "withinThreeAttempts pendingRoot
     (snd (snd (updateStatusWithRetry scriptedReconciler pendingRoot (conflictsThenSuccess, []))))
   \<and> IsConflict conflictError
   \<and> fst (updateStatusWithRetry scriptedReconciler pendingRoot (conflictsThenSuccess, []))
       = (None,
          pendingRoot\<lparr>Status := Status (writtenRoot ''44''),
                      ObjectMeta := (ObjectMeta pendingRoot)\<lparr>ResourceVersion := ''44''\<rparr>\<rparr>)
   \<and> snd (updateStatusWithRetry scriptedReconciler pendingRoot (conflictsThenSuccess, []))
       = ([],
          [EvGet KindKubeNova (rootKey pendingRoot) (Inr (ObjKubeNova (storedRoot ''41''))),
           EvStatusUpdate (writtenRoot ''41'') (Inl conflictError),
           EvSleep 100,
           EvGet KindKubeNova (rootKey pendingRoot) (Inr (ObjKubeNova (storedRoot ''42''))),
           EvStatusUpdate (writtenRoot ''42'') (Inl conflictError),
           EvSleep 200,
           EvGet KindKubeNova (rootKey pendingRoot) (Inr (ObjKubeNova (storedRoot ''43''))),
           EvStatusUpdate (writtenRoot ''43'') (Inr (writtenRoot ''44''))])
   \<and> fst (updateStatusWithRetry scriptedReconciler pendingRoot (conflictsThrice, []))
       = (Some conflictError, pendingRoot)"
proof -
  have c: "IsConflict conflictError"
    by (simp add: IsConflict_def conflictError_def)
  have w: "\<And>v. (storedRoot v)\<lparr>Status := Status pendingRoot\<rparr> = writtenRoot v"
    by (simp add: writtenRoot_def)
  have rv: "ResourceVersion (ObjectMeta (writtenRoot ''44'')) = ''44''"
    by (simp add: writtenRoot_def storedRoot_def)
  note ok = status_writer_retry
      [where r = scriptedReconciler and kubenova = pendingRoot
         and ?w0.0 = conflictsThenSuccess
         and ?l1.0 = "storedRoot ''41''" and ?w1.0 = "tl conflictsThenSuccess"
         and ?e1.0 = conflictError and ?w2.0 = "tl (tl conflictsThenSuccess)"
         and ?l2.0 = "storedRoot ''42''" and ?w3.0 = "tl (tl (tl conflictsThenSuccess))"
         and ?e2.0 = conflictError and ?w4.0 = "tl (tl (tl (tl conflictsThenSuccess)))"
         and ?l3.0 = "storedRoot ''43''" and ?w5.0 = "tl (tl (tl (tl (tl conflictsThenSuccess))))"
         and l3' = "writtenRoot ''44''" and ?w6.0 = "[]"]
  note bad = status_writer_retry
      [where r = scriptedReconciler and kubenova = pendingRoot
         and ?w0.0 = conflictsThrice
         and ?l1.0 = "storedRoot ''41''" and ?w1.0 = "tl conflictsThrice"
         and ?e1.0 = conflictError and ?w2.0 = "tl (tl conflictsThrice)"
         and ?l2.0 = "storedRoot ''42''" and ?w3.0 = "tl (tl (tl conflictsThrice))"
         and ?e2.0 = conflictError and ?w4.0 = "tl (tl (tl (tl conflictsThrice)))"
         and ?l3.0 = "storedRoot ''43''" and ?w5.0 = "tl (tl (tl (tl (tl conflictsThrice))))"
         and ?e3.0 = conflictError and ?w6.0 = "[]"]
  from ok have p1: "withinThreeAttempts pendingRoot
     (snd (snd (updateStatusWithRetry scriptedReconciler pendingRoot (conflictsThenSuccess, []))))"
    by blast
  from ok c have p2:
    "fst (updateStatusWithRetry scriptedReconciler pendingRoot (conflictsThenSuccess, []))
       = (None,
          pendingRoot\<lparr>Status := Status (writtenRoot ''44''),
                      ObjectMeta := (ObjectMeta pendingRoot)\<lparr>ResourceVersion := ''44''\<rparr>\<rparr>)"
    "snd (updateStatusWithRetry scriptedReconciler pendingRoot (conflictsThenSuccess, []))
       = ([],
          [EvGet KindKubeNova (rootKey pendingRoot) (Inr (ObjKubeNova (storedRoot ''41''))),
           EvStatusUpdate (writtenRoot ''41'') (Inl conflictError),
           EvSleep 100,
           EvGet KindKubeNova (rootKey pendingRoot) (Inr (ObjKubeNova (storedRoot ''42''))),
           EvStatusUpdate (writtenRoot ''42'') (Inl conflictError),
           EvSleep 200,
           EvGet KindKubeNova (rootKey pendingRoot) (Inr (ObjKubeNova (storedRoot ''43''))),
           EvStatusUpdate (writtenRoot ''43'') (Inr (writtenRoot ''44''))])"
    by (simp_all add: conflictsThenSuccess_def scripted_simps w rv)
  from bad c have p3:
    "fst (updateStatusWithRetry scriptedReconciler pendingRoot (conflictsThrice, []))
       = (Some conflictError, pendingRoot)"
    by (simp add: conflictsThrice_def scripted_simps w)
  from p1 p2 p3 c show ?thesis by simp
qed

section \<open>The deletion lifecycle and the cluster-scoped binding\<close>




lemma writer_trace:
  "\<exists>evs n. snd (snd (updateStatusWithRetry r kubenova s)) = snd s @ evs
           \<and> writerAttempts kubenova evs = Some n"
  using writer_loop_trace[of r 0 kubenova s]
  by (auto simp: updateStatusWithRetry_def split: option.splits)


lemma collect_simps [simp]:
  "collect f [] = []"
  "collect f (e # evs) = f e @ collect f evs"
  "collect f (xs @ ys) = collect f xs @ collect f ys"
  by (simp_all add: collect_def)





text \<open>
  Claim C2 fails in the code when the read of the binding fails for a reason other than
  absence. The lifecycle deletes the binding only if the read succeeds and takes every
  read error for absence: here the read times out, no delete call is made, the finalizer
  is removed and the pass returns no error.
\<close>

theorem finalizer_removed_after_failed_read:
  "\<not> IsNotFound serverTimeout
   \<and> ContainsFinalizer deletingRoot kubenovaFinalizer
   \<and> reconcileDelete scriptedReconciler deletingRoot (bindingUnreadable, [])
       = ((Result_zero, None),
          ([],
           [EvGet KindKubeNova (rootKey deletingRoot) (Inr (ObjKubeNova deletingRoot)),
            EvStatusUpdate (deletingRoot\<lparr>Status := deletingStatus\<rparr>)
              (Inr (deletingRoot\<lparr>Status := deletingStatus\<rparr>)),
            EvGet KindClusterRoleBinding (crbKey deletingRoot) (Inl serverTimeout),
            EvUpdate (ObjKubeNova (RemoveFinalizer (deletingRoot\<lparr>Status := deletingStatus\<rparr>)
                                     kubenovaFinalizer))
              None]))
   \<and> Finalizers (ObjectMeta (RemoveFinalizer (deletingRoot\<lparr>Status := deletingStatus\<rparr>)
                                kubenovaFinalizer)) = []"
proof -
  have a: "\<not> IsNotFound serverTimeout"
    by (simp add: IsNotFound_def serverTimeout_def)
  have b: "ContainsFinalizer deletingRoot kubenovaFinalizer"
    by (simp add: ContainsFinalizer_def deletingRoot_def sampleKubeNova_def ObjectMeta_zero_def)
  have d: "Finalizers (ObjectMeta (RemoveFinalizer (deletingRoot\<lparr>Status := deletingStatus\<rparr>)
                                kubenovaFinalizer)) = []"
    by (simp add: RemoveFinalizer_def deletingRoot_def sampleKubeNova_def ObjectMeta_zero_def)
  have st: "setStatusPhase (r_Now scriptedReconciler (bindingUnreadable, [])) deletingRoot
              PhaseDeleting zh_deleting_resources
            = deletingRoot\<lparr>Status := deletingStatus\<rparr>"
    by (simp add: setStatusPhase_def r_Now_def scriptedReconciler_def deletingStatus_def
                  deletingRoot_def sampleKubeNova_def ObjectMeta_zero_def)
  have key: "rootKey (deletingRoot\<lparr>Status := deletingStatus\<rparr>) = rootKey deletingRoot"
    by (simp add: rootKey_def)
  have wr: "updateStatusWithRetry scriptedReconciler (deletingRoot\<lparr>Status := deletingStatus\<rparr>)
              (bindingUnreadable, [])
            = ((None, deletingRoot\<lparr>Status := deletingStatus\<rparr>),
               ([ReplyError serverTimeout, ReplyOK],
                [EvGet KindKubeNova (rootKey deletingRoot) (Inr (ObjKubeNova deletingRoot)),
                 EvStatusUpdate (deletingRoot\<lparr>Status := deletingStatus\<rparr>)
                   (Inr (deletingRoot\<lparr>Status := deletingStatus\<rparr>))]))"
    unfolding updateStatusWithRetry_def
    by (subst updateStatusWithRetry_loop.simps)
       (simp add: bindingUnreadable_def r_Get_KubeNova_def do_get_def r_Status_Update_def
                  scripted_simps rootKey_def[symmetric] key Let_def)
  have ck: "\<lparr>nn_Namespace = [], nn_Name = ''kube-nova-'' @ Namespace (ObjectMeta deletingRoot) @ ''-''
                  @ Name (ObjectMeta deletingRoot) @ ''-cluster-admin''\<rparr> = crbKey deletingRoot"
    by (simp add: crbKey_def BuildClusterRoleBinding_def)
  have c: "reconcileDelete scriptedReconciler deletingRoot (bindingUnreadable, [])
       = ((Result_zero, None),
          ([],
           [EvGet KindKubeNova (rootKey deletingRoot) (Inr (ObjKubeNova deletingRoot)),
            EvStatusUpdate (deletingRoot\<lparr>Status := deletingStatus\<rparr>)
              (Inr (deletingRoot\<lparr>Status := deletingStatus\<rparr>)),
            EvGet KindClusterRoleBinding (crbKey deletingRoot) (Inl serverTimeout),
            EvUpdate (ObjKubeNova (RemoveFinalizer (deletingRoot\<lparr>Status := deletingStatus\<rparr>)
                                     kubenovaFinalizer))
              None]))"
    unfolding reconcileDelete_def st wr
    by (simp add: Let_def crbKey_def BuildClusterRoleBinding_def r_Get_ClusterRoleBinding_def
                  do_get_def removeFinalizerAndUpdate_def
                  r_Update_def scriptedReconciler_def scripted_get_def scripted_ack_def)
  from a b c d show ?thesis by simp
qed

section \<open>The status aggregator\<close>

lemma service_classification:
  "(State (fst (serviceComponentStatus now rr n)) = ComponentStateReady \<longleftrightarrow> rr = n)
   \<and> (State (fst (serviceComponentStatus now rr n)) = ComponentStateRunning \<longleftrightarrow> rr \<noteq> n \<and> rr > 0)
   \<and> (State (fst (serviceComponentStatus now rr n)) = ComponentStatePending \<longleftrightarrow> rr \<noteq> n \<and> rr \<le> 0)
   \<and> cs_ReadyReplicas (fst (serviceComponentStatus now rr n)) = rr
   \<and> DesiredReplicas (fst (serviceComponentStatus now rr n)) = n
   \<and> (snd (serviceComponentStatus now rr n) \<longleftrightarrow> rr = n)"
  by (simp add: serviceComponentStatus_def Let_def)

lemma web_classification:
  "(State (fst (webComponentStatus now rr n)) = ComponentStateReady \<longleftrightarrow> rr = n)
   \<and> (State (fst (webComponentStatus now rr n)) = ComponentStateRunning \<longleftrightarrow> rr \<noteq> n)
   \<and> State (fst (webComponentStatus now rr n)) \<noteq> ComponentStatePending
   \<and> cs_ReadyReplicas (fst (webComponentStatus now rr n)) = rr
   \<and> DesiredReplicas (fst (webComponentStatus now rr n)) = n
   \<and> (snd (webComponentStatus now rr n) \<longleftrightarrow> rr = n)"
  by (simp add: webComponentStatus_def Let_def)

lemma setServices_simps [simp]:
  "Services (ComponentStatus (Status (setServices kubenova m))) = Some m"
  "Web (ComponentStatus (Status (setServices kubenova m))) = Web (ComponentStatus (Status kubenova))"
  "setServices (setServices kubenova m) m' = setServices kubenova m'"
  "ObjectMeta (setServices kubenova m) = ObjectMeta kubenova"
  "Spec (setServices kubenova m) = Spec kubenova"
  by (simp_all add: setServices_def)

lemma checkServices_entries:
  assumes "checkServices r ns names kubenova allReady s = (Return (kubenova', allReady'), s')"
    and "Services (ComponentStatus (Status kubenova)) = Some m"
    and "distinct names"
  shows "\<exists>evs m'.
           snd s' = snd s @ evs
           \<and> kubenova' = setServices kubenova m'
           \<and> map fst (collect deploymentRead evs) = names
           \<and> (\<forall>x. x \<notin> set names \<longrightarrow> fmlookup m' x = fmlookup m x)
           \<and> (\<forall>name err. (name, Inl err) \<in> set (collect deploymentRead evs) \<longrightarrow>
                 fmlookup m' name = fmlookup m name)
           \<and> (\<forall>name d. (name, Inr d) \<in> set (collect deploymentRead evs) \<longrightarrow>
                 (\<exists>n now. Replicas (dp_Spec d) = Some n
                    \<and> fmlookup m' name
                        = Some (fst (serviceComponentStatus now (ReadyReplicas (dp_Status d)) n))))
           \<and> (allReady' \<longleftrightarrow>
                 allReady \<and> (\<forall>name d. (name, Inr d) \<in> set (collect deploymentRead evs) \<longrightarrow> fullyReady d))"
  using assms
proof (induction names arbitrary: kubenova allReady s m)
  case Nil
  then show ?case
    by (auto simp: setServices_def intro!: exI[of _ "[]"] exI[of _ m])
next
  case (Cons name rest)
  obtain w t where s: "s = (w, t)" by (cases s)
  let ?key = "\<lparr>nn_Namespace = ns, nn_Name = name\<rparr>"
  obtain g w1 where g: "Get_Deployment r ?key w = (g, w1)"
    by (cases "Get_Deployment r ?key w")
  show ?case
  proof (cases g)
    case (Inl err)
    let ?s1 = "(w1, t @ [EvGet KindDeployment ?key (Inl err)])"
    have step: "checkServices r ns (name # rest) kubenova allReady s
                  = checkServices r ns rest kubenova allReady ?s1"
      using g Inl s by (simp add: r_Get_Deployment_def do_get_def)
    from Cons.prems step have run: "checkServices r ns rest kubenova allReady ?s1
                                      = (Return (kubenova', allReady'), s')"
      by simp
    from Cons.prems have d: "distinct rest" "name \<notin> set rest" by simp_all
    from Cons.IH[OF run Cons.prems(2) d(1)]
    obtain evs m' where ih:
      "snd s' = snd ?s1 @ evs" "kubenova' = setServices kubenova m'"
      "map fst (collect deploymentRead evs) = rest"
      "\<forall>x. x \<notin> set rest \<longrightarrow> fmlookup m' x = fmlookup m x"
      "\<forall>name err. (name, Inl err) \<in> set (collect deploymentRead evs) \<longrightarrow>
                 fmlookup m' name = fmlookup m name"
      "\<forall>name d. (name, Inr d) \<in> set (collect deploymentRead evs) \<longrightarrow>
                 (\<exists>n now. Replicas (dp_Spec d) = Some n
                    \<and> fmlookup m' name
                        = Some (fst (serviceComponentStatus now (ReadyReplicas (dp_Status d)) n)))"
      "allReady' \<longleftrightarrow>
                 allReady \<and> (\<forall>name d. (name, Inr d) \<in> set (collect deploymentRead evs) \<longrightarrow> fullyReady d)"
      by blast
    show ?thesis
    proof (intro exI[of _ "EvGet KindDeployment ?key (Inl err) # evs"] exI[of _ m'] conjI)
      show "snd s' = snd s @ EvGet KindDeployment ?key (Inl err) # evs"
        using ih(1) s by simp
      show "kubenova' = setServices kubenova m'" by (rule ih(2))
      show "map fst (collect deploymentRead (EvGet KindDeployment ?key (Inl err) # evs)) = name # rest"
        using ih(3) by simp
      show "\<forall>x. x \<notin> set (name # rest) \<longrightarrow> fmlookup m' x = fmlookup m x"
        using ih(4) by simp
      show "\<forall>n e. (n, Inl e) \<in> set (collect deploymentRead (EvGet KindDeployment ?key (Inl err) # evs))
              \<longrightarrow> fmlookup m' n = fmlookup m n"
        using ih(4,5) d(2) by auto
      show "\<forall>n d. (n, Inr d) \<in> set (collect deploymentRead (EvGet KindDeployment ?key (Inl err) # evs))
              \<longrightarrow> (\<exists>k now. Replicas (dp_Spec d) = Some k
                    \<and> fmlookup m' n
                        = Some (fst (serviceComponentStatus now (ReadyReplicas (dp_Status d)) k)))"
        using ih(6) by simp
      show "allReady' \<longleftrightarrow>
              allReady \<and> (\<forall>n d. (n, Inr d) \<in> set (collect deploymentRead
                                      (EvGet KindDeployment ?key (Inl err) # evs)) \<longrightarrow> fullyReady d)"
        using ih(7) by simp
    qed
  next
    case (Inr deployment)
    let ?s1 = "(w1, t @ [EvGet KindDeployment ?key (Inr (ObjDeployment deployment))])"
    have get: "r_Get_Deployment r ?key s = (Inr deployment, ?s1)"
      using g Inr s by (simp add: r_Get_Deployment_def do_get_def)
    obtain n where n: "Replicas (dp_Spec deployment) = Some n"
      using Cons.prems(1) get by (cases "Replicas (dp_Spec deployment)") auto
    let ?rr = "ReadyReplicas (dp_Status deployment)"
    let ?st = "fst (serviceComponentStatus (r_Now r ?s1) ?rr n)"
    let ?ready = "snd (serviceComponentStatus (r_Now r ?s1) ?rr n)"
    let ?k1 = "setServices kubenova (fmupd name ?st m)"
    have step: "checkServices r ns (name # rest) kubenova allReady s
                  = checkServices r ns rest ?k1 (if ?ready then allReady else False) ?s1"
      using get n Cons.prems(2) by (simp add: split_beta)
    from Cons.prems step have run: "checkServices r ns rest ?k1 (if ?ready then allReady else False) ?s1
                                      = (Return (kubenova', allReady'), s')"
      by simp
    from Cons.prems have d: "distinct rest" "name \<notin> set rest" by simp_all
    have m1: "Services (ComponentStatus (Status ?k1)) = Some (fmupd name ?st m)" by simp
    from Cons.IH[OF run m1 d(1)]
    obtain evs m' where ih:
      "snd s' = snd ?s1 @ evs" "kubenova' = setServices ?k1 m'"
      "map fst (collect deploymentRead evs) = rest"
      "\<forall>x. x \<notin> set rest \<longrightarrow> fmlookup m' x = fmlookup (fmupd name ?st m) x"
      "\<forall>n e. (n, Inl e) \<in> set (collect deploymentRead evs) \<longrightarrow>
                 fmlookup m' n = fmlookup (fmupd name ?st m) n"
      "\<forall>n d. (n, Inr d) \<in> set (collect deploymentRead evs) \<longrightarrow>
                 (\<exists>k now. Replicas (dp_Spec d) = Some k
                    \<and> fmlookup m' n
                        = Some (fst (serviceComponentStatus now (ReadyReplicas (dp_Status d)) k)))"
      "allReady' \<longleftrightarrow>
                 (if ?ready then allReady else False)
                 \<and> (\<forall>n d. (n, Inr d) \<in> set (collect deploymentRead evs) \<longrightarrow> fullyReady d)"
      by blast
    have inrest: "\<And>n x. (n, x) \<in> set (collect deploymentRead evs) \<Longrightarrow> n \<in> set rest"
      using ih(3) by (metis fst_conv image_eqI set_map)
    have rdy: "?ready \<longleftrightarrow> fullyReady deployment"
      using service_classification[of "r_Now r ?s1" ?rr n] n by (auto simp: fullyReady_def)
    show ?thesis
    proof (intro exI[of _ "EvGet KindDeployment ?key (Inr (ObjDeployment deployment)) # evs"]
                 exI[of _ m'] conjI)
      show "snd s' = snd s @ EvGet KindDeployment ?key (Inr (ObjDeployment deployment)) # evs"
        using ih(1) s by simp
      show "kubenova' = setServices kubenova m'" using ih(2) by simp
      show "map fst (collect deploymentRead
              (EvGet KindDeployment ?key (Inr (ObjDeployment deployment)) # evs)) = name # rest"
        using ih(3) by simp
      show "\<forall>x. x \<notin> set (name # rest) \<longrightarrow> fmlookup m' x = fmlookup m x"
        using ih(4) by simp
      show "\<forall>n e. (n, Inl e) \<in> set (collect deploymentRead
                (EvGet KindDeployment ?key (Inr (ObjDeployment deployment)) # evs))
              \<longrightarrow> fmlookup m' n = fmlookup m n"
        using ih(5) inrest d(2) by auto
      show "\<forall>n d. (n, Inr d) \<in> set (collect deploymentRead
                (EvGet KindDeployment ?key (Inr (ObjDeployment deployment)) # evs))
              \<longrightarrow> (\<exists>k now. Replicas (dp_Spec d) = Some k
                    \<and> fmlookup m' n
                        = Some (fst (serviceComponentStatus now (ReadyReplicas (dp_Status d)) k)))"
      proof (intro allI impI)
        fix x d
        assume "(x, Inr d) \<in> set (collect deploymentRead
                (EvGet KindDeployment ?key (Inr (ObjDeployment deployment)) # evs))"
        then consider "x = name" "d = deployment" | "(x, Inr d) \<in> set (collect deploymentRead evs)"
          by auto
        then show "\<exists>k now. Replicas (dp_Spec d) = Some k
                    \<and> fmlookup m' x
                        = Some (fst (serviceComponentStatus now (ReadyReplicas (dp_Status d)) k))"
        proof cases
          case 1
          have "fmlookup m' name = Some ?st" using ih(4) d(2) by simp
          with 1 n show ?thesis by blast
        next
          case 2
          then show ?thesis using ih(6) by blast
        qed
      qed
      show "allReady' \<longleftrightarrow>
              allReady \<and> (\<forall>n d. (n, Inr d) \<in> set (collect deploymentRead
                  (EvGet KindDeployment ?key (Inr (ObjDeployment deployment)) # evs)) \<longrightarrow> fullyReady d)"
        using ih(7) rdy by auto
    qed
  qed
qed

lemma web_not_backend: "''kube-nova-web'' \<notin> set backendServices"
  by (simp add: backendServices_def)

lemma distinct_backendServices: "distinct backendServices"
  by (simp add: backendServices_def)

lemma setWeb_simps [simp]:
  "Services (ComponentStatus (Status (setWeb kubenova st))) = Services (ComponentStatus (Status kubenova))"
  "Web (ComponentStatus (Status (setWeb kubenova st))) = Some st"
  "ObjectMeta (setWeb kubenova st) = ObjectMeta kubenova"
  "Spec (setWeb kubenova st) = Spec kubenova"
  by (simp_all add: setWeb_def)

lemma checkWeb_entry:
  assumes "checkWeb r ns kubenova allReady s = (Return (kubenova', allReady'), s')"
  shows "\<exists>res. snd s' = snd s @ [EvGet KindDeployment (webKey ns) (map_sum id ObjDeployment res)]
           \<and> (case res of
                 Inl err \<Rightarrow> kubenova' = kubenova \<and> allReady' = allReady
               | Inr d \<Rightarrow>
                   (\<exists>n now. Replicas (dp_Spec d) = Some n
                      \<and> kubenova' = setWeb kubenova
                                      (fst (webComponentStatus now (ReadyReplicas (dp_Status d)) n)))
                   \<and> (allReady' \<longleftrightarrow> allReady \<and> fullyReady d))"
proof -
  obtain w t where s: "s = (w, t)" by (cases s)
  obtain g w1 where g: "Get_Deployment r (webKey ns) w = (g, w1)"
    by (cases "Get_Deployment r (webKey ns) w")
  show ?thesis
  proof (cases g)
    case (Inl err)
    with assms g s show ?thesis
      by (intro exI[of _ "Inl err"])
         (auto simp: checkWeb_def r_Get_Deployment_def do_get_def webKey_def)
  next
    case (Inr d)
    obtain n where n: "Replicas (dp_Spec d) = Some n"
      using assms g s Inr
      by (cases "Replicas (dp_Spec d)")
         (auto simp: checkWeb_def r_Get_Deployment_def do_get_def webKey_def)
    have "snd (webComponentStatus now (ReadyReplicas (dp_Status d)) n) \<longleftrightarrow> fullyReady d" for now
      using web_classification[of now "ReadyReplicas (dp_Status d)" n] n
      by (auto simp: fullyReady_def)
    with assms g s Inr n show ?thesis
      by (intro exI[of _ "Inr d"])
         (auto simp: checkWeb_def r_Get_Deployment_def do_get_def webKey_def split_beta
               split: if_splits)
  qed
qed

lemma aggregate_entries:
  assumes run: "aggregateComponents r kubenova s = (Return (kubenova', allReady), s')"
  shows "\<exists>evs.
           snd s' = snd s @ evs
           \<and> map fst (collect deploymentRead evs) = backendServices @ [''kube-nova-web'']
           \<and> (allReady \<longleftrightarrow> (\<forall>name d. (name, Inr d) \<in> set (collect deploymentRead evs) \<longrightarrow> fullyReady d))
           \<and> (\<forall>name d. (name, Inr d) \<in> set (collect deploymentRead evs) \<longrightarrow>
                 (\<exists>n now. Replicas (dp_Spec d) = Some n
                    \<and> (if name = ''kube-nova-web''
                        then Web (ComponentStatus (Status kubenova'))
                               = Some (fst (webComponentStatus now (ReadyReplicas (dp_Status d)) n))
                        else fmlookup (servicesOf kubenova') name
                               = Some (fst (serviceComponentStatus now (ReadyReplicas (dp_Status d)) n)))))
           \<and> (\<forall>name err. (name, Inl err) \<in> set (collect deploymentRead evs) \<longrightarrow>
                 (if name = ''kube-nova-web''
                  then Web (ComponentStatus (Status kubenova')) = Web (ComponentStatus (Status kubenova))
                  else fmlookup (servicesOf kubenova') name = fmlookup (servicesOf kubenova) name))
           \<and> ObjectMeta kubenova' = ObjectMeta kubenova \<and> Spec kubenova' = Spec kubenova"
proof -
  let ?ns = "Namespace (ObjectMeta kubenova)"
  let ?k1 = "if Services (ComponentStatus (Status kubenova)) = None
             then setServices kubenova fmempty else kubenova"
  have m0: "Services (ComponentStatus (Status ?k1)) = Some (servicesOf kubenova)"
    by (auto simp: servicesOf_def)
  have k1: "setServices ?k1 m = setServices kubenova m" for m
    by simp
  have web1: "Web (ComponentStatus (Status ?k1)) = Web (ComponentStatus (Status kubenova))"
    by simp
  obtain k2 a1 s1 where cs: "checkServices r ?ns backendServices ?k1 True s = (Return (k2, a1), s1)"
    and cw: "checkWeb r ?ns k2 a1 s1 = (Return (kubenova', allReady), s')"
    using run
    by (auto simp: aggregateComponents_def Let_def split: prod.splits outcome.splits)
  from checkServices_entries[OF cs m0 distinct_backendServices]
  obtain evs1 m' where b:
    "snd s1 = snd s @ evs1" "k2 = setServices kubenova m'"
    "map fst (collect deploymentRead evs1) = backendServices"
    "\<forall>name err. (name, Inl err) \<in> set (collect deploymentRead evs1) \<longrightarrow>
        fmlookup m' name = fmlookup (servicesOf kubenova) name"
    "\<forall>name d. (name, Inr d) \<in> set (collect deploymentRead evs1) \<longrightarrow>
        (\<exists>n now. Replicas (dp_Spec d) = Some n
           \<and> fmlookup m' name = Some (fst (serviceComponentStatus now (ReadyReplicas (dp_Status d)) n)))"
    "a1 \<longleftrightarrow> (\<forall>name d. (name, Inr d) \<in> set (collect deploymentRead evs1) \<longrightarrow> fullyReady d)"
    unfolding k1 by auto
  have nb: "\<And>n x. (n, x) \<in> set (collect deploymentRead evs1) \<Longrightarrow> n \<noteq> ''kube-nova-web''"
    using b(3) web_not_backend by (metis fst_conv image_eqI set_map)
  from checkWeb_entry[OF cw]
  obtain res where w:
    "snd s' = snd s1 @ [EvGet KindDeployment (webKey ?ns) (map_sum id ObjDeployment res)]"
    "case res of
       Inl err \<Rightarrow> kubenova' = k2 \<and> allReady = a1
     | Inr d \<Rightarrow>
         (\<exists>n now. Replicas (dp_Spec d) = Some n
            \<and> kubenova' = setWeb k2 (fst (webComponentStatus now (ReadyReplicas (dp_Status d)) n)))
         \<and> (allReady \<longleftrightarrow> a1 \<and> fullyReady d)"
    by blast
  let ?evs = "evs1 @ [EvGet KindDeployment (webKey ?ns) (map_sum id ObjDeployment res)]"
  have rd: "collect deploymentRead ?evs = collect deploymentRead evs1 @ [(''kube-nova-web'', res)]"
    by (cases res) (simp_all add: webKey_def)
  have sv: "servicesOf kubenova' = m'"
    using w(2) b(2) by (cases res) (auto simp: servicesOf_def)
  have wb: "case res of
              Inl err \<Rightarrow> Web (ComponentStatus (Status kubenova')) = Web (ComponentStatus (Status kubenova))
            | Inr d \<Rightarrow> (\<exists>n now. Replicas (dp_Spec d) = Some n
                         \<and> Web (ComponentStatus (Status kubenova'))
                             = Some (fst (webComponentStatus now (ReadyReplicas (dp_Status d)) n)))"
    using w(2) b(2) by (cases res) auto
  have meta: "ObjectMeta kubenova' = ObjectMeta kubenova \<and> Spec kubenova' = Spec kubenova"
    using w(2) b(2) by (cases res) auto
  have ar: "allReady \<longleftrightarrow> a1 \<and> (case res of Inl err \<Rightarrow> True | Inr d \<Rightarrow> fullyReady d)"
    using w(2) by (cases res) auto
  show ?thesis
  proof (intro exI[of _ ?evs] conjI)
    show "snd s' = snd s @ ?evs" using w(1) b(1) by simp
    show "map fst (collect deploymentRead ?evs) = backendServices @ [''kube-nova-web'']"
      unfolding rd using b(3) by simp
    show "allReady \<longleftrightarrow> (\<forall>name d. (name, Inr d) \<in> set (collect deploymentRead ?evs) \<longrightarrow> fullyReady d)"
      unfolding rd ar b(6) by (cases res) auto
    show "\<forall>name d. (name, Inr d) \<in> set (collect deploymentRead ?evs) \<longrightarrow>
                 (\<exists>n now. Replicas (dp_Spec d) = Some n
                    \<and> (if name = ''kube-nova-web''
                        then Web (ComponentStatus (Status kubenova'))
                               = Some (fst (webComponentStatus now (ReadyReplicas (dp_Status d)) n))
                        else fmlookup (servicesOf kubenova') name
                               = Some (fst (serviceComponentStatus now (ReadyReplicas (dp_Status d)) n))))"
      unfolding rd sv using b(5) nb wb by (cases res) auto
    show "\<forall>name err. (name, Inl err) \<in> set (collect deploymentRead ?evs) \<longrightarrow>
                 (if name = ''kube-nova-web''
                  then Web (ComponentStatus (Status kubenova')) = Web (ComponentStatus (Status kubenova))
                  else fmlookup (servicesOf kubenova') name = fmlookup (servicesOf kubenova) name)"
      unfolding rd sv using b(4) nb wb by (cases res) auto
    show "ObjectMeta kubenova' = ObjectMeta kubenova" "Spec kubenova' = Spec kubenova"
      using meta by simp_all
  qed
qed

text \<open>
  Claim C4, as the code has it. The aggregator reads the seven backend workloads and the
  front end, in this order. A component whose document is read gets an entry with the
  ready and the desired count, whose state is \<open>Ready\<close> exactly when the two are equal;
  otherwise a backend component is \<open>Running\<close> when the ready count is positive and
  \<open>Pending\<close> when it is not, and the front end is \<open>Running\<close>, never \<open>Pending\<close>. A
  component whose document cannot be read, for whatever reason, keeps the entry it had.
\<close>

theorem component_classification:
  assumes "aggregateComponents r kubenova (w, []) = (Return (kubenova', allReady), s')"
  shows "map fst (collect deploymentRead (snd s')) = backendServices @ [''kube-nova-web'']
         \<and> (\<forall>name d. (name, Inr d) \<in> set (collect deploymentRead (snd s')) \<longrightarrow>
               (\<exists>entry n.
                  componentEntry kubenova' name = Some entry
                  \<and> Replicas (dp_Spec d) = Some n
                  \<and> cs_ReadyReplicas entry = ReadyReplicas (dp_Status d)
                  \<and> DesiredReplicas entry = n
                  \<and> (State entry = ComponentStateReady \<longleftrightarrow> ReadyReplicas (dp_Status d) = n)
                  \<and> (State entry = ComponentStateRunning \<longleftrightarrow>
                        ReadyReplicas (dp_Status d) \<noteq> n
                        \<and> (0 < ReadyReplicas (dp_Status d) \<or> name = ''kube-nova-web''))
                  \<and> (State entry = ComponentStatePending \<longleftrightarrow>
                        ReadyReplicas (dp_Status d) \<noteq> n
                        \<and> ReadyReplicas (dp_Status d) \<le> 0 \<and> name \<noteq> ''kube-nova-web'')))
         \<and> (\<forall>name err. (name, Inl err) \<in> set (collect deploymentRead (snd s')) \<longrightarrow>
               componentEntry kubenova' name = componentEntry kubenova name)"
proof -
  from aggregate_entries[OF assms]
  have names: "map fst (collect deploymentRead (snd s')) = backendServices @ [''kube-nova-web'']"
    and found: "\<And>name d. (name, Inr d) \<in> set (collect deploymentRead (snd s')) \<Longrightarrow>
                 (\<exists>n now. Replicas (dp_Spec d) = Some n
                    \<and> (if name = ''kube-nova-web''
                        then Web (ComponentStatus (Status kubenova'))
                               = Some (fst (webComponentStatus now (ReadyReplicas (dp_Status d)) n))
                        else fmlookup (servicesOf kubenova') name
                               = Some (fst (serviceComponentStatus now (ReadyReplicas (dp_Status d)) n))))"
    and skipped: "\<And>name err. (name, Inl err) \<in> set (collect deploymentRead (snd s')) \<Longrightarrow>
                 (if name = ''kube-nova-web''
                  then Web (ComponentStatus (Status kubenova')) = Web (ComponentStatus (Status kubenova))
                  else fmlookup (servicesOf kubenova') name = fmlookup (servicesOf kubenova) name)"
    by auto
  have "\<exists>entry n.
          componentEntry kubenova' name = Some entry
          \<and> Replicas (dp_Spec d) = Some n
          \<and> cs_ReadyReplicas entry = ReadyReplicas (dp_Status d)
          \<and> DesiredReplicas entry = n
          \<and> (State entry = ComponentStateReady \<longleftrightarrow> ReadyReplicas (dp_Status d) = n)
          \<and> (State entry = ComponentStateRunning \<longleftrightarrow>
                ReadyReplicas (dp_Status d) \<noteq> n
                \<and> (0 < ReadyReplicas (dp_Status d) \<or> name = ''kube-nova-web''))
          \<and> (State entry = ComponentStatePending \<longleftrightarrow>
                ReadyReplicas (dp_Status d) \<noteq> n
                \<and> ReadyReplicas (dp_Status d) \<le> 0 \<and> name \<noteq> ''kube-nova-web'')"
    if "(name, Inr d) \<in> set (collect deploymentRead (snd s'))" for name d
  proof -
    from found[OF that] obtain n now where n: "Replicas (dp_Spec d) = Some n"
      and e: "if name = ''kube-nova-web''
              then Web (ComponentStatus (Status kubenova'))
                     = Some (fst (webComponentStatus now (ReadyReplicas (dp_Status d)) n))
              else fmlookup (servicesOf kubenova') name
                     = Some (fst (serviceComponentStatus now (ReadyReplicas (dp_Status d)) n))"
      by blast
    show ?thesis
    proof (cases "name = ''kube-nova-web''")
      case True
      with e have "componentEntry kubenova' name
                     = Some (fst (webComponentStatus now (ReadyReplicas (dp_Status d)) n))"
        by (simp add: componentEntry_def)
      with n True web_classification[of now "ReadyReplicas (dp_Status d)" n] show ?thesis
        by auto
    next
      case False
      with e have "componentEntry kubenova' name
                     = Some (fst (serviceComponentStatus now (ReadyReplicas (dp_Status d)) n))"
        by (simp add: componentEntry_def)
      with n False service_classification[of now "ReadyReplicas (dp_Status d)" n] show ?thesis
        by auto
    qed
  qed
  moreover have "componentEntry kubenova' name = componentEntry kubenova name"
    if "(name, Inl err) \<in> set (collect deploymentRead (snd s'))" for name err
    using skipped[OF that] by (simp add: componentEntry_def split: if_splits)
  ultimately show ?thesis using names by blast
qed

lemma scripted_deployment_simps:
  "Get_Deployment scriptedReconciler key (ReplyObj (ObjDeployment d) # rest) = (Inr d, rest)"
  "Get_Deployment scriptedReconciler key (ReplyError err # rest) = (Inl err, rest)"
  "Now scriptedReconciler w = 1700000000"
  by (simp_all add: scriptedReconciler_def scripted_get_def)

lemma observedWorkload_simps:
  "Replicas (dp_Spec (observedWorkload name n rr)) = Some n"
  "ReadyReplicas (dp_Status (observedWorkload name n rr)) = rr"
  by (simp_all add: observedWorkload_def)

lemma mixedRun_value:
  "\<exists>kubenova' s'.
     mixedRun = (Return (kubenova', False), s')
     \<and> aggregated mixedRun = Some kubenova'
     \<and> collect deploymentRead (snd s')
         = [(''portal-api'', Inr (observedWorkload ''portal-api'' 2 2)),
            (''portal-rpc'', Inr (observedWorkload ''portal-rpc'' 2 1)),
            (''manager-api'', Inr (observedWorkload ''manager-api'' 2 0)),
            (''manager-rpc'', Inl notFound),
            (''workload-api'', Inl serverTimeout),
            (''console-api'', Inr (observedWorkload ''console-api'' 2 2)),
            (''console-rpc'', Inr (observedWorkload ''console-rpc'' 2 2)),
            (''kube-nova-web'', Inr (observedWorkload ''kube-nova-web'' 3 3))]"
  by (simp add: mixedRun_def aggregated_def aggregateComponents_def backendServices_def
                checkWeb_def r_Get_Deployment_def do_get_def r_Now_def mixedFleet_def
                scripted_deployment_simps observedWorkload_simps
                serviceComponentStatus_def webComponentStatus_def Let_def
                sampleKubeNova_def Status_zero_def)

text \<open>
  The theorem at a fleet in which \<^verbatim>\<open>portal-rpc\<close> has one of two replicas ready,
  \<^verbatim>\<open>manager-api\<close> none, \<^verbatim>\<open>manager-rpc\<close> is absent and the read of \<^verbatim>\<open>workload-api\<close>
  times out.
\<close>

theorem component_classification_witness:
  "aggregateComponents scriptedReconciler sampleKubeNova (mixedFleet, [])
     = (Return (mixedRoot, False), snd mixedRun)
   \<and> collect deploymentRead (snd (snd mixedRun))
       = [(''portal-api'', Inr (observedWorkload ''portal-api'' 2 2)),
          (''portal-rpc'', Inr (observedWorkload ''portal-rpc'' 2 1)),
          (''manager-api'', Inr (observedWorkload ''manager-api'' 2 0)),
          (''manager-rpc'', Inl notFound),
          (''workload-api'', Inl serverTimeout),
          (''console-api'', Inr (observedWorkload ''console-api'' 2 2)),
          (''console-rpc'', Inr (observedWorkload ''console-rpc'' 2 2)),
          (''kube-nova-web'', Inr (observedWorkload ''kube-nova-web'' 3 3))]
   \<and> map_option State (componentEntry mixedRoot ''portal-api'') = Some ComponentStateReady
   \<and> map_option State (componentEntry mixedRoot ''portal-rpc'') = Some ComponentStateRunning
   \<and> map_option State (componentEntry mixedRoot ''manager-api'') = Some ComponentStatePending
   \<and> map_option State (componentEntry mixedRoot ''kube-nova-web'') = Some ComponentStateReady
   \<and> componentEntry mixedRoot ''manager-rpc'' = componentEntry sampleKubeNova ''manager-rpc''
   \<and> componentEntry mixedRoot ''workload-api'' = componentEntry sampleKubeNova ''workload-api''"
proof -
  from mixedRun_value obtain kubenova' s' where
    run: "mixedRun = (Return (kubenova', False), s')"
    and agg: "aggregated mixedRun = Some kubenova'"
    and reads: "collect deploymentRead (snd s')
         = [(''portal-api'', Inr (observedWorkload ''portal-api'' 2 2)),
            (''portal-rpc'', Inr (observedWorkload ''portal-rpc'' 2 1)),
            (''manager-api'', Inr (observedWorkload ''manager-api'' 2 0)),
            (''manager-rpc'', Inl notFound),
            (''workload-api'', Inl serverTimeout),
            (''console-api'', Inr (observedWorkload ''console-api'' 2 2)),
            (''console-rpc'', Inr (observedWorkload ''console-rpc'' 2 2)),
            (''kube-nova-web'', Inr (observedWorkload ''kube-nova-web'' 3 3))]"
    by blast
  have root: "mixedRoot = kubenova'"
    by (simp add: mixedRoot_def agg)
  have run': "aggregateComponents scriptedReconciler sampleKubeNova (mixedFleet, [])
                = (Return (kubenova', False), s')"
    using run by (simp add: mixedRun_def)
  note c = component_classification[OF run']
  from c have found: "\<And>name d. (name, Inr d) \<in> set (collect deploymentRead (snd s')) \<Longrightarrow>
               (\<exists>entry n.
                  componentEntry kubenova' name = Some entry
                  \<and> Replicas (dp_Spec d) = Some n
                  \<and> (State entry = ComponentStateReady \<longleftrightarrow> ReadyReplicas (dp_Status d) = n)
                  \<and> (State entry = ComponentStateRunning \<longleftrightarrow>
                        ReadyReplicas (dp_Status d) \<noteq> n
                        \<and> (0 < ReadyReplicas (dp_Status d) \<or> name = ''kube-nova-web''))
                  \<and> (State entry = ComponentStatePending \<longleftrightarrow>
                        ReadyReplicas (dp_Status d) \<noteq> n
                        \<and> ReadyReplicas (dp_Status d) \<le> 0 \<and> name \<noteq> ''kube-nova-web''))"
    by blast
  from c have skipped: "\<And>name err. (name, Inl err) \<in> set (collect deploymentRead (snd s')) \<Longrightarrow>
               componentEntry kubenova' name = componentEntry sampleKubeNova name"
    by blast
  have p1: "map_option State (componentEntry kubenova' ''portal-api'') = Some ComponentStateReady"
    using found[of "''portal-api''" "observedWorkload ''portal-api'' 2 2"]
    by (auto simp: reads observedWorkload_simps)
  have p2: "map_option State (componentEntry kubenova' ''portal-rpc'') = Some ComponentStateRunning"
    using found[of "''portal-rpc''" "observedWorkload ''portal-rpc'' 2 1"]
    by (auto simp: reads observedWorkload_simps)
  have p3: "map_option State (componentEntry kubenova' ''manager-api'') = Some ComponentStatePending"
    using found[of "''manager-api''" "observedWorkload ''manager-api'' 2 0"]
    by (auto simp: reads observedWorkload_simps)
  have p4: "map_option State (componentEntry kubenova' ''kube-nova-web'') = Some ComponentStateReady"
    using found[of "''kube-nova-web''" "observedWorkload ''kube-nova-web'' 3 3"]
    by (auto simp: reads observedWorkload_simps)
  have p5: "componentEntry kubenova' ''manager-rpc'' = componentEntry sampleKubeNova ''manager-rpc''"
    using skipped[of "''manager-rpc''" notFound] by (simp add: reads)
  have p6: "componentEntry kubenova' ''workload-api'' = componentEntry sampleKubeNova ''workload-api''"
    using skipped[of "''workload-api''" serverTimeout] by (simp add: reads)
  have q1: "aggregateComponents scriptedReconciler sampleKubeNova (mixedFleet, [])
              = (Return (mixedRoot, False), snd mixedRun)"
    using run' by (simp add: root run)
  have q2: "snd (snd mixedRun) = snd s'"
    by (simp add: run)
  show ?thesis
    unfolding q2 root using q1 reads p1 p2 p3 p4 p5 p6 by (simp add: root)
qed

text \<open>
  Claim C4 as stated fails for the front end: with none of its three replicas ready its
  state is \<open>Running\<close>, not \<open>Pending\<close>. For a backend component with no replica desired
  and none ready the state is \<open>Ready\<close>, and with more replicas ready than desired it is
  \<open>Running\<close>.
\<close>

theorem web_without_ready_replicas_is_running:
  "Replicas (dp_Spec (observedWorkload ''kube-nova-web'' 3 0)) = Some 3
   \<and> ReadyReplicas (dp_Status (observedWorkload ''kube-nova-web'' 3 0)) = 0
   \<and> map_option (\<lambda>kubenova. map_option State (componentEntry kubenova ''kube-nova-web''))
       (aggregated (checkWeb scriptedReconciler ''nova'' sampleKubeNova True (idleWeb, [])))
       = Some (Some ComponentStateRunning)
   \<and> State (fst (serviceComponentStatus 1700000000 0 0)) = ComponentStateReady
   \<and> State (fst (serviceComponentStatus 1700000000 3 2)) = ComponentStateRunning"
  by (simp add: aggregated_def checkWeb_def r_Get_Deployment_def do_get_def r_Now_def idleWeb_def
                scripted_deployment_simps observedWorkload_simps componentEntry_def
                serviceComponentStatus_def webComponentStatus_def Let_def)

lemma writerAttempts_reads:
  "writerAttempts kubenova evs = Some n \<Longrightarrow> collect deploymentRead evs = []"
  by (induction kubenova evs arbitrary: n rule: writerAttempts.induct)
     (auto split: if_splits list.splits event.splits)

lemma writerAttempts_sent:
  "writerAttempts kubenova evs = Some n \<Longrightarrow>
     list_all (\<lambda>sent. Status sent = Status kubenova) (collect statusWrites evs)"
  by (induction kubenova evs arbitrary: n rule: writerAttempts.induct)
     (auto split: if_splits list.splits event.splits)

lemma writerAttempts_writes:
  "writerAttempts kubenova evs = Some n \<Longrightarrow>
     (\<forall>sent \<in> set (collect statusWrites evs). Status sent = Status kubenova)
     \<and> collect deploymentRead evs = []"
  using writerAttempts_reads[of kubenova evs n] writerAttempts_sent[of kubenova evs n]
  by (simp add: list_all_iff)

lemma writer_loop_success:
  "updateStatusWithRetry_loop r i kubenova s = ((None, kubenova'), s') \<Longrightarrow>
     \<exists>evs fetched latest'.
       snd s' = snd s @ evs @ [EvStatusUpdate (fetched\<lparr>Status := Status kubenova\<rparr>) (Inr latest')]
       \<and> kubenova' = kubenova\<lparr>Status := Status latest',
                                ObjectMeta := (ObjectMeta kubenova)
                                  \<lparr>ResourceVersion := ResourceVersion (ObjectMeta latest')\<rparr>\<rparr>"
proof (induction r i kubenova s rule: updateStatusWithRetry_loop.induct)
  case (1 r i kubenova s)
  obtain w t where s: "s = (w, t)" by (cases s)
  show ?case
  proof (cases "i < 3")
    case False
    with "1.prems" show ?thesis
      by (subst (asm) updateStatusWithRetry_loop.simps) simp
  next
    case True
    obtain g s1 where g: "r_Get_KubeNova r (rootKey kubenova) s = (g, s1)"
      by (cases "r_Get_KubeNova r (rootKey kubenova) s")
    have t1: "\<exists>e. snd s1 = snd s @ [e]"
      using g by (auto simp: r_Get_KubeNova_def do_get_def split: prod.splits)
    show ?thesis
    proof (cases g)
      case (Inl err)
      with "1.prems" True g show ?thesis
        by (subst (asm) updateStatusWithRetry_loop.simps) (simp add: rootKey_def)
    next
      case (Inr fetched)
      obtain u s2 where u: "r_Status_Update r (fetched\<lparr>Status := Status kubenova\<rparr>) s1 = (u, s2)"
        by (cases "r_Status_Update r (fetched\<lparr>Status := Status kubenova\<rparr>) s1")
      have t2: "snd s2 = snd s1 @ [EvStatusUpdate (fetched\<lparr>Status := Status kubenova\<rparr>) u]"
        using u by (auto simp: r_Status_Update_def split: prod.splits)
      show ?thesis
      proof (cases u)
        case (Inr latest')
        from "1.prems" True g \<open>g = Inr fetched\<close> u Inr
        have "kubenova' = kubenova\<lparr>Status := Status latest',
                                ObjectMeta := (ObjectMeta kubenova)
                                  \<lparr>ResourceVersion := ResourceVersion (ObjectMeta latest')\<rparr>\<rparr>"
          and "s' = s2"
          by (subst (asm) updateStatusWithRetry_loop.simps, simp add: rootKey_def Let_def)+
        with t1 t2 Inr show ?thesis by auto
      next
        case (Inl err)
        show ?thesis
        proof (cases "IsConflict err \<and> i < 2")
          case False
          with "1.prems" True g \<open>g = Inr fetched\<close> u Inl show ?thesis
            by (subst (asm) updateStatusWithRetry_loop.simps) (auto simp: rootKey_def Let_def)
        next
          case retry: True
          let ?s3 = "r_Sleep r (100 * (i + 1)) s2"
          have rec: "updateStatusWithRetry_loop r (i + 1) kubenova ?s3 = ((None, kubenova'), s')"
            using "1.prems" True g \<open>g = Inr fetched\<close> u Inl retry
            by (subst (asm) updateStatusWithRetry_loop.simps) (simp add: rootKey_def Let_def)
          have g': "(Inr fetched, s1)
                      = r_Get_KubeNova r
                          \<lparr>nn_Namespace = Namespace (ObjectMeta kubenova),
                           nn_Name = Name (ObjectMeta kubenova)\<rparr> s"
            using g \<open>g = Inr fetched\<close> by (simp add: rootKey_def)
          have u': "(Inl err, s2) = r_Status_Update r (fetched\<lparr>Status := Status kubenova\<rparr>) s1"
            using u Inl by simp
          from "1.IH"[OF True g' refl refl u' refl retry rec]
          obtain evs f l where
            "snd s' = snd ?s3 @ evs @ [EvStatusUpdate (f\<lparr>Status := Status kubenova\<rparr>) (Inr l)]"
            and k: "kubenova' = kubenova\<lparr>Status := Status l,
                                ObjectMeta := (ObjectMeta kubenova)
                                  \<lparr>ResourceVersion := ResourceVersion (ObjectMeta l)\<rparr>\<rparr>"
            by blast
          moreover have "\<exists>pre. snd ?s3 = snd s @ pre"
            using t1 t2 by (auto simp: r_Sleep_def)
          ultimately show ?thesis by auto
        qed
      qed
    qed
  qed
qed

lemma find_updateFirstCondition:
  "list_ex (\<lambda>c. cond_Type c = cond_Type new) conds \<Longrightarrow>
     \<exists>c. find (\<lambda>c. cond_Type c = cond_Type new) (updateFirstCondition now new conds) = Some c
        \<and> cond_Status c = cond_Status new"
  by (induction conds) (auto simp: mergeCondition_def Let_def)

lemma find_append_new:
  "\<not> list_ex P xs \<Longrightarrow> P x \<Longrightarrow> find P (xs @ [x]) = Some x"
  by (induction xs) auto

lemma find_SetStatusCondition:
  "\<exists>c. find (\<lambda>c. cond_Type c = cond_Type new) (SetStatusCondition now conds new) = Some c
      \<and> cond_Status c = cond_Status new"
proof (cases "list_ex (\<lambda>c. cond_Type c = cond_Type new) conds")
  case True
  then show ?thesis
    using find_updateFirstCondition[OF True, of now] by (simp add: SetStatusCondition_def)
next
  case False
  then show ?thesis
    by (auto simp: SetStatusCondition_def find_append_new)
qed

lemma setOverallStatus_simps:
  "Phase (Status (setOverallStatus now kubenova allReady))
     = (if allReady then PhaseReady else PhaseCreating)"
  "conditionStatus ConditionTypeReady (setOverallStatus now kubenova allReady)
     = Some (if allReady then ConditionTrue else ConditionFalse)"
  "ComponentStatus (Status (setOverallStatus now kubenova allReady))
     = ComponentStatus (Status kubenova)"
  "ObservedGeneration (Status (setOverallStatus now kubenova allReady))
     = Generation (ObjectMeta kubenova)"
  "ObjectMeta (setOverallStatus now kubenova allReady) = ObjectMeta kubenova"
proof -
  show "Phase (Status (setOverallStatus now kubenova allReady))
     = (if allReady then PhaseReady else PhaseCreating)"
    by (simp add: setOverallStatus_def setCondition_def setStatusPhase_def)
  show "conditionStatus ConditionTypeReady (setOverallStatus now kubenova allReady)
     = Some (if allReady then ConditionTrue else ConditionFalse)"
  proof (cases allReady)
    case True
    let ?new = "\<lparr>cond_Type = ConditionTypeReady, cond_Status = ConditionTrue,
           cond_ObservedGeneration = Generation (ObjectMeta kubenova),
           cond_LastTransitionTime = 0, cond_Reason = ''AllComponentsReady'',
           cond_Message = zh_all_components_ok\<rparr>"
    from find_SetStatusCondition[of ?new now "Conditions (Status kubenova)"] True
    show ?thesis
      by (auto simp: conditionStatus_def setOverallStatus_def setCondition_def setStatusPhase_def)
  next
    case False
    let ?new = "\<lparr>cond_Type = ConditionTypeReady, cond_Status = ConditionFalse,
           cond_ObservedGeneration = Generation (ObjectMeta kubenova),
           cond_LastTransitionTime = 0, cond_Reason = ''ComponentsNotReady'',
           cond_Message = zh_components_not_ready\<rparr>"
    from find_SetStatusCondition[of ?new now "Conditions (Status kubenova)"] False
    show ?thesis
      by (auto simp: conditionStatus_def setOverallStatus_def setCondition_def setStatusPhase_def)
  qed
  show "ComponentStatus (Status (setOverallStatus now kubenova allReady))
     = ComponentStatus (Status kubenova)"
    by (simp add: setOverallStatus_def setCondition_def setStatusPhase_def)
  show "ObservedGeneration (Status (setOverallStatus now kubenova allReady))
     = Generation (ObjectMeta kubenova)"
    by (simp add: setOverallStatus_def setCondition_def setStatusPhase_def)
  show "ObjectMeta (setOverallStatus now kubenova allReady) = ObjectMeta kubenova"
    by (simp add: setOverallStatus_def setCondition_def setStatusPhase_def)
qed

lemma getNodeIP_trace:
  "\<exists>res. snd (snd (getNodeIP r s)) = snd s @ [EvListNodes res]"
  by (auto simp: getNodeIP_def r_List_Nodes_def split: prod.splits sum.splits option.splits)

lemma updateWebURL_trace:
  "\<exists>evs. snd (snd (updateWebURL r kubenova ns a s)) = snd s @ evs
         \<and> collect deploymentRead evs = [] \<and> collect statusWrites evs = []"
proof -
  let ?key = "\<lparr>nn_Namespace = ns, nn_Name = ''kube-nova-web''\<rparr>"
  obtain g s1 where g: "r_Get_Service r ?key s = (g, s1)"
    by (cases "r_Get_Service r ?key s")
  then obtain res where s1: "snd s1 = snd s @ [EvGet KindService ?key res]"
    by (auto simp: r_Get_Service_def do_get_def split: prod.splits)
  from getNodeIP_trace[of r s1] obtain res' where
    s2: "snd (snd (getNodeIP r s1)) = snd s1 @ [EvListNodes res']"
    by blast
  have refl_case: "\<exists>evs. snd s = snd s @ evs
         \<and> collect deploymentRead evs = [] \<and> collect statusWrites evs = []"
    by (rule exI[of _ "[]"]) simp
  have one: "\<exists>evs. snd s1 = snd s @ evs
         \<and> collect deploymentRead evs = [] \<and> collect statusWrites evs = []"
    by (rule exI[of _ "[EvGet KindService ?key res]"]) (simp add: s1)
  have two: "\<exists>evs. snd (snd (getNodeIP r s1)) = snd s @ evs
         \<and> collect deploymentRead evs = [] \<and> collect statusWrites evs = []"
    by (rule exI[of _ "[EvGet KindService ?key res, EvListNodes res']"]) (simp add: s1 s2)
  show ?thesis
  proof (cases "if ExposeType (Web_cfg (Spec kubenova)) = ''ingress''
                then web_Ingress (Web_cfg (Spec kubenova)) else None")
    case (Some ingress)
    then show ?thesis
      using refl_case by (simp add: updateWebURL_def Let_def)
  next
    case None
    show ?thesis
    proof (cases "ExposeType (Web_cfg (Spec kubenova)) = ''nodeport''")
      case False
      with None show ?thesis
        using refl_case by (simp add: updateWebURL_def Let_def)
    next
      case True
      show ?thesis
      proof (cases g)
        case (Inl err)
        with None True g show ?thesis
          using one by (simp add: updateWebURL_def Let_def)
      next
        case (Inr webSvc)
        with None True g show ?thesis
          using two by (simp add: updateWebURL_def Let_def split_beta)
      qed
    qed
  qed
qed

lemma updateAccessInfo_frame:
  "\<exists>evs. snd (snd (updateAccessInfo r kubenova ns s)) = snd s @ evs
         \<and> collect deploymentRead evs = [] \<and> collect statusWrites evs = []"
  "ComponentStatus (Status (fst (updateAccessInfo r kubenova ns s))) = ComponentStatus (Status kubenova)"
  "ObjectMeta (fst (updateAccessInfo r kubenova ns s)) = ObjectMeta kubenova"
  "Phase (Status (fst (updateAccessInfo r kubenova ns s))) = Phase (Status kubenova)"
  "Conditions (Status (fst (updateAccessInfo r kubenova ns s))) = Conditions (Status kubenova)"
proof -
  let ?a0 = "case AccessInfo (Status kubenova) of None \<Rightarrow> AccessInfo_zero | Some a \<Rightarrow> a"
  show "\<exists>evs. snd (snd (updateAccessInfo r kubenova ns s)) = snd s @ evs
         \<and> collect deploymentRead evs = [] \<and> collect statusWrites evs = []"
    using updateWebURL_trace[of r kubenova ns ?a0 s]
    by (simp add: updateAccessInfo_def Let_def split_beta)
qed (simp_all add: updateAccessInfo_def Let_def split_beta)

lemma get_deployment_writes:
  "r_Get_Deployment r key s = (g, s1) \<Longrightarrow>
     collect statusWrites (snd s1) = collect statusWrites (snd s)"
  by (auto simp: r_Get_Deployment_def do_get_def split: prod.splits)

lemma checkServices_writes:
  "collect statusWrites (snd (snd (checkServices r ns names kubenova allReady s)))
     = collect statusWrites (snd s)"
proof (induction names arbitrary: kubenova allReady s)
  case Nil
  show ?case by simp
next
  case (Cons name rest)
  obtain g s1 where g: "r_Get_Deployment r \<lparr>nn_Namespace = ns, nn_Name = name\<rparr> s = (g, s1)"
    by (cases "r_Get_Deployment r \<lparr>nn_Namespace = ns, nn_Name = name\<rparr> s")
  note w = get_deployment_writes[OF g]
  show ?case
    using g w Cons.IH
    by (cases g) (simp_all split: option.splits prod.splits)
qed

lemma checkWeb_writes:
  "collect statusWrites (snd (snd (checkWeb r ns kubenova allReady s)))
     = collect statusWrites (snd s)"
proof -
  obtain g s1 where g: "r_Get_Deployment r \<lparr>nn_Namespace = ns, nn_Name = ''kube-nova-web''\<rparr> s = (g, s1)"
    by (cases "r_Get_Deployment r \<lparr>nn_Namespace = ns, nn_Name = ''kube-nova-web''\<rparr> s")
  note w = get_deployment_writes[OF g]
  show ?thesis
    using g w by (cases g) (simp_all add: checkWeb_def split: option.splits prod.splits)
qed

lemma aggregate_writes:
  "collect statusWrites (snd (snd (aggregateComponents r kubenova s)))
     = collect statusWrites (snd s)"
proof -
  let ?ns = "Namespace (ObjectMeta kubenova)"
  let ?k1 = "if Services (ComponentStatus (Status kubenova)) = None
             then setServices kubenova fmempty else kubenova"
  obtain o1 s1 where c: "checkServices r ?ns backendServices ?k1 True s = (o1, s1)"
    by (cases "checkServices r ?ns backendServices ?k1 True s")
  have w1: "collect statusWrites (snd s1) = collect statusWrites (snd s)"
    using checkServices_writes[of r ?ns backendServices ?k1 True s] c by simp
  show ?thesis
  proof (cases o1)
    case Panic
    with c w1 show ?thesis by (simp add: aggregateComponents_def Let_def)
  next
    case (Return x)
    obtain k2 a1 where x: "x = (k2, a1)" by (cases x)
    with Return c w1 checkWeb_writes[of r ?ns k2 a1 s1] show ?thesis
      by (simp add: aggregateComponents_def Let_def)
  qed
qed

lemma componentEntry_cong:
  "ComponentStatus (Status a) = ComponentStatus (Status b) \<Longrightarrow>
     componentEntry a name = componentEntry b name"
  by (simp add: componentEntry_def servicesOf_def)

lemma conditionStatus_cong:
  "Conditions (Status a) = Conditions (Status b) \<Longrightarrow> conditionStatus t a = conditionStatus t b"
  by (simp add: conditionStatus_def)

lemma found_entry_ready:
  assumes "aggregateComponents r kubenova (w, []) = (Return (kubenova', allReady), s')"
    and "(name, Inr d) \<in> set (collect deploymentRead (snd s'))"
  shows "map_option State (componentEntry kubenova' name) = Some ComponentStateReady
           \<longleftrightarrow> fullyReady d"
proof -
  from aggregate_entries[OF assms(1)]
  have "\<forall>name d. (name, Inr d) \<in> set (collect deploymentRead (snd s')) \<longrightarrow>
                 (\<exists>n now. Replicas (dp_Spec d) = Some n
                    \<and> (if name = ''kube-nova-web''
                        then Web (ComponentStatus (Status kubenova'))
                               = Some (fst (webComponentStatus now (ReadyReplicas (dp_Status d)) n))
                        else fmlookup (servicesOf kubenova') name
                               = Some (fst (serviceComponentStatus now (ReadyReplicas (dp_Status d)) n))))"
    by simp
  with assms(2)
  obtain n now where n: "Replicas (dp_Spec d) = Some n"
    and e: "if name = ''kube-nova-web''
            then Web (ComponentStatus (Status kubenova'))
                   = Some (fst (webComponentStatus now (ReadyReplicas (dp_Status d)) n))
            else fmlookup (servicesOf kubenova') name
                   = Some (fst (serviceComponentStatus now (ReadyReplicas (dp_Status d)) n))"
    by blast
  show ?thesis
  proof (cases "name = ''kube-nova-web''")
    case True
    with e n web_classification[of now "ReadyReplicas (dp_Status d)" n] show ?thesis
      by (auto simp: componentEntry_def fullyReady_def)
  next
    case False
    with e n service_classification[of now "ReadyReplicas (dp_Status d)" n] show ?thesis
      by (auto simp: componentEntry_def fullyReady_def)
  qed
qed

text \<open>
  What the stage sends. In every status document it sends the phase is \<open>Ready\<close> or
  \<open>Creating\<close>, and it is \<open>Ready\<close> exactly when every workload that was read in this pass
  has all its replicas ready; a component whose workload could not be read is not looked
  at, whatever its entry in the status says.
\<close>

lemma sent_phase_follows_read_workloads:
  assumes "checkComponentStatus r kubenova (w, []) = (Return (err, kubenova'), s')"
  shows "map fst (collect deploymentRead (snd s')) = backendServices @ [''kube-nova-web'']
         \<and> (\<forall>sent \<in> set (collect statusWrites (snd s')).
               (Phase (Status sent) = PhaseReady \<or> Phase (Status sent) = PhaseCreating)
               \<and> (Phase (Status sent) = PhaseReady \<longleftrightarrow>
                    (\<forall>name d. (name, Inr d) \<in> set (collect deploymentRead (snd s')) \<longrightarrow>
                        fullyReady d))
               \<and> (Phase (Status sent) = PhaseReady \<longleftrightarrow>
                    (\<forall>name d. (name, Inr d) \<in> set (collect deploymentRead (snd s')) \<longrightarrow>
                        map_option State (componentEntry sent name) = Some ComponentStateReady))
               \<and> conditionStatus ConditionTypeReady sent
                   = Some (if Phase (Status sent) = PhaseReady then ConditionTrue
                           else ConditionFalse))
         \<and> (err = None \<longrightarrow> collect statusWrites (snd s') \<noteq> [])"
proof -
  let ?ns = "Namespace (ObjectMeta kubenova)"
  obtain k3 allReady s2 where
    agg: "aggregateComponents r kubenova (w, []) = (Return (k3, allReady), s2)"
    using assms
    by (auto simp: checkComponentStatus_def split: prod.splits outcome.splits)
  obtain k4 s3 where acc: "updateAccessInfo r k3 ?ns s2 = (k4, s3)"
    by (cases "updateAccessInfo r k3 ?ns s2")
  let ?k5 = "setOverallStatus (r_Now r s3) k4 allReady"
  have wr: "updateStatusWithRetry r ?k5 s3 = ((err, kubenova'), s')"
    using assms agg acc by (auto simp: checkComponentStatus_def split: prod.splits)
  from aggregate_entries[OF agg]
  have names: "map fst (collect deploymentRead (snd s2)) = backendServices @ [''kube-nova-web'']"
    and ready: "allReady \<longleftrightarrow>
                  (\<forall>name d. (name, Inr d) \<in> set (collect deploymentRead (snd s2)) \<longrightarrow> fullyReady d)"
    by auto
  have w2: "collect statusWrites (snd s2) = []"
    using aggregate_writes[of r kubenova "(w, [])"] agg by simp
  from updateAccessInfo_frame(1)[of r k3 ?ns s2] acc
  obtain evs2 where s3: "snd s3 = snd s2 @ evs2"
    and q2: "collect deploymentRead evs2 = []" "collect statusWrites evs2 = []"
    by auto
  have k4: "ComponentStatus (Status k4) = ComponentStatus (Status k3)"
    using updateAccessInfo_frame(2)[of r k3 ?ns s2] acc by simp
  from writer_trace[of r ?k5 s3] wr
  obtain evs3 n where s': "snd s' = snd s3 @ evs3" and wa: "writerAttempts ?k5 evs3 = Some n"
    by auto
  from writerAttempts_writes[OF wa]
  have sent: "\<And>x. x \<in> set (collect statusWrites evs3) \<Longrightarrow> Status x = Status ?k5"
    and q3: "collect deploymentRead evs3 = []"
    by auto
  have reads: "collect deploymentRead (snd s') = collect deploymentRead (snd s2)"
    by (simp add: s' s3 q2 q3)
  have writes: "collect statusWrites (snd s') = collect statusWrites evs3"
    by (simp add: s' s3 q2 w2)
  have entry: "(\<forall>name d. (name, Inr d) \<in> set (collect deploymentRead (snd s2)) \<longrightarrow>
                   map_option State (componentEntry x name) = Some ComponentStateReady)
               \<longleftrightarrow> allReady"
    if "Status x = Status ?k5" for x
  proof -
    have "componentEntry x name = componentEntry k3 name" for name
      by (rule componentEntry_cong) (simp add: that setOverallStatus_simps k4)
    then show ?thesis
      using found_entry_ready[OF agg] ready by auto
  qed
  have cond: "conditionStatus ConditionTypeReady x
                = Some (if allReady then ConditionTrue else ConditionFalse)"
    if "Status x = Status ?k5" for x
    using conditionStatus_cong[of x ?k5 ConditionTypeReady] that
    by (simp add: setOverallStatus_simps)
  have phase: "Phase (Status x) = (if allReady then PhaseReady else PhaseCreating)"
    if "Status x = Status ?k5" for x
    using that by (simp add: setOverallStatus_simps)
  have some: "collect statusWrites evs3 \<noteq> []" if "err = None"
  proof -
    from wr that have "updateStatusWithRetry_loop r 0 ?k5 s3 = ((None, kubenova'), s')"
      by (simp add: updateStatusWithRetry_def)
    from writer_loop_success[OF this] s' show ?thesis by auto
  qed
  have each:
    "(Phase (Status x) = PhaseReady \<or> Phase (Status x) = PhaseCreating)
     \<and> (Phase (Status x) = PhaseReady \<longleftrightarrow>
          (\<forall>name d. (name, Inr d) \<in> set (collect deploymentRead (snd s2)) \<longrightarrow> fullyReady d))
     \<and> (Phase (Status x) = PhaseReady \<longleftrightarrow>
          (\<forall>name d. (name, Inr d) \<in> set (collect deploymentRead (snd s2)) \<longrightarrow>
              map_option State (componentEntry x name) = Some ComponentStateReady))
     \<and> conditionStatus ConditionTypeReady x
         = Some (if Phase (Status x) = PhaseReady then ConditionTrue else ConditionFalse)"
    if "x \<in> set (collect statusWrites evs3)" for x
  proof -
    note st = sent[OF that]
    note ph = phase[OF st] and en = entry[OF st] and co = cond[OF st]
    show ?thesis
    proof (cases allReady)
      case True
      with ph en co ready show ?thesis by simp
    next
      case False
      with ph en co ready show ?thesis by simp
    qed
  qed
  show ?thesis
    unfolding reads writes using names each some by blast
qed

lemma scripted_more_simps:
  "Get_Service scriptedReconciler key (ReplyError err # rest) = (Inl err, rest)"
  "Get_Service scriptedReconciler key (ReplyObj (ObjService svc) # rest) = (Inr svc, rest)"
  by (simp_all add: scriptedReconciler_def scripted_get_def)

section \<open>The access information in node-port mode\<close>

lemma containsStr_mid: "containsStr (pre @ substr @ post) substr"
  unfolding containsStr_def list_ex_iff
  by (rule bexI[of _ "length pre"]) simp_all

lemma firstAddress_none:
  "list_all (\<lambda>addr. \<not> wanted (na_Type addr)) addrs \<Longrightarrow> firstAddress wanted addrs = None"
  by (induction addrs) simp_all

lemma getNodeIP_loop_none:
  "list_all (\<lambda>node. list_all (\<lambda>addr. na_Type addr \<noteq> NodeExternalIP
                                    \<and> na_Type addr \<noteq> NodeInternalIP)
                       (node_Addresses (node_Status node))) items
   \<Longrightarrow> getNodeIP_loop items = None"
proof (induction items)
  case Nil
  show ?case by simp
next
  case (Cons node rest)
  from Cons.prems have a: "list_all (\<lambda>addr. na_Type addr \<noteq> NodeExternalIP
                                    \<and> na_Type addr \<noteq> NodeInternalIP)
                       (node_Addresses (node_Status node))"
    by simp
  have e: "firstAddress (\<lambda>t. t = NodeExternalIP) (node_Addresses (node_Status node)) = None"
    by (rule firstAddress_none) (use a in \<open>simp add: list_all_iff\<close>)
  have i: "firstAddress (\<lambda>t. t = NodeInternalIP) (node_Addresses (node_Status node)) = None"
    by (rule firstAddress_none) (use a in \<open>simp add: list_all_iff\<close>)
  from Cons e i show ?case by simp
qed

lemma getNodeIP_empty:
  assumes "noUsableAddress (fst (List_Nodes r (fst s)))"
  shows "fst (getNodeIP r s) = []"
proof (cases "fst (List_Nodes r (fst s))")
  case (Inl err)
  then show ?thesis
    by (simp add: getNodeIP_def r_List_Nodes_def split_beta)
next
  case (Inr items)
  with assms have all: "list_all (\<lambda>node. list_all (\<lambda>addr. na_Type addr \<noteq> NodeExternalIP
                                    \<and> na_Type addr \<noteq> NodeInternalIP)
                       (node_Addresses (node_Status node))) items"
    by (simp add: noUsableAddress_def)
  note l = getNodeIP_loop_none[OF all]
  show ?thesis
  proof (cases items)
    case Nil
    with Inr show ?thesis
      by (simp add: getNodeIP_def r_List_Nodes_def split_beta)
  next
    case (Cons node rest)
    with all have "list_all (\<lambda>addr. \<not> (na_Type addr = NodeExternalIP \<or> na_Type addr = NodeInternalIP))
                     (node_Addresses (node_Status node))"
      by (simp add: list_all_iff)
    from firstAddress_none[of "\<lambda>t. t = NodeExternalIP \<or> t = NodeInternalIP", OF this]
    show ?thesis
      using Inr Cons l by (simp add: getNodeIP_def r_List_Nodes_def split_beta)
  qed
qed

lemma nodePorts_nonneg_shape:
  "nodePortURL [] httpPort httpsPort = zh_nodeport_pending
   \<or> (\<exists>port>0. nodePortURL [] httpPort httpsPort = ''https://<NODE-IP>:'' @ itoa port)
   \<or> (\<exists>port>0. nodePortURL [] httpPort httpsPort = ''http://<NODE-IP>:'' @ itoa port)"
  by (auto simp: nodePortURL_def)

lemma marker_in_placeholders:
  "containsStr zh_service_creating ''...''"
  "containsStr zh_nodeport_pending ''...''"
  "containsStr (''https://<NODE-IP>:'' @ x) ''<NODE-IP>''"
  "containsStr (''http://<NODE-IP>:'' @ x) ''<NODE-IP>''"
proof -
  show "containsStr zh_service_creating ''...''"
    unfolding zh_service_creating_def
    using containsStr_mid[of "''Service '' @ [CHR 0xE5, CHR 0x88, CHR 0x9B, CHR 0xE5, CHR 0xBB,
                                CHR 0xBA, CHR 0xE4, CHR 0xB8, CHR 0xAD]" "''...''" "[]"]
    by simp
  show "containsStr zh_nodeport_pending ''...''"
    unfolding zh_nodeport_pending_def
    using containsStr_mid[of "''NodePort ('' @ [CHR 0xE7, CHR 0xAB, CHR 0xAF, CHR 0xE5, CHR 0x8F,
                                CHR 0xA3, CHR 0xE5, CHR 0x88, CHR 0x86, CHR 0xE9, CHR 0x85, CHR 0x8D,
                                CHR 0xE4, CHR 0xB8, CHR 0xAD]" "''...''" "'')''"]
    by simp
  show "containsStr (''https://<NODE-IP>:'' @ x) ''<NODE-IP>''"
    using containsStr_mid[of "''https://''" "''<NODE-IP>''" "'':'' @ x"] by simp
  show "containsStr (''http://<NODE-IP>:'' @ x) ''<NODE-IP>''"
    using containsStr_mid[of "''http://''" "''<NODE-IP>''" "'':'' @ x"] by simp
qed

lemma updateWebURL_placeholder:
  assumes np: "ExposeType (Web_cfg (Spec kubenova)) = ''nodeport''"
    and un: "noUsableAddress (fst (List_Nodes r (fst (snd (r_Get_Service r (webServiceKey ns) s)))))"
  shows "WebURL (fst (updateWebURL r kubenova ns a s)) = zh_service_creating
         \<or> WebURL (fst (updateWebURL r kubenova ns a s)) = zh_nodeport_pending
         \<or> (\<exists>port>0. WebURL (fst (updateWebURL r kubenova ns a s)) = ''https://<NODE-IP>:'' @ itoa port)
         \<or> (\<exists>port>0. WebURL (fst (updateWebURL r kubenova ns a s)) = ''http://<NODE-IP>:'' @ itoa port)"
proof -
  obtain g s1 where g: "r_Get_Service r (webServiceKey ns) s = (g, s1)"
    by (cases "r_Get_Service r (webServiceKey ns) s")
  have ni: "ExposeType (Web_cfg (Spec kubenova)) \<noteq> ''ingress''"
    using np by simp
  show ?thesis
  proof (cases g)
    case (Inl err)
    with g np ni show ?thesis
      by (simp add: updateWebURL_def Let_def webServiceKey_def)
  next
    case (Inr webSvc)
    from un g have "fst (getNodeIP r s1) = []"
      by (simp add: getNodeIP_empty)
    then have u: "WebURL (fst (updateWebURL r kubenova ns a s))
                    = nodePortURL [] (fst (nodePorts (svc_Ports (svc_Spec webSvc))))
                                     (snd (nodePorts (svc_Ports (svc_Spec webSvc))))"
      using g np ni Inr
      by (simp add: updateWebURL_def Let_def webServiceKey_def split_beta)
    show ?thesis
      unfolding u
      using nodePorts_nonneg_shape[of "fst (nodePorts (svc_Ports (svc_Spec webSvc)))"
                                      "snd (nodePorts (svc_Ports (svc_Spec webSvc)))"]
      by blast
  qed
qed

lemma updateWebURL_reads:
  "\<exists>evs. snd (snd (updateWebURL r kubenova ns a s)) = snd s @ evs \<and> list_all isRead evs"
proof -
  let ?key = "\<lparr>nn_Namespace = ns, nn_Name = ''kube-nova-web''\<rparr>"
  obtain g s1 where g: "r_Get_Service r ?key s = (g, s1)"
    by (cases "r_Get_Service r ?key s")
  then obtain res where s1: "snd s1 = snd s @ [EvGet KindService ?key res]"
    by (auto simp: r_Get_Service_def do_get_def split: prod.splits)
  from getNodeIP_trace[of r s1]
  obtain res' where s2: "snd (snd (getNodeIP r s1)) = snd s1 @ [EvListNodes res']"
    by blast
  have zero: "\<exists>evs. snd s = snd s @ evs \<and> list_all isRead evs"
    by (rule exI[of _ "[]"]) simp
  have one: "\<exists>evs. snd s1 = snd s @ evs \<and> list_all isRead evs"
    by (rule exI[of _ "[EvGet KindService ?key res]"]) (simp add: s1)
  have two: "\<exists>evs. snd (snd (getNodeIP r s1)) = snd s @ evs \<and> list_all isRead evs"
    by (rule exI[of _ "[EvGet KindService ?key res, EvListNodes res']"]) (simp add: s1 s2)
  show ?thesis
  proof (cases "if ExposeType (Web_cfg (Spec kubenova)) = ''ingress''
                then web_Ingress (Web_cfg (Spec kubenova)) else None")
    case (Some ingress)
    then show ?thesis
      using zero by (simp add: updateWebURL_def Let_def)
  next
    case None
    show ?thesis
    proof (cases "ExposeType (Web_cfg (Spec kubenova)) = ''nodeport''")
      case False
      with None show ?thesis
        using zero by (simp add: updateWebURL_def Let_def)
    next
      case True
      show ?thesis
      proof (cases g)
        case (Inl err)
        with None True g show ?thesis
          using one by (simp add: updateWebURL_def Let_def)
      next
        case (Inr webSvc)
        with None True g show ?thesis
          using two by (simp add: updateWebURL_def Let_def split_beta)
      qed
    qed
  qed
qed

text \<open>
  Claim C8. In node-port mode, when the node listing yields no usable address, the web
  URL the derivation records is one of four placeholders: the text for a service that is
  not there yet, the text for a port that is not assigned yet, or \<^verbatim>\<open>https://<NODE-IP>:port\<close>
  or \<^verbatim>\<open>http://<NODE-IP>:port\<close> with the assigned port. Each is non-empty and contains the
  marker \<^verbatim>\<open><NODE-IP>\<close> or \<^verbatim>\<open>...\<close>. The derivation is a total function without an error
  result, and all it does with the store is read.
\<close>

theorem placeholder_without_node_address:
  assumes "ExposeType (Web_cfg (Spec kubenova)) = ''nodeport''"
    and "noUsableAddress (fst (List_Nodes r (fst (snd (r_Get_Service r (webServiceKey ns) s)))))"
  shows "\<exists>info.
           AccessInfo (Status (fst (updateAccessInfo r kubenova ns s))) = Some info
           \<and> WebURL info \<noteq> []
           \<and> (containsStr (WebURL info) ''<NODE-IP>'' \<or> containsStr (WebURL info) ''...'')
           \<and> (WebURL info = zh_service_creating
               \<or> WebURL info = zh_nodeport_pending
               \<or> (\<exists>port>0. WebURL info = ''https://<NODE-IP>:'' @ itoa port)
               \<or> (\<exists>port>0. WebURL info = ''http://<NODE-IP>:'' @ itoa port))
           \<and> (\<exists>evs. snd (snd (updateAccessInfo r kubenova ns s)) = snd s @ evs
                      \<and> list_all isRead evs)"
proof -
  let ?a0 = "case AccessInfo (Status kubenova) of None \<Rightarrow> AccessInfo_zero | Some a \<Rightarrow> a"
  let ?url = "WebURL (fst (updateWebURL r kubenova ns ?a0 s))"
  from updateWebURL_placeholder[OF assms, of ?a0]
  have shape: "?url = zh_service_creating \<or> ?url = zh_nodeport_pending
               \<or> (\<exists>port>0. ?url = ''https://<NODE-IP>:'' @ itoa port)
               \<or> (\<exists>port>0. ?url = ''http://<NODE-IP>:'' @ itoa port)" .
  then have marker: "containsStr ?url ''<NODE-IP>'' \<or> containsStr ?url ''...''"
    using marker_in_placeholders by auto
  from shape have nonempty: "?url \<noteq> []"
    by (auto simp: zh_service_creating_def zh_nodeport_pending_def)
  have trace: "\<exists>evs. snd (snd (updateAccessInfo r kubenova ns s)) = snd s @ evs
                      \<and> list_all isRead evs"
    using updateWebURL_reads[of r kubenova ns ?a0 s]
    by (simp add: updateAccessInfo_def Let_def split_beta)
  have "\<exists>info. AccessInfo (Status (fst (updateAccessInfo r kubenova ns s))) = Some info
               \<and> WebURL info = ?url"
    by (simp add: updateAccessInfo_def Let_def split_beta split: option.splits)
  with shape marker nonempty trace show ?thesis
    by metis
qed

lemma scripted_nodes_simps:
  "List_Nodes scriptedReconciler (ReplyNodes nodes # rest) = (Inr nodes, rest)"
  "List_Nodes scriptedReconciler (ReplyError err # rest) = (Inl err, rest)"
  by (simp_all add: scriptedReconciler_def scripted_nodes_def)

lemma itoa_30080: "itoa 30080 = ''30080''"
  by (simp add: itoa_def digits.simps digit_char_def)

text \<open>
  The theorem at a store whose only node has no address the controller uses, and at one
  whose node listing fails.
\<close>

theorem placeholder_without_node_address_witness:
  "ExposeType (Web_cfg (Spec sampleKubeNova)) = ''nodeport''
   \<and> noUsableAddress (Inr [addresslessNode])
   \<and> map_option WebURL
        (AccessInfo (Status (fst (updateAccessInfo scriptedReconciler sampleKubeNova ''nova''
                                    (nodesWithoutAddress, [])))))
       = Some ''http://<NODE-IP>:30080''
   \<and> noUsableAddress (Inl serverTimeout)
   \<and> map_option WebURL
        (AccessInfo (Status (fst (updateAccessInfo scriptedReconciler sampleKubeNova ''nova''
                                    (nodeListingFails, [])))))
       = Some ''http://<NODE-IP>:30080''
   \<and> (containsStr ''http://<NODE-IP>:30080'' ''<NODE-IP>''
        \<or> containsStr ''http://<NODE-IP>:30080'' ''...'')"
proof -
  have h1: "ExposeType (Web_cfg (Spec sampleKubeNova)) = ''nodeport''"
    by (simp add: sampleKubeNova_def sampleSpec_def)
  have n1: "noUsableAddress (Inr [addresslessNode])"
    by (simp add: noUsableAddress_def addresslessNode_def NodeExternalIP_def NodeInternalIP_def)
  have n2: "noUsableAddress (Inl serverTimeout)"
    by (simp add: noUsableAddress_def)
  have h2: "noUsableAddress
              (fst (List_Nodes scriptedReconciler
                      (fst (snd (r_Get_Service scriptedReconciler (webServiceKey ''nova'')
                                   (nodesWithoutAddress, []))))))"
    using n1
    by (simp add: nodesWithoutAddress_def r_Get_Service_def do_get_def scripted_more_simps
                  scripted_nodes_simps)
  have h3: "noUsableAddress
              (fst (List_Nodes scriptedReconciler
                      (fst (snd (r_Get_Service scriptedReconciler (webServiceKey ''nova'')
                                   (nodeListingFails, []))))))"
    using n2
    by (simp add: nodeListingFails_def r_Get_Service_def do_get_def scripted_more_simps
                  scripted_nodes_simps)
  have e1: "map_option WebURL
        (AccessInfo (Status (fst (updateAccessInfo scriptedReconciler sampleKubeNova ''nova''
                                    (nodesWithoutAddress, [])))))
       = Some ''http://<NODE-IP>:30080''"
    by (simp add: updateAccessInfo_def updateWebURL_def Let_def split_beta
                  nodesWithoutAddress_def r_Get_Service_def do_get_def scripted_more_simps
                  getNodeIP_def r_List_Nodes_def scripted_nodes_simps
                  addresslessNode_def isReady_def NodeReady_def ConditionTrue_str_def
                  NodeExternalIP_def NodeInternalIP_def
                  sampleWebService_def nodePorts_def nodePortURL_def itoa_30080
                  sampleKubeNova_def sampleSpec_def Status_zero_def)
  have e2: "map_option WebURL
        (AccessInfo (Status (fst (updateAccessInfo scriptedReconciler sampleKubeNova ''nova''
                                    (nodeListingFails, [])))))
       = Some ''http://<NODE-IP>:30080''"
    by (simp add: updateAccessInfo_def updateWebURL_def Let_def split_beta
                  nodeListingFails_def r_Get_Service_def do_get_def scripted_more_simps
                  getNodeIP_def r_List_Nodes_def scripted_nodes_simps
                  sampleWebService_def nodePorts_def nodePortURL_def itoa_30080
                  sampleKubeNova_def sampleSpec_def Status_zero_def)
  from placeholder_without_node_address[OF h1 h2]
  obtain info where
    i: "AccessInfo (Status (fst (updateAccessInfo scriptedReconciler sampleKubeNova ''nova''
                                   (nodesWithoutAddress, [])))) = Some info"
    and m: "containsStr (WebURL info) ''<NODE-IP>'' \<or> containsStr (WebURL info) ''...''"
    by blast
  from i e1 have "WebURL info = ''http://<NODE-IP>:30080''"
    by simp
  with m have c: "containsStr ''http://<NODE-IP>:30080'' ''<NODE-IP>''
                  \<or> containsStr ''http://<NODE-IP>:30080'' ''...''"
    by simp
  from h1 n1 n2 e1 e2 c show ?thesis
    by blast
qed

section \<open>The status writes of a reconciliation pass\<close>

lemma stageSteps_refl [simp]: "stageSteps s s"
  unfolding stageSteps_def by (rule exI[of _ "[]"]) simp

lemma stageSteps_trans: "stageSteps s s1 \<Longrightarrow> stageSteps s1 s2 \<Longrightarrow> stageSteps s s2"
  unfolding stageSteps_def by (metis append.assoc list_all_append)

lemma stageSteps_one: "snd s' = snd s @ [e] \<Longrightarrow> stageEvent e \<Longrightarrow> stageSteps s s'"
  unfolding stageSteps_def by (rule exI[of _ "[e]"]) simp

lemma do_get_steps: "stageSteps s (snd (do_get f box k key s))"
  by (rule stageSteps_one[of _ _ "EvGet k key (map_sum id box (fst (f (fst s))))"])
     (simp_all add: do_get_def split_beta)

lemma get_steps [simp]:
  "stageSteps s (snd (r_Get_Namespace r key s))"
  "stageSteps s (snd (r_Get_ServiceAccount r key s))"
  "stageSteps s (snd (r_Get_ClusterRoleBinding r key s))"
  "stageSteps s (snd (r_Get_Secret r key s))"
  "stageSteps s (snd (r_Get_ConfigMap r key s))"
  "stageSteps s (snd (r_Get_Deployment r key s))"
  "stageSteps s (snd (r_Get_Service r key s))"
  "stageSteps s (snd (r_Get_Ingress r key s))"
  by (simp_all add: r_Get_Namespace_def r_Get_ServiceAccount_def r_Get_ClusterRoleBinding_def
                    r_Get_Secret_def r_Get_ConfigMap_def r_Get_Deployment_def r_Get_Service_def
                    r_Get_Ingress_def do_get_steps)

lemma list_steps [simp]: "stageSteps s (snd (r_List_Nodes r s))"
  by (rule stageSteps_one[of _ _ "EvListNodes (fst (List_Nodes r (fst s)))"])
     (simp_all add: r_List_Nodes_def split_beta)

lemma create_steps [simp]: "stageSteps s (snd (r_Create r x s))"
  by (rule stageSteps_one[of _ _ "EvCreate x (fst (Create r x (fst s)))"])
     (simp_all add: r_Create_def split_beta)

lemma update_steps [simp]:
  "stageSteps s (snd (r_Update r (ObjSecret a) s))"
  "stageSteps s (snd (r_Update r (ObjConfigMap b) s))"
  "stageSteps s (snd (r_Update r (ObjDeployment c) s))"
proof -
  show "stageSteps s (snd (r_Update r (ObjSecret a) s))"
    by (rule stageSteps_one[of _ _ "EvUpdate (ObjSecret a) (fst (Update r (ObjSecret a) (fst s)))"])
       (simp_all add: r_Update_def split_beta)
  show "stageSteps s (snd (r_Update r (ObjConfigMap b) s))"
    by (rule stageSteps_one[of _ _ "EvUpdate (ObjConfigMap b) (fst (Update r (ObjConfigMap b) (fst s)))"])
       (simp_all add: r_Update_def split_beta)
  show "stageSteps s (snd (r_Update r (ObjDeployment c) s))"
    by (rule stageSteps_one[of _ _ "EvUpdate (ObjDeployment c) (fst (Update r (ObjDeployment c) (fst s)))"])
       (simp_all add: r_Update_def split_beta)
qed

lemma wrapError_snd [simp]: "snd (wrapError msg res) = snd res"
  by (cases res) (simp add: wrapError_def split: option.splits)

lemma andThen_steps:
  assumes "stageSteps s (snd res)" and "\<And>s1. stageSteps s1 (snd (k s1))"
  shows "stageSteps s (snd (andThen res k))"
proof -
  obtain err s1 where res: "res = (err, s1)" by (cases res)
  show ?thesis
  proof (cases err)
    case None
    with res assms(1) assms(2)[of s1] show ?thesis
      by (auto simp: andThen_def intro: stageSteps_trans)
  next
    case (Some e)
    with res assms(1) show ?thesis
      by (simp add: andThen_def)
  qed
qed

lemma getOrCreate_steps:
  assumes "stageSteps s (snd got)" and "\<And>existing s1. stageSteps s1 (snd (onExisting existing s1))"
  shows "stageSteps s (snd (getOrCreate got r desired createFailed getFailed onExisting))"
proof -
  obtain g s1 where got: "got = (g, s1)" by (cases got)
  with assms(1) have s1: "stageSteps s s1" by simp
  show ?thesis
  proof (cases g)
    case (Inl err)
    with got s1 show ?thesis
      by (auto simp: getOrCreate_def intro: stageSteps_trans[OF s1 create_steps])
  next
    case (Inr existing)
    with got have "snd (getOrCreate got r desired createFailed getFailed onExisting)
                     = snd (onExisting existing s1)"
      by (simp add: getOrCreate_def)
    then show ?thesis
      by (simp add: stageSteps_trans[OF s1 assms(2)])
  qed
qed

lemma reconcileNamespace_steps: "stageSteps s (snd (reconcileNamespace r kubenova s))"
proof -
  let ?key = "\<lparr>nn_Namespace = [], nn_Name = Namespace (ObjectMeta kubenova)\<rparr>"
  have "snd (reconcileNamespace r kubenova s) = snd (r_Get_Namespace r ?key s)"
    by (simp add: reconcileNamespace_def Let_def split: prod.splits sum.splits)
  then show ?thesis by simp
qed

lemma reconcileRBAC_steps: "stageSteps s (snd (reconcileRBAC r kubenova s))"
  unfolding reconcileRBAC_def Let_def
  by (auto split: sum.splits intro!: andThen_steps getOrCreate_steps)

lemma getNodeIP_steps: "stageSteps s (snd (getNodeIP r s))"
proof -
  have "snd (getNodeIP r s) = snd (r_List_Nodes r s)"
    by (simp add: getNodeIP_def split: prod.splits sum.splits option.splits)
  then show ?thesis by simp
qed

lemma getWebNodePort_steps: "stageSteps s (snd (getWebNodePort r kubenova ns s))"
proof (cases "ExposeType (Web_cfg (Spec kubenova)) \<noteq> ''nodeport''")
  case True
  then show ?thesis by (simp add: getWebNodePort_def)
next
  case False
  then have "snd (getWebNodePort r kubenova ns s)
               = snd (r_Get_Service r \<lparr>nn_Namespace = ns, nn_Name = ''kube-nova-web''\<rparr> s)"
    by (simp add: getWebNodePort_def split: prod.splits sum.splits option.splits)
  then show ?thesis by simp
qed

lemma reconcileSecret_steps: "stageSteps s (snd (reconcileSecret r b kubenova s))"
proof -
  let ?ns = "Namespace (ObjectMeta kubenova)"
  obtain ip s1 where a: "getNodeIP r s = (ip, s1)" by (cases "getNodeIP r s")
  obtain p s2 where b: "getWebNodePort r kubenova ?ns s1 = (p, s2)"
    by (cases "getWebNodePort r kubenova ?ns s1")
  have s1: "stageSteps s s1" using getNodeIP_steps[of s r] a by simp
  have s2: "stageSteps s1 s2" using getWebNodePort_steps[of s1 r kubenova ?ns] b by simp
  note s12 = stageSteps_trans[OF s1 s2]
  show ?thesis
  proof (cases "SetControllerReference r kubenova
                  (sec_ObjectMeta (BuildSecret b kubenova ?ns ip p))")
    case (Inl err)
    with a b s12 show ?thesis
      by (simp add: reconcileSecret_def Let_def)
  next
    case (Inr ownedMeta)
    with a b show ?thesis
      apply (simp add: reconcileSecret_def Let_def)
      apply (rule stageSteps_trans[OF s12])
      apply (rule getOrCreate_steps)
       apply simp_all
      done
  qed
qed

lemma syncConfigMap_steps:
  "stageSteps s (snd (syncConfigMap r kubenova ns m1 m2 m3 cm s))"
  unfolding syncConfigMap_def Let_def
  by (auto split: sum.splits intro!: getOrCreate_steps)

lemma reconcileConfigMaps_loop_steps:
  "stageSteps s (snd (reconcileConfigMaps_loop r kubenova ns cms s))"
proof (induction cms arbitrary: s)
  case Nil
  show ?case by simp
next
  case (Cons cm rest)
  show ?case
    by (simp, rule andThen_steps, rule syncConfigMap_steps, rule Cons.IH)
qed

lemma reconcileConfigMaps_steps: "stageSteps s (snd (reconcileConfigMaps r b kubenova s))"
  by (simp add: reconcileConfigMaps_def Let_def reconcileConfigMaps_loop_steps)

lemma reget_steps:
  "stageSteps s1
     (snd (case r_Get_Deployment r key s1 of
             (Inl err, s2) \<Rightarrow> (Some (f err), s2)
           | (Inr latestDeploy, s2) \<Rightarrow>
               wrapError m (r_Update r (ObjDeployment (g latestDeploy)) s2)))"
proof -
  obtain res s2 where res: "r_Get_Deployment r key s1 = (res, s2)"
    by (cases "r_Get_Deployment r key s1")
  then have s2: "stageSteps s1 s2"
    using get_steps(6)[of s1 r key] by simp
  show ?thesis
    using res s2
    by (cases res) (auto intro: stageSteps_trans[OF s2 update_steps(3)])
qed

lemma syncDeployment_steps:
  "stageSteps s (snd (syncDeployment r kubenova ns sp m1 m2 m3 m4 d s))"
proof (cases "SetControllerReference r kubenova (dp_ObjectMeta d)")
  case (Inl err)
  then show ?thesis
    by (simp add: syncDeployment_def)
next
  case (Inr ownedMeta)
  then show ?thesis
    by (simp add: syncDeployment_def Let_def, intro getOrCreate_steps)
       (auto intro: reget_steps)
qed

lemma syncService_steps: "stageSteps s (snd (syncService r kubenova ns m1 m2 svc s))"
  unfolding syncService_def Let_def
  by (auto split: sum.splits intro!: getOrCreate_steps)

lemma syncIngress_steps: "stageSteps s (snd (syncIngress r kubenova ns ing s))"
  unfolding syncIngress_def Let_def
  by (auto split: sum.splits intro!: getOrCreate_steps)

lemma reconcileServices_loop_steps:
  "stageSteps s (snd (reconcileServices_loop r kubenova ns svcs s))"
proof (induction svcs arbitrary: s)
  case Nil
  show ?case by simp
next
  case (Cons a rest)
  obtain name res where a: "a = (name, res)" by (cases a)
  show ?case
    unfolding a
    by (simp, intro andThen_steps syncDeployment_steps syncService_steps Cons.IH)
qed

lemma reconcileServices_steps: "stageSteps s (snd (reconcileServices r b kubenova s))"
  by (simp add: reconcileServices_def Let_def split_beta reconcileServices_loop_steps)

lemma reconcileWeb_steps: "stageSteps s (snd (reconcileWeb r b kubenova s))"
  unfolding reconcileWeb_def Let_def
  by (intro andThen_steps syncDeployment_steps syncService_steps)
     (auto split: option.splits intro: syncConfigMap_steps syncIngress_steps)

lemma stageSteps_quiet:
  assumes "stageSteps s s'"
  shows "collect statusWrites (snd s') = collect statusWrites (snd s)"
    and "collect serviceWrites (snd s') = collect serviceWrites (snd s)"
proof -
  have q: "list_all stageEvent evs \<Longrightarrow>
             collect statusWrites evs = [] \<and> collect serviceWrites evs = []" for evs
  proof (induction evs)
    case Nil
    show ?case by simp
  next
    case (Cons e rest)
    then have "stageEvent e" by simp
    then have "statusWrites e = [] \<and> serviceWrites e = []"
      by (cases e rule: stageEvent.cases) simp_all
    with Cons show ?case by (simp add: collect_def)
  qed
  from assms obtain evs where "snd s' = snd s @ evs" "list_all stageEvent evs"
    by (auto simp: stageSteps_def)
  with q[of evs] show "collect statusWrites (snd s') = collect statusWrites (snd s)"
    and "collect serviceWrites (snd s') = collect serviceWrites (snd s)"
    by simp_all
qed

lemma writesAll_refl [simp]: "writesAll P s s"
  unfolding writesAll_def by (rule exI[of _ "[]"]) simp

lemma writesAll_trans: "writesAll P s s1 \<Longrightarrow> writesAll P s1 s2 \<Longrightarrow> writesAll P s s2"
proof -
  assume "writesAll P s s1" "writesAll P s1 s2"
  then obtain a b where a: "snd s1 = snd s @ a" "list_all (\<lambda>sent. P (Status sent)) (collect statusWrites a)"
    and b: "snd s2 = snd s1 @ b" "list_all (\<lambda>sent. P (Status sent)) (collect statusWrites b)"
    by (auto simp: writesAll_def)
  show ?thesis
    unfolding writesAll_def
    by (rule exI[of _ "a @ b"]) (simp add: a b)
qed

lemma writesAll_one:
  "snd s' = snd s @ [e] \<Longrightarrow> statusWrites e = [] \<Longrightarrow> writesAll P s s'"
  unfolding writesAll_def by (rule exI[of _ "[e]"]) (simp add: collect_def)

lemma stageSteps_writesAll: "stageSteps s s' \<Longrightarrow> writesAll P s s'"
proof -
  assume "stageSteps s s'"
  then obtain evs where e: "snd s' = snd s @ evs" "list_all stageEvent evs"
    by (auto simp: stageSteps_def)
  have "collect statusWrites evs = []"
    using stageSteps_quiet(1)[of "(undefined, [])" "(undefined, evs)"] e(2)
    by (simp add: stageSteps_def)
  with e(1) show ?thesis
    unfolding writesAll_def by (intro exI[of _ evs]) simp
qed

lemma writer_writesAll:
  assumes "P (Status kubenova)"
  shows "writesAll P s (snd (updateStatusWithRetry r kubenova s))"
proof -
  from writer_trace[of r kubenova s]
  obtain evs n where e: "snd (snd (updateStatusWithRetry r kubenova s)) = snd s @ evs"
    and w: "writerAttempts kubenova evs = Some n"
    by blast
  from writerAttempts_sent[OF w] assms
  have "list_all (\<lambda>sent. P (Status sent)) (collect statusWrites evs)"
    by (simp add: list_all_iff)
  with e show ?thesis
    unfolding writesAll_def by blast
qed

lemma stageFailed_writes:
  assumes "stageSteps s0 s" and "Generation (ObjectMeta kubenova) = g"
  shows "writesAll (\<lambda>st. ObservedGeneration st = g \<and> Phase st = PhaseFailed) s0
           (snd (stageFailed r kubenova prefix err s))"
    and "\<exists>res. fst (stageFailed r kubenova prefix err s) = Return (res, Some err)"
proof -
  let ?k = "setStatusPhase (r_Now r s) kubenova PhaseFailed (prefix @ err_Message err)"
  have p: "ObservedGeneration (Status ?k) = g \<and> Phase (Status ?k) = PhaseFailed"
    using assms(2) by (simp add: setStatusPhase_def)
  have "snd (stageFailed r kubenova prefix err s) = snd (updateStatusWithRetry r ?k s)"
    by (simp add: stageFailed_def split_beta)
  with writer_writesAll[of "\<lambda>st. ObservedGeneration st = g \<and> Phase st = PhaseFailed" ?k s r] p
  have "writesAll (\<lambda>st. ObservedGeneration st = g \<and> Phase st = PhaseFailed) s
          (snd (stageFailed r kubenova prefix err s))"
    by simp
  with stageSteps_writesAll[OF assms(1)]
  show "writesAll (\<lambda>st. ObservedGeneration st = g \<and> Phase st = PhaseFailed) s0
           (snd (stageFailed r kubenova prefix err s))"
    by (rule writesAll_trans)
  show "\<exists>res. fst (stageFailed r kubenova prefix err s) = Return (res, Some err)"
    by (simp add: stageFailed_def split_beta)
qed

lemma checkServices_steps:
  "stageSteps s (snd (checkServices r ns names kubenova allReady s))"
proof (induction names arbitrary: kubenova allReady s)
  case Nil
  show ?case by simp
next
  case (Cons name rest)
  obtain g s1 where g: "r_Get_Deployment r \<lparr>nn_Namespace = ns, nn_Name = name\<rparr> s = (g, s1)"
    by (cases "r_Get_Deployment r \<lparr>nn_Namespace = ns, nn_Name = name\<rparr> s")
  then have s1: "stageSteps s s1"
    using get_steps(6)[of s r "\<lparr>nn_Namespace = ns, nn_Name = name\<rparr>"] by simp
  have rec: "stageSteps s (snd (checkServices r ns rest k a s1))" for k a
    by (rule stageSteps_trans[OF s1 Cons.IH])
  show ?case
    using g s1 rec
    by (cases g) (simp_all split: option.splits prod.splits)
qed

lemma checkWeb_steps: "stageSteps s (snd (checkWeb r ns kubenova allReady s))"
proof -
  obtain g s1 where g: "r_Get_Deployment r \<lparr>nn_Namespace = ns, nn_Name = ''kube-nova-web''\<rparr> s = (g, s1)"
    by (cases "r_Get_Deployment r \<lparr>nn_Namespace = ns, nn_Name = ''kube-nova-web''\<rparr> s")
  then have s1: "stageSteps s s1"
    using get_steps(6)[of s r "\<lparr>nn_Namespace = ns, nn_Name = ''kube-nova-web''\<rparr>"] by simp
  show ?thesis
    using g s1 by (cases g) (simp_all add: checkWeb_def split: option.splits prod.splits)
qed

lemma aggregate_steps: "stageSteps s (snd (aggregateComponents r kubenova s))"
proof -
  let ?ns = "Namespace (ObjectMeta kubenova)"
  let ?k1 = "if Services (ComponentStatus (Status kubenova)) = None
             then setServices kubenova fmempty else kubenova"
  obtain o1 s1 where c: "checkServices r ?ns backendServices ?k1 True s = (o1, s1)"
    by (cases "checkServices r ?ns backendServices ?k1 True s")
  have s1: "stageSteps s s1"
    using checkServices_steps[of s r ?ns backendServices ?k1 True] c by simp
  show ?thesis
  proof (cases o1)
    case Panic
    with c s1 show ?thesis by (simp add: aggregateComponents_def Let_def)
  next
    case (Return x)
    obtain k2 a1 where x: "x = (k2, a1)" by (cases x)
    with Return c show ?thesis
      by (simp add: aggregateComponents_def Let_def)
         (rule stageSteps_trans[OF s1 checkWeb_steps])
  qed
qed

lemma checkComponentStatus_writes:
  "writesAll (\<lambda>st. ObservedGeneration st = Generation (ObjectMeta kubenova)) s
     (snd (checkComponentStatus r kubenova s))"
proof -
  let ?P = "\<lambda>st. ObservedGeneration st = Generation (ObjectMeta kubenova)"
  let ?ns = "Namespace (ObjectMeta kubenova)"
  obtain o2 s2 where agg: "aggregateComponents r kubenova s = (o2, s2)"
    by (cases "aggregateComponents r kubenova s")
  have s2: "writesAll ?P s s2"
    using stageSteps_writesAll[OF aggregate_steps[of s r kubenova]] agg by simp
  show ?thesis
  proof (cases o2)
    case Panic
    with agg s2 show ?thesis by (simp add: checkComponentStatus_def)
  next
    case (Return x)
    obtain k3 allReady where x: "x = (k3, allReady)" by (cases x)
    obtain k4 s3 where acc: "updateAccessInfo r k3 ?ns s2 = (k4, s3)"
      by (cases "updateAccessInfo r k3 ?ns s2")
    let ?k5 = "setOverallStatus (r_Now r s3) k4 allReady"
    have agg': "aggregateComponents r kubenova s = (Return (k3, allReady), s2)"
      using agg Return x by simp
    from aggregate_entries[OF agg']
    have m3: "ObjectMeta k3 = ObjectMeta kubenova" by blast
    have m4: "ObjectMeta k4 = ObjectMeta k3"
      using updateAccessInfo_frame(3)[of r k3 ?ns s2] acc by simp
    from updateAccessInfo_frame(1)[of r k3 ?ns s2] acc
    have s3: "writesAll ?P s2 s3"
      by (auto simp: writesAll_def)
    have "?P (Status ?k5)"
      by (simp add: setOverallStatus_simps m3 m4)
    from writer_writesAll[of ?P ?k5 s3 r, OF this]
    have s4: "writesAll ?P s3 (snd (updateStatusWithRetry r ?k5 s3))" .
    have "snd (checkComponentStatus r kubenova s) = snd (updateStatusWithRetry r ?k5 s3)"
      using agg Return x acc by (simp add: checkComponentStatus_def split_beta)
    with writesAll_trans[OF s2 writesAll_trans[OF s3 s4]] show ?thesis by simp
  qed
qed

lemma checkComponentStatus_outcome:
  "fst (checkComponentStatus r kubenova s) = Panic
   \<or> (\<exists>err k. fst (checkComponentStatus r kubenova s) = Return (err, k))"
  by (cases "fst (checkComponentStatus r kubenova s)") auto

lemma failing_branch:
  assumes "stageSteps s0 s" and "Generation (ObjectMeta kubenova) = g"
  shows "pipelineWrites g s0 (stageFailed r kubenova prefix err s)"
  using stageFailed_writes[OF assms, of r prefix err]
  unfolding pipelineWrites_def by blast

lemma reconcileValidation_meta:
  "ObjectMeta (snd (reconcileValidation r kubenova s)) = ObjectMeta kubenova"
  by (simp add: reconcileValidation_def Let_def setCondition_def setStatusPhase_def
           split: option.splits)

lemma reconcileServices_meta:
  "ObjectMeta (snd (fst (reconcileServices r b kubenova s))) = ObjectMeta kubenova"
  by (simp add: reconcileServices_def Let_def setStatusPhase_def split_beta)

lemma final_branch:
  assumes "stageSteps s0 s" and "Generation (ObjectMeta kubenova) = g"
  shows "pipelineWrites g s0
           (case checkComponentStatus r kubenova s of
              (Panic, s8) \<Rightarrow> (Panic, s8)
            | (Return (Some err, k), s8) \<Rightarrow> (Return (res1, None), s8)
            | (Return (None, k), s8) \<Rightarrow> (Return (res2, None), s8))"
proof -
  let ?out = "case checkComponentStatus r kubenova s of
              (Panic, s8) \<Rightarrow> (Panic, s8)
            | (Return (Some err, k), s8) \<Rightarrow> (Return (res1, None), s8)
            | (Return (None, k), s8) \<Rightarrow> (Return (res2, None), s8)"
  have sn: "snd ?out = snd (checkComponentStatus r kubenova s)"
    by (simp split: prod.splits outcome.splits option.splits)
  have ok: "\<forall>res err. fst ?out \<noteq> Return (res, Some err)"
    by (simp split: prod.splits outcome.splits option.splits)
  have "writesAll (\<lambda>st. ObservedGeneration st = g) s (snd (checkComponentStatus r kubenova s))"
    using checkComponentStatus_writes[of kubenova s r] assms(2) by simp
  with stageSteps_writesAll[OF assms(1)]
  have "writesAll (\<lambda>st. ObservedGeneration st = g) s0 (snd ?out)"
    unfolding sn by (rule writesAll_trans)
  with ok show ?thesis
    unfolding pipelineWrites_def by blast
qed

lemma runPipeline_writes:
  "pipelineWrites (Generation (ObjectMeta kubenova0)) s (runPipeline r b kubenova0 s)"
proof -
  let ?g = "Generation (ObjectMeta kubenova0)"
  obtain e1 kubenova where v: "reconcileValidation r kubenova0 s = (e1, kubenova)"
    by (cases "reconcileValidation r kubenova0 s")
  have m: "Generation (ObjectMeta kubenova) = ?g"
    using reconcileValidation_meta[of r kubenova0 s] v by simp
  obtain e2 s2 where n: "reconcileNamespace r kubenova s = (e2, s2)"
    by (cases "reconcileNamespace r kubenova s")
  have t2: "stageSteps s s2"
    using reconcileNamespace_steps[of s r kubenova] n by simp
  obtain e3 s3 where rb: "reconcileRBAC r kubenova s2 = (e3, s3)"
    by (cases "reconcileRBAC r kubenova s2")
  have t3: "stageSteps s s3"
    using stageSteps_trans[OF t2 reconcileRBAC_steps[of s2 r kubenova]] rb by simp
  obtain e4 s4 where sec: "reconcileSecret r b kubenova s3 = (e4, s4)"
    by (cases "reconcileSecret r b kubenova s3")
  have t4: "stageSteps s s4"
    using stageSteps_trans[OF t3 reconcileSecret_steps[of s3 r b kubenova]] sec by simp
  obtain e5 s5 where cm: "reconcileConfigMaps r b kubenova s4 = (e5, s5)"
    by (cases "reconcileConfigMaps r b kubenova s4")
  have t5: "stageSteps s s5"
    using stageSteps_trans[OF t4 reconcileConfigMaps_steps[of s4 r b kubenova]] cm by simp
  obtain e6 kubenova' s6 where sv: "reconcileServices r b kubenova s5 = ((e6, kubenova'), s6)"
    by (cases "reconcileServices r b kubenova s5") auto
  have t6: "stageSteps s s6"
    using stageSteps_trans[OF t5 reconcileServices_steps[of s5 r b kubenova]] sv by simp
  have m': "Generation (ObjectMeta kubenova') = ?g"
    using reconcileServices_meta[of r b kubenova s5] sv m by simp
  obtain e7 s7 where wb: "reconcileWeb r b kubenova' s6 = (e7, s7)"
    by (cases "reconcileWeb r b kubenova' s6")
  have t7: "stageSteps s s7"
    using stageSteps_trans[OF t6 reconcileWeb_steps[of s6 r b kubenova']] wb by simp
  show ?thesis
  proof (cases e1)
    case (Some err)
    with v show ?thesis
      by (simp add: runPipeline_def failing_branch[OF stageSteps_refl m])
  next
    case n1: None
    show ?thesis
    proof (cases e2)
      case (Some err)
      with v n1 n show ?thesis
        by (simp add: runPipeline_def failing_branch[OF t2 m])
    next
      case n2: None
      show ?thesis
      proof (cases e3)
        case (Some err)
        with v n1 n n2 rb show ?thesis
          by (simp add: runPipeline_def failing_branch[OF t3 m])
      next
        case n3: None
        show ?thesis
        proof (cases e4)
          case (Some err)
          with v n1 n n2 rb n3 sec show ?thesis
            by (simp add: runPipeline_def failing_branch[OF t4 m])
        next
          case n4: None
          show ?thesis
          proof (cases e5)
            case (Some err)
            with v n1 n n2 rb n3 sec n4 cm show ?thesis
              by (simp add: runPipeline_def failing_branch[OF t5 m])
          next
            case n5: None
            show ?thesis
            proof (cases e6)
              case (Some err)
              with v n1 n n2 rb n3 sec n4 cm n5 sv show ?thesis
                by (simp add: runPipeline_def failing_branch[OF t6 m'])
            next
              case n6: None
              show ?thesis
              proof (cases e7)
                case (Some err)
                with v n1 n n2 rb n3 sec n4 cm n5 sv n6 wb show ?thesis
                  by (simp add: runPipeline_def failing_branch[OF t7 m'])
              next
                case n7: None
                with v n1 n n2 rb n3 sec n4 cm n5 sv n6 wb show ?thesis
                  by (simp add: runPipeline_def final_branch[OF t7 m'])
              qed
            qed
          qed
        qed
      qed
    qed
  qed
qed

lemma reconcileDelete_writes:
  "writesAll (\<lambda>st. ObservedGeneration st = Generation (ObjectMeta kubenova) \<and> Phase st = PhaseDeleting)
     s (snd (reconcileDelete r kubenova s))"
proof -
  let ?P = "\<lambda>st. ObservedGeneration st = Generation (ObjectMeta kubenova) \<and> Phase st = PhaseDeleting"
  let ?k0 = "setStatusPhase (r_Now r s) kubenova PhaseDeleting zh_deleting_resources"
  obtain e k s1 where w: "updateStatusWithRetry r ?k0 s = ((e, k), s1)"
    by (cases "updateStatusWithRetry r ?k0 s") auto
  have s1: "writesAll ?P s s1"
    using writer_writesAll[of ?P ?k0 s r] w by (simp add: setStatusPhase_def)
  let ?key = "\<lparr>nn_Namespace = [], nn_Name = ''kube-nova-'' @ Namespace (ObjectMeta k) @ ''-''
                           @ Name (ObjectMeta k) @ ''-cluster-admin''\<rparr>"
  obtain g s2 where g: "r_Get_ClusterRoleBinding r ?key s1 = (g, s2)"
    by (cases "r_Get_ClusterRoleBinding r ?key s1")
  have s2: "writesAll ?P s1 s2"
    using stageSteps_writesAll[OF get_steps(3)[of s1 r ?key]] g by simp
  have fin: "writesAll ?P s' (snd (removeFinalizerAndUpdate r k s'))" for s'
    by (rule writesAll_one[of _ _ "EvUpdate (ObjKubeNova (RemoveFinalizer k kubenovaFinalizer))
                                     (fst (Update r (ObjKubeNova (RemoveFinalizer k kubenovaFinalizer)) (fst s')))"])
       (simp_all add: removeFinalizerAndUpdate_def r_Update_def split_beta split: option.splits)
  have del: "writesAll ?P s' (snd (r_Delete r x s'))" for s' x
    by (rule writesAll_one[of _ _ "EvDelete x (fst (Delete r x (fst s')))"])
       (simp_all add: r_Delete_def split_beta)
  note s12 = writesAll_trans[OF s1 s2]
  show ?thesis
  proof (cases g)
    case (Inl err)
    with w g show ?thesis
      by (simp add: reconcileDelete_def Let_def) (rule writesAll_trans[OF s12 fin])
  next
    case (Inr crb)
    obtain d s3 where d: "r_Delete r (ObjClusterRoleBinding crb) s2 = (d, s3)"
      by (cases "r_Delete r (ObjClusterRoleBinding crb) s2")
    have s3: "writesAll ?P s s3"
      using writesAll_trans[OF s12 del[of s2 "ObjClusterRoleBinding crb"]] d by simp
    show ?thesis
      using w g Inr d s3 writesAll_trans[OF s3 fin[of s3]]
      by (cases d) (simp_all add: reconcileDelete_def Let_def)
  qed
qed

lemma writesAll_mono:
  "(\<And>x. P x \<Longrightarrow> Q x) \<Longrightarrow> writesAll P s s' \<Longrightarrow> writesAll Q s s'"
  unfolding writesAll_def list_all_iff by blast

lemma writesAll_all:
  "writesAll P s s' \<Longrightarrow> collect statusWrites (snd s) = [] \<Longrightarrow>
     \<forall>sent \<in> set (collect statusWrites (snd s')). P (Status sent)"
  unfolding writesAll_def list_all_iff by auto

lemma Reconcile_writes:
  assumes "Get_KubeNova r req w = (Inr fetched, w1)"
  shows "writesAll (\<lambda>st. ObservedGeneration st = Generation (ObjectMeta fetched))
           (w1, [EvGet KindKubeNova req (Inr (ObjKubeNova fetched))])
           (snd (Reconcile r b req (w, [])))
         \<and> ((\<exists>res err. fst (Reconcile r b req (w, [])) = Return (res, Some err)) \<longrightarrow>
              writesAll (\<lambda>st. Phase st = PhaseFailed \<or> Phase st = PhaseDeleting)
                (w1, [EvGet KindKubeNova req (Inr (ObjKubeNova fetched))])
                (snd (Reconcile r b req (w, []))))"
proof -
  let ?s1 = "(w1, [EvGet KindKubeNova req (Inr (ObjKubeNova fetched))])"
  let ?G = "\<lambda>st. ObservedGeneration st = Generation (ObjectMeta fetched)"
  let ?F = "\<lambda>st. Phase st = PhaseFailed \<or> Phase st = PhaseDeleting"
  have get: "r_Get_KubeNova r req (w, []) = (Inr fetched, ?s1)"
    using assms by (simp add: r_Get_KubeNova_def do_get_def)
  show ?thesis
  proof (cases "\<not> IsZero (DeletionTimestamp (ObjectMeta fetched))")
    case True
    have out: "snd (Reconcile r b req (w, [])) = snd (reconcileDelete r fetched ?s1)"
      using get True by (simp add: Reconcile_def split_beta)
    note d = reconcileDelete_writes[of fetched ?s1 r]
    have "writesAll ?G ?s1 (snd (reconcileDelete r fetched ?s1))"
      by (rule writesAll_mono[OF _ d]) simp
    moreover have "writesAll ?F ?s1 (snd (reconcileDelete r fetched ?s1))"
      by (rule writesAll_mono[OF _ d]) simp
    ultimately show ?thesis
      unfolding out by simp
  next
    case live: False
    show ?thesis
    proof (cases "\<not> ContainsFinalizer fetched kubenovaFinalizer")
      case True
      let ?x = "ObjKubeNova (AddFinalizer fetched kubenovaFinalizer)"
      have out: "snd (Reconcile r b req (w, [])) = snd (r_Update r ?x ?s1)"
        using get live True by (simp add: Reconcile_def split_beta split: option.splits)
      have "writesAll P ?s1 (snd (r_Update r ?x ?s1))" for P
        by (rule writesAll_one[of _ _ "EvUpdate ?x (fst (Update r ?x w1))"])
           (simp_all add: r_Update_def split_beta)
      then show ?thesis
        unfolding out by simp
    next
      case marked: False
      show ?thesis
      proof (cases "ObservedGeneration (Status fetched) = Generation (ObjectMeta fetched)
                    \<and> Phase (Status fetched) = PhaseReady")
        case True
        with get live marked show ?thesis
          by (simp add: Reconcile_def)
      next
        case False
        have out: "Reconcile r b req (w, []) = runPipeline r b fetched ?s1"
          using get live marked False by (auto simp: Reconcile_def)
        from runPipeline_writes[of fetched ?s1 r b]
        show ?thesis
          unfolding out pipelineWrites_def
          by (auto elim: writesAll_mono[rotated])
      qed
    qed
  qed
qed

text \<open>
  Claim C1, as the code has it. Every status document a pass sends carries the generation
  of the root as its observed generation, whatever the outcome of the pass; and a pass that
  returns an error sends no status with phase \<open>Ready\<close>: the phases it sends are \<open>Failed\<close>
  (a stage failed) or \<open>Deleting\<close> (the deletion lifecycle). So an observed generation equal
  to the generation tells that the desired state was seen, and only together with phase
  \<open>Ready\<close> that it was reached, which is what the controller's own skip test checks.
\<close>

theorem generation_bookkeeping:
  assumes "Get_KubeNova r req w = (Inr fetched, w1)"
  shows "(\<forall>sent \<in> set (collect statusWrites (snd (snd (Reconcile r b req (w, []))))).
            ObservedGeneration (Status sent) = Generation (ObjectMeta fetched))
         \<and> (\<forall>res err. fst (Reconcile r b req (w, [])) = Return (res, Some err) \<longrightarrow>
              (\<forall>sent \<in> set (collect statusWrites (snd (snd (Reconcile r b req (w, []))))).
                 Phase (Status sent) = PhaseFailed \<or> Phase (Status sent) = PhaseDeleting))"
proof -
  let ?s1 = "(w1, [EvGet KindKubeNova req (Inr (ObjKubeNova fetched))])"
  have q: "collect statusWrites (snd ?s1) = []"
    by simp
  from Reconcile_writes[OF assms, of b]
  have a: "writesAll (\<lambda>st. ObservedGeneration st = Generation (ObjectMeta fetched)) ?s1
             (snd (Reconcile r b req (w, [])))"
    and f: "(\<exists>res err. fst (Reconcile r b req (w, [])) = Return (res, Some err)) \<Longrightarrow>
              writesAll (\<lambda>st. Phase st = PhaseFailed \<or> Phase st = PhaseDeleting) ?s1
                (snd (Reconcile r b req (w, [])))"
    by blast+
  from writesAll_all[OF a q]
  have g: "\<forall>sent \<in> set (collect statusWrites (snd (snd (Reconcile r b req (w, []))))).
            ObservedGeneration (Status sent) = Generation (ObjectMeta fetched)" .
  have "\<forall>sent \<in> set (collect statusWrites (snd (snd (Reconcile r b req (w, []))))).
          Phase (Status sent) = PhaseFailed \<or> Phase (Status sent) = PhaseDeleting"
    if "fst (Reconcile r b req (w, [])) = Return (res, Some err)" for res err
    using writesAll_all[OF f q] that by blast
  with g show ?thesis by blast
qed

lemma scripted_namespace_simps:
  "Get_Namespace scriptedReconciler key (ReplyError err # rest) = (Inl err, rest)"
  by (simp add: scriptedReconciler_def scripted_get_def)

lemmas validator_eval =
  ValidateKubeNova_def validateDatabase_def validateCache_def validateStorage_def
  validateJWT_def ValidateWebConfig_def IsTelemetryEnabled_def

lemmas pass_eval =
  Reconcile_def runPipeline_def stageFailed_def reconcileValidation_def reconcileNamespace_def
  updateStatusWithRetry_def updateStatusWithRetry_loop.simps
  r_Get_KubeNova_def r_Get_Namespace_def r_Status_Update_def do_get_def r_Now_def
  scripted_simps scripted_namespace_simps scripted_deployment_simps(3)
  IsZero_def ContainsFinalizer_def setStatusPhase_def setCondition_def SetStatusCondition_def
  Let_def

lemma namespaceMissing_run:
  "\<exists>sent tr.
     Reconcile scriptedReconciler sampleBuilder (rootKey sampleKubeNova) (namespaceMissing, [])
       = (Return (\<lparr>Requeue = False, RequeueAfter = Minute\<rparr>,
                  Some (Errorf (zh_namespace @ '' nova '' @ zh_namespace_missing))),
          ([], tr))
     \<and> collect statusWrites tr = [sent]
     \<and> Phase (Status sent) = PhaseFailed"
  by (simp add: namespaceMissing_def pass_eval validator_eval rootKey_def notFound_def
                IsNotFound_def sampleKubeNova_def sampleSpec_def Status_zero_def
                ObjectMeta_zero_def)

text \<open>
  The theorem at a pass that finds the namespace missing.
\<close>

theorem generation_bookkeeping_witness:
  "Get_KubeNova scriptedReconciler (rootKey sampleKubeNova) namespaceMissing
     = (Inr sampleKubeNova, tl namespaceMissing)
   \<and> fst (Reconcile scriptedReconciler sampleBuilder (rootKey sampleKubeNova) (namespaceMissing, []))
       = Return (\<lparr>Requeue = False, RequeueAfter = Minute\<rparr>,
                 Some (Errorf (zh_namespace @ '' nova '' @ zh_namespace_missing)))
   \<and> sentGenerations
        (snd (snd (Reconcile scriptedReconciler sampleBuilder (rootKey sampleKubeNova)
                     (namespaceMissing, []))))
       = [Generation (ObjectMeta sampleKubeNova)]
   \<and> sentPhases
        (snd (snd (Reconcile scriptedReconciler sampleBuilder (rootKey sampleKubeNova)
                     (namespaceMissing, []))))
       = [PhaseFailed]"
proof -
  have get: "Get_KubeNova scriptedReconciler (rootKey sampleKubeNova) namespaceMissing
               = (Inr sampleKubeNova, tl namespaceMissing)"
    by (simp add: namespaceMissing_def scripted_simps)
  from namespaceMissing_run obtain sent tr where
    run: "Reconcile scriptedReconciler sampleBuilder (rootKey sampleKubeNova) (namespaceMissing, [])
       = (Return (\<lparr>Requeue = False, RequeueAfter = Minute\<rparr>,
                  Some (Errorf (zh_namespace @ '' nova '' @ zh_namespace_missing))),
          ([], tr))"
    and ws: "collect statusWrites tr = [sent]"
    and ph: "Phase (Status sent) = PhaseFailed"
    by blast
  from generation_bookkeeping[OF get, of sampleBuilder]
  have "\<forall>x \<in> set (collect statusWrites tr).
          ObservedGeneration (Status x) = Generation (ObjectMeta sampleKubeNova)"
    by (simp add: run)
  then have g: "ObservedGeneration (Status sent) = Generation (ObjectMeta sampleKubeNova)"
    by (simp add: ws)
  show ?thesis
    using get g ph by (simp add: run sentGenerations_def sentPhases_def ws)
qed

text \<open>
  Claim C1 as stated fails. The root has generation 2 and observed generation 1, and its
  desired state names no database host. Validation fails, the pass returns the error, and
  the status it has written, accepted by the store, has phase \<open>Failed\<close> and observed
  generation 2.
\<close>

theorem failed_pass_advances_observed_generation:
  "ObservedGeneration (Status invalidRoot) = 1
   \<and> Generation (ObjectMeta invalidRoot) = 2
   \<and> Reconcile scriptedReconciler sampleBuilder (rootKey invalidRoot) (validationFails, [])
       = (Return (\<lparr>Requeue = False, RequeueAfter = Minute\<rparr>,
                  Some (Errorf_w zh_v_database (Errorf zh_v_db_host))),
          ([],
           [EvGet KindKubeNova (rootKey invalidRoot) (Inr (ObjKubeNova invalidRoot)),
            EvGet KindKubeNova (rootKey invalidRoot) (Inr (ObjKubeNova invalidRoot)),
            EvStatusUpdate failedRoot (Inr failedRoot)]))
   \<and> Phase (Status failedRoot) = PhaseFailed
   \<and> ObservedGeneration (Status failedRoot) = 2"
  by (simp add: validationFails_def pass_eval validator_eval rootKey_def
                invalidRoot_def failedRoot_def failedStatus_def
                Errorf_def Errorf_w_def ConditionTypeValidated_def
                sampleKubeNova_def sampleSpec_def Status_zero_def ObjectMeta_zero_def)

section \<open>The workload update path\<close>





lemma stageSteps_prefix: "stageSteps s s' \<Longrightarrow> take (length (snd s)) (snd s') = snd s"
  by (auto simp: stageSteps_def)

lemma andThen_prefix:
  assumes "\<And>s1. stageSteps s1 (snd (k s1))"
  shows "take (length (snd (snd res))) (snd (snd (andThen res k))) = snd (snd res)"
proof -
  have "stageSteps (snd res) (snd (andThen res k))"
    by (rule andThen_steps[OF stageSteps_refl assms])
  then show ?thesis
    by (rule stageSteps_prefix)
qed






lemma scripted_update_simps:
  "Update scriptedReconciler x (ReplyOK # rest) = (None, rest)"
  "SetControllerReference scriptedReconciler owner m = Inr (ownedBy owner m)"
  by (simp_all add: scriptedReconciler_def scripted_ack_def)

lemma desiredWeb_simps:
  "Replicas (dp_Spec desiredWeb) = Some 3"
  "ServiceAccountName (tpl_Spec (Template (dp_Spec desiredWeb))) = []"
  "Name (dp_ObjectMeta desiredWeb) = ''kube-nova-web''"
  by (simp_all add: desiredWeb_def buildWebDeployment_def Let_def GetWebReplicas_def
                    sampleKubeNova_customNginx_def sampleKubeNova_def sampleSpec_def
                    ObjectMeta_zero_def)





section \<open>The diff engine on the front-end workload\<close>

lemma web_splices:
  "spliceWebDeployment liveDefaultWeb ownedWeb = ownedWeb"
  "spliceWebDeployment ownedWeb ownedWeb = ownedWeb"
  by code_simp+

lemma web_never_equal:
  "\<not> deploymentSpecEqual (dp_Spec liveDefaultWeb) (dp_Spec desiredWeb)"
  "\<not> deploymentSpecEqual (dp_Spec ownedWeb) (dp_Spec desiredWeb)"
  by code_simp+

lemma web_sources_only:
  "map vol_Name (Volumes (tpl_Spec (Template (dp_Spec desiredWeb))))
     = map vol_Name (Volumes (tpl_Spec (Template (dp_Spec liveDefaultWeb))))"
  "dp_Spec desiredWeb
     = withVolumes (dp_Spec liveDefaultWeb) (Volumes (tpl_Spec (Template (dp_Spec desiredWeb))))"
  "Volumes (tpl_Spec (Template (dp_Spec liveDefaultWeb)))
     \<noteq> Volumes (tpl_Spec (Template (dp_Spec desiredWeb)))"
  "dp_Spec ownedWeb = dp_Spec desiredWeb"
  by code_simp+

lemma reconcileWeb_rewrites:
  assumes "script = [ReplyObj (ObjDeployment live), ReplyObj (ObjDeployment live), ReplyOK,
                     ReplyObj (ObjService sampleWebService)]"
    and "\<not> deploymentSpecEqual (dp_Spec live) (dp_Spec desiredWeb)"
    and "spliceWebDeployment live ownedWeb = written"
  shows "reconcileWeb scriptedReconciler sampleBuilder sampleKubeNova_customNginx (script, [])
       = (None,
          ([],
           [EvGet KindDeployment (webKey ''nova'') (Inr (ObjDeployment live)),
            EvGet KindDeployment (webKey ''nova'') (Inr (ObjDeployment live)),
            EvUpdate (ObjDeployment written) None,
            EvGet KindService (webKey ''nova'') (Inr (ObjService sampleWebService))]))"
proof -
  have own: "(buildWebDeployment sampleKubeNova_customNginx ''nova'')
               \<lparr>dp_ObjectMeta := ownedBy sampleKubeNova_customNginx
                   (dp_ObjectMeta (buildWebDeployment sampleKubeNova_customNginx ''nova''))\<rparr>
             = ownedWeb"
    by (simp add: ownedWeb_def desiredWeb_def)
  have nm: "Name (ownedBy sampleKubeNova_customNginx
                    (dp_ObjectMeta (buildWebDeployment sampleKubeNova_customNginx ''nova'')))
              = ''kube-nova-web''"
    using desiredWeb_simps(3) by (simp add: ownedBy_def desiredWeb_def)
  have nm': "Name (dp_ObjectMeta ownedWeb) = ''kube-nova-web''"
    using desiredWeb_simps(3) by (simp add: ownedWeb_def ownedBy_def)
  have ns: "Namespace (ObjectMeta sampleKubeNova_customNginx) = ''nova''"
    by (simp add: sampleKubeNova_customNginx_def sampleKubeNova_def ObjectMeta_zero_def)
  have ne: "\<not> deploymentSpecEqual (dp_Spec live)
              (dp_Spec (buildWebDeployment sampleKubeNova_customNginx ''nova''))"
    using assms(2) by (simp add: desiredWeb_def)
  have svc: "Name (ownedBy sampleKubeNova_customNginx (svc_ObjectMeta sampleWebService))
               = ''kube-nova-web''"
    by (simp add: ownedBy_def sampleWebService_def ObjectMeta_zero_def)
  show ?thesis
    by (simp add: reconcileWeb_def sampleBuilder_def Let_def ns andThen_def syncDeployment_def
                  syncService_def getOrCreate_def wrapError_def scripted_update_simps own nm nm' ne svc
                  r_Get_Deployment_def r_Get_Service_def r_Update_def do_get_def
                  scripted_deployment_simps scripted_more_simps assms(1) assms(3) webKey_def)
qed

text \<open>
  Claim C9 fails in the code on the front-end workload. The document the store holds and
  the desired one differ in nothing but the source of the volume \<^verbatim>\<open>nginx-config\<close>, yet the
  diff engine reports them unequal and the stage writes the workload. The cause is not the
  volume: that volume is mounted at two paths, the mount comparison keeps one mount per
  name, and so even the desired document itself, held by the store, is reported unequal
  and written again.
\<close>

theorem web_volume_source_reported_unequal:
  "map vol_Name (Volumes (tpl_Spec (Template (dp_Spec desiredWeb))))
     = map vol_Name (Volumes (tpl_Spec (Template (dp_Spec liveDefaultWeb))))
   \<and> dp_Spec desiredWeb
       = withVolumes (dp_Spec liveDefaultWeb) (Volumes (tpl_Spec (Template (dp_Spec desiredWeb))))
   \<and> Volumes (tpl_Spec (Template (dp_Spec liveDefaultWeb)))
       \<noteq> Volumes (tpl_Spec (Template (dp_Spec desiredWeb)))
   \<and> \<not> deploymentSpecEqual (dp_Spec liveDefaultWeb) (dp_Spec desiredWeb)
   \<and> reconcileWeb scriptedReconciler sampleBuilder sampleKubeNova_customNginx (sourceChangedScript, [])
       = (None,
          ([],
           [EvGet KindDeployment (webKey ''nova'') (Inr (ObjDeployment liveDefaultWeb)),
            EvGet KindDeployment (webKey ''nova'') (Inr (ObjDeployment liveDefaultWeb)),
            EvUpdate (ObjDeployment ownedWeb) None,
            EvGet KindService (webKey ''nova'') (Inr (ObjService sampleWebService))]))
   \<and> dp_Spec ownedWeb = dp_Spec desiredWeb
   \<and> \<not> deploymentSpecEqual (dp_Spec ownedWeb) (dp_Spec desiredWeb)
   \<and> reconcileWeb scriptedReconciler sampleBuilder sampleKubeNova_customNginx (steadyWebScript, [])
       = (None,
          ([],
           [EvGet KindDeployment (webKey ''nova'') (Inr (ObjDeployment ownedWeb)),
            EvGet KindDeployment (webKey ''nova'') (Inr (ObjDeployment ownedWeb)),
            EvUpdate (ObjDeployment ownedWeb) None,
            EvGet KindService (webKey ''nova'') (Inr (ObjService sampleWebService))]))"
  using web_sources_only web_never_equal
        reconcileWeb_rewrites[OF sourceChangedScript_def web_never_equal(1) web_splices(1)]
        reconcileWeb_rewrites[OF steadyWebScript_def web_never_equal(2) web_splices(2)]
  by blast

section \<open>Creation and deletion of the cluster-scoped binding\<close>













section \<open>The phase the aggregator reports\<close>

lemma accepting_simps:
  "Get_Deployment acceptingStore key (ReplyError err # rest) = (Inl err, rest)"
  "Get_Service acceptingStore key (ReplyError err # rest) = (Inl err, rest)"
  "Get_KubeNova acceptingStore key (ReplyObj (ObjKubeNova x) # rest) = (Inr x, rest)"
  "Status_Update acceptingStore y w = (Inr y, w)"
  "Now acceptingStore w = 1700000000"
  by (simp_all add: acceptingStore_def scriptedReconciler_def scripted_get_def)

lemmas report_eval =
  checkComponentStatus_def aggregateComponents_def backendServices_def checkWeb_def
  updateAccessInfo_def updateWebURL_def updateStatusWithRetry_def
  updateStatusWithRetry_loop.simps
  r_Get_Deployment_def r_Get_Service_def r_Get_KubeNova_def r_Status_Update_def do_get_def
  r_Now_def accepting_simps Let_def
  setOverallStatus_def setCondition_def setStatusPhase_def SetStatusCondition_def
  staleRoot_def sampleKubeNova_def Status_zero_def sampleSpec_def ObjectMeta_zero_def

text \<open>
  Claim C5 fails in the code when a workload cannot be read. The root's status holds a
  \<open>Pending\<close> entry for \<^verbatim>\<open>portal-api\<close>; in this pass the read of that workload times out
  and no other workload exists. The stage writes, and returns, a status with phase
  \<open>Ready\<close>, message and condition "all components ready", that still holds the
  \<open>Pending\<close> entry and has no entry for the front end.
\<close>

theorem ready_phase_with_pending_entry:
  "map_option State (componentEntry staleRoot ''portal-api'') = Some ComponentStatePending
   \<and> \<not> IsNotFound serverTimeout
   \<and> fst (checkComponentStatus acceptingStore staleRoot (unreadableReads, []))
       = Return (None, unreadableReport)
   \<and> collect deploymentRead (snd (snd (checkComponentStatus acceptingStore staleRoot (unreadableReads, []))))
       = [(''portal-api'', Inl serverTimeout), (''portal-rpc'', Inl notFound),
          (''manager-api'', Inl notFound), (''manager-rpc'', Inl notFound),
          (''workload-api'', Inl notFound), (''console-api'', Inl notFound),
          (''console-rpc'', Inl notFound), (''kube-nova-web'', Inl notFound)]
   \<and> collect statusWrites (snd (snd (checkComponentStatus acceptingStore staleRoot (unreadableReads, []))))
       = [unreadableReport]
   \<and> Phase (Status unreadableReport) = PhaseReady
   \<and> Message (Status unreadableReport) = zh_all_components_ok
   \<and> conditionStatus ConditionTypeReady unreadableReport = Some ConditionTrue
   \<and> readyReason unreadableReport = Some ''AllComponentsReady''
   \<and> map_option State (componentEntry unreadableReport ''portal-api'') = Some ComponentStatePending
   \<and> componentEntry unreadableReport ''kube-nova-web'' = None"
proof -
  have a: "map_option State (componentEntry staleRoot ''portal-api'') = Some ComponentStatePending"
    by (simp add: componentEntry_def servicesOf_def staleRoot_def serviceComponentStatus_def Let_def)
  have b: "\<not> IsNotFound serverTimeout"
    by (simp add: IsNotFound_def serverTimeout_def)
  have c: "\<exists>k. fst (checkComponentStatus acceptingStore staleRoot (unreadableReads, []))
                 = Return (None, k)
               \<and> collect statusWrites
                    (snd (snd (checkComponentStatus acceptingStore staleRoot (unreadableReads, []))))
                  = [k]
               \<and> Phase (Status k) = PhaseReady
               \<and> Message (Status k) = zh_all_components_ok
               \<and> conditionStatus ConditionTypeReady k = Some ConditionTrue
               \<and> readyReason k = Some ''AllComponentsReady''
               \<and> map_option State (componentEntry k ''portal-api'') = Some ComponentStatePending
               \<and> componentEntry k ''kube-nova-web'' = None"
    by (simp add: unreadableReads_def report_eval componentEntry_def servicesOf_def
                  conditionStatus_def readyReason_def ConditionTypeReady_def
                  serviceComponentStatus_def)
  then obtain k where k: "fst (checkComponentStatus acceptingStore staleRoot (unreadableReads, []))
                 = Return (None, k)"
    and rest: "collect statusWrites
                    (snd (snd (checkComponentStatus acceptingStore staleRoot (unreadableReads, []))))
                  = [k]"
      "Phase (Status k) = PhaseReady" "Message (Status k) = zh_all_components_ok"
      "conditionStatus ConditionTypeReady k = Some ConditionTrue"
      "readyReason k = Some ''AllComponentsReady''"
      "map_option State (componentEntry k ''portal-api'') = Some ComponentStatePending"
      "componentEntry k ''kube-nova-web'' = None"
    by blast
  have r: "unreadableReport = k"
    by (simp add: unreadableReport_def k)
  have d: "collect deploymentRead
             (snd (snd (checkComponentStatus acceptingStore staleRoot (unreadableReads, []))))
       = [(''portal-api'', Inl serverTimeout), (''portal-rpc'', Inl notFound),
          (''manager-api'', Inl notFound), (''manager-rpc'', Inl notFound),
          (''workload-api'', Inl notFound), (''console-api'', Inl notFound),
          (''console-rpc'', Inl notFound), (''kube-nova-web'', Inl notFound)]"
    by (simp add: unreadableReads_def report_eval)
  from a b k rest d show ?thesis
    unfolding r by blast
qed


end
